theory Spec2Isabelle
  imports Main "HOL-Library.Word" "HOL-Library.Sublist"
begin

unbundle bit_operations_syntax

section \<open>The ADC hardware-trigger DMA example (AdcApp.c)\<close>

text \<open>
  A shallow embedding of \<^verbatim>\<open>mcal/examples/Adc/adc_hw_trig_dma_app/AdcApp.c\<close>.
  The application is a sequence of calls into the ADC, DMA, EPWM and utility drivers,
  a few volatile loads and stores, and updates of its file-scope variables.
  Every call, load and store that leaves the file is an \<open>event\<close>; the program state
  carries the file-scope variables and the list of events issued so far (oldest first).
  What a driver call or a load returns is not decided by this file: it is supplied by a
  \<open>platform\<close>, which answers from the complete history of events, so that the
  hardware may change its answers at any time.

  \<^verbatim>\<open>main\<close> is \<^verbatim>\<open>Adc_appInit\<close>, \<^verbatim>\<open>Adc_appTest\<close>, \<^verbatim>\<open>Adc_appDeInit\<close>. The loop counters
  of \<^verbatim>\<open>Adc_appTest\<close> and \<^verbatim>\<open>Adc_appPrintResult\<close> are 32 and 16 bits wide and bounded by
  constants or by the unsigned macro \<^verbatim>\<open>ADC_MAX_GROUP\<close>, so they are natural numbers here;
  those of \<^verbatim>\<open>Adc_appInit\<close> are 8 bits wide and are modelled with their wrap-around. The
  DMA completion callback runs in interrupt context; it is a function on the state like
  the others.
\<close>

subsection \<open>Types taken from the driver headers\<close>

datatype Adc_StatusType = ADC_IDLE | ADC_BUSY | ADC_COMPLETED | ADC_STREAM_COMPLETED

text \<open>\<^verbatim>\<open>Std_ReturnType\<close> values of AUTOSAR's Std_Types.h, at any word width.\<close>

definition E_OK :: "'a::len word" where
  "E_OK = 0"

definition E_NOT_OK :: "'a::len word" where
  "E_NOT_OK = 1"

datatype GT_level = GT_INFO | GT_ERR

datatype AppUtils_TestStatus = APP_UTILS_TEST_STATUS_PASS | APP_UTILS_TEST_STATUS_FAIL

datatype Mcal_CacheP_Type = Mcal_CacheP_TYPE_ALL

datatype Cdd_Dma_TrigMode = CDD_EDMA_TRIG_MODE_EVENT

datatype EPWM_TimeBaseCountMode = EPWM_COUNTER_MODE_UP | EPWM_COUNTER_MODE_STOP_FREEZE

datatype EPWM_ADCStartOfConversionType = EPWM_SOC_A | EPWM_SOC_B

text \<open>
  Addresses the program passes around: an element of one of its two sample buffers
  (\<^verbatim>\<open>gAdcAppSetupBuffer[g][i]\<close>, \<^verbatim>\<open>gAdcAppDmaBuffer[g][i]\<close>) or an absolute
  32-bit address.
\<close>

datatype address =
    Addr_gAdcAppSetupBuffer nat nat
  | Addr_gAdcAppDmaBuffer nat nat
  | Addr_abs "32 word"

record Cdd_Dma_ParamEntry =
  srcPtr :: address
  destPtr :: address
  aCnt :: "16 word"
  bCnt :: "16 word"
  cCnt :: "16 word"
  bCntReload :: "16 word"
  srcBIdx :: "16 word"
  destBIdx :: "16 word"
  srcCIdx :: "16 word"
  destCIdx :: "16 word"
  opt :: "32 word"

record Adc_AppLog_t =
  dmaBuff :: "16 word"
  hwResult :: "16 word"
  status :: Adc_StatusType

text \<open>
  The version record and the configuration structures of the ADC driver, with the fields
  \<^verbatim>\<open>Adc_appInit\<close> and \<^verbatim>\<open>Adc_appPrintResult\<close> print. Their C types are not among the
  sources; a field is the number that is printed. The arrays \<^verbatim>\<open>groupCfg\<close>,
  \<^verbatim>\<open>channelConfig\<close> and \<^verbatim>\<open>hwUnitCfg\<close> are read by index.
\<close>

record Std_VersionInfoType =
  vendorID :: nat
  moduleID :: nat
  sw_major_version :: nat
  sw_minor_version :: nat
  sw_patch_version :: nat

record Adc_ChannelConfigType =
  hwChannelId :: nat
  samplewindow :: nat

record Adc_GroupConfigType =
  groupId :: nat
  groupPriority :: nat
  hwUnitId :: nat
  Adc_GroupEndNotification :: nat
  streamNumSamples :: nat
  resolution :: nat
  convMode :: nat
  triggSrc :: nat
  accessMode :: nat
  streamBufMode :: nat
  hwTrigSignal :: nat
  hwTrigTimer :: nat
  groupReplacement :: nat
  groupChannelMask :: nat
  groupDataAccessMode :: nat
  numChannels :: nat
  groupDmaChannelId :: nat
  channelConfig :: "nat \<Rightarrow> Adc_ChannelConfigType"

record Adc_HwUnitConfigType =
  unit_hwUnitId :: nat
  unit_baseAddr :: nat
  unit_prescale :: nat
  unit_resolution :: nat

record Adc_ConfigType =
  maxGroup :: nat
  maxHwUnit :: nat
  groupCfg :: "nat \<Rightarrow> Adc_GroupConfigType"
  hwUnitCfg :: "nat \<Rightarrow> Adc_HwUnitConfigType"

text \<open>
  The interrupt configuration handed to \<^verbatim>\<open>vimRegisterInterrupt\<close>; its fields are
  constants of the interrupt controller's header, kept by name.
\<close>

record Vim_IntCfg =
  intcfg_map :: string
  intcfg_type :: string
  intcfg_intNum :: string
  intcfg_handler :: string
  intcfg_priority :: string

subsection \<open>Events\<close>

text \<open>
  One constructor per external function the file calls, with the arguments of the call
  and, last, the value the call returned. \<open>EPWM_call\<close> stands for the EPWM
  configuration functions whose arguments are enumeration constants of Epwm_Platform.h:
  it keeps the function's name and the argument list as written. \<open>Store32\<close> and
  \<open>Load16\<close> are the volatile accesses through absolute addresses, and
  \<open>Load_gAdcAppDmaBuffer\<close> is the read of \<^verbatim>\<open>gAdcAppDmaBuffer[g][i]\<close>, which the DMA
  engine writes behind the program's back.
\<close>

datatype event =
    Adc_GetGroupStatus nat Adc_StatusType
  | Adc_SetupResultBuffer nat address "8 word"
  | Adc_EnableGroupNotification nat
  | Adc_DisableGroupNotification nat
  | Adc_EnableHardwareTrigger nat
  | Adc_DisableHardwareTrigger nat
  | Adc_SetInterruptContinuousMode nat
  | Adc_GetReadResultBaseAddress nat "32 word"
  | Adc_DeInit
  | Cdd_Dma_DeInit
  | Adc_appPlatformDeInit
  | Cdd_Dma_ParamSet "32 word" nat nat Cdd_Dma_ParamEntry
  | Cdd_Dma_EnableTransferRegion "32 word" Cdd_Dma_TrigMode
  | memset address nat nat
  | Mcal_CacheP_wb address nat Mcal_CacheP_Type
  | Mcal_CacheP_inv address nat Mcal_CacheP_Type
  | EPWM_setTimeBaseCounterMode "32 word" EPWM_TimeBaseCountMode
  | EPWM_enableADCTrigger "32 word" EPWM_ADCStartOfConversionType
  | EPWM_disableADCTrigger "32 word" EPWM_ADCStartOfConversionType
  | EPWM_call string "32 word" "string list"
  | Store32 "32 word" "32 word"
  | Load16 "32 word" "16 word"
  | Load_gAdcAppDmaBuffer nat nat "16 word"
  | AppUtils_delay nat
  | GT_trace GT_level string "nat list"
  | AppUtils_printf string
  | AppUtils_getStackUsage "32 word"
  | AppUtils_checkStackAndSectionCorruption "8 word"
  | AppUtils_logTestResult AppUtils_TestStatus
  | Adc_appPlatformInit
  | Cdd_Dma_Init
  | Adc_Init
  | vimInit
  | vimRegisterInterrupt Vim_IntCfg
  | Cdd_Dma_CbkRegister "32 word"
  | Adc_GetVersionInfo Std_VersionInfoType
  | Cdd_Dma_GetVersionInfo Std_VersionInfoType
  | AppUtils_SchM_Enter_EXCLUSIVE_AREA_0
  | AppUtils_SchM_Exit_EXCLUSIVE_AREA_0

subsection \<open>The platform: configuration and driver answers\<close>

text \<open>
  The generated configuration (\<^verbatim>\<open>ADC_MAX_GROUP\<close>, \<^verbatim>\<open>ADC_MAX_HW_UNIT\<close>, \<^verbatim>\<open>AdcConfigSet\<close>,
  \<^verbatim>\<open>APP_NAME\<close>, the EDMA option masks) is not part of the file and is a parameter. The
  remaining fields answer the calls that return a value, from the history of events.
  What a driver does while it is called, calls back into the \<^verbatim>\<open>SchM_\<close> hooks of the
  file included, is part of the platform.
\<close>

record platform =
  ADC_MAX_GROUP :: nat
  APP_NAME :: string
  CDD_EDMA_OPT_TCINTEN_MASK :: "32 word"
  CDD_EDMA_OPT_ITCINTEN_MASK :: "32 word"
  CDD_EDMA_OPT_SYNCDIM_MASK :: "32 word"
  CDD_EDMA_OPT_STATIC_MASK :: "32 word"
  ADC_MAX_HW_UNIT :: nat
  AdcConfigSet :: Adc_ConfigType
  Adc_GetVersionInfo_ret :: "event list \<Rightarrow> Std_VersionInfoType"
  Cdd_Dma_GetVersionInfo_ret :: "event list \<Rightarrow> Std_VersionInfoType"
  Adc_GetGroupStatus_ret :: "event list \<Rightarrow> nat \<Rightarrow> Adc_StatusType"
  Adc_SetupResultBuffer_ret :: "event list \<Rightarrow> nat \<Rightarrow> 8 word"
  Adc_GetReadResultBaseAddress_ret :: "event list \<Rightarrow> nat \<Rightarrow> 32 word"
  Load_gAdcAppDmaBuffer_val :: "event list \<Rightarrow> nat \<Rightarrow> nat \<Rightarrow> 16 word"
  Load16_val :: "event list \<Rightarrow> 32 word \<Rightarrow> 16 word"
  AppUtils_getStackUsage_ret :: "event list \<Rightarrow> 32 word"
  AppUtils_checkStackAndSectionCorruption_ret :: "event list \<Rightarrow> 8 word"

subsection \<open>Macros of the file\<close>

definition ADC_APP_NUM_CHANNEL :: nat where
  "ADC_APP_NUM_CHANNEL = 1"

definition ADC_APP_DEFAULT_STREAM_SAMPLES :: nat where
  "ADC_APP_DEFAULT_STREAM_SAMPLES = 1"

definition ADC_APP_READ_BUF_SIZE_WORD :: nat where
  "ADC_APP_READ_BUF_SIZE_WORD = ADC_APP_DEFAULT_STREAM_SAMPLES * ADC_APP_NUM_CHANNEL"

definition ADC_APP_LOOPCNT :: nat where
  "ADC_APP_LOOPCNT = 10"

definition ADC_APP_DMA_CHANNEL :: "32 word" where
  "ADC_APP_DMA_CHANNEL = 0"

definition ADC_APP_GROUP_ID :: nat where
  "ADC_APP_GROUP_ID = 0"

definition ADC_APP_EPWM_BASE_ADDR :: "32 word" where
  "ADC_APP_EPWM_BASE_ADDR = 0x50000000"

definition ADC_APP_LOG_SIZE :: nat where
  "ADC_APP_LOG_SIZE = 10"

text \<open>
  \<^verbatim>\<open>sizeof(Adc_ValueGroupType)\<close>: the buffers are handed to
  \<^verbatim>\<open>Adc_appDmaConfigure\<close> as \<^verbatim>\<open>const uint16 *\<close>, two bytes a sample.
\<close>

definition sizeof_Adc_ValueGroupType :: nat where
  "sizeof_Adc_ValueGroupType = 2"

text \<open>\<^verbatim>\<open>sizeof(gAdcAppDmaBuffer)\<close>, an array \<^verbatim>\<open>[ADC_MAX_GROUP][ADC_APP_READ_BUF_SIZE_WORD]\<close>.\<close>

definition sizeof_gAdcAppDmaBuffer :: "platform \<Rightarrow> nat" where
  "sizeof_gAdcAppDmaBuffer env =
     ADC_MAX_GROUP env * ADC_APP_READ_BUF_SIZE_WORD * sizeof_Adc_ValueGroupType"

definition crlf :: string where
  "crlf = [CHR 0x0D, CHR 0x0A]"

definition lfcr :: string where
  "lfcr = [CHR 0x0A, CHR 0x0D]"

subsection \<open>Program state\<close>

text \<open>
  The file-scope variables the program itself writes, and the events so far. The two
  sample buffers are written by the ADC driver and the DMA engine only (the program
  zeroes \<^verbatim>\<open>gAdcAppDmaBuffer\<close> with \<open>memset\<close> and reads one element of it), so their
  contents belong to the platform. \<^verbatim>\<open>gAdcAppLog\<close> is an array of \<^verbatim>\<open>ADC_APP_LOG_SIZE\<close>
  entries and every index the program uses is below that size; the list that stands
  for it has this length in the initial state \<open>app_start\<close>, and every function keeps
  the length.
\<close>

record app_state =
  gTestPassed :: "32 word"
  gAdcAppDmaCallbackCount :: "32 word"
  gAdcAppLog :: "Adc_AppLog_t list"
  trace :: "event list"

definition emit :: "event \<Rightarrow> app_state \<Rightarrow> app_state" where
  "emit e s = s\<lparr>trace := trace s @ [e]\<rparr>"

definition emits :: "event list \<Rightarrow> app_state \<Rightarrow> app_state" where
  "emits es s = s\<lparr>trace := trace s @ es\<rparr>"

text \<open>A C loop \<^verbatim>\<open>for (i = i0; i < n; i++) body\<close> whose body does not write \<open>i\<close>.\<close>

function for_loop :: "nat \<Rightarrow> nat \<Rightarrow> (nat \<Rightarrow> 'a \<Rightarrow> 'a) \<Rightarrow> 'a \<Rightarrow> 'a" where
  "for_loop i n body s = (if i < n then for_loop (i + 1) n body (body i s) else s)"
  by pat_completeness auto
termination
  by (relation "measure (\<lambda>(i, n, body, s). n - i)") auto

declare for_loop.simps [simp del]

subsection \<open>Calls that return a value\<close>

definition call_Adc_GetGroupStatus ::
  "platform \<Rightarrow> nat \<Rightarrow> app_state \<Rightarrow> Adc_StatusType \<times> app_state" where
  "call_Adc_GetGroupStatus env g s =
     (let r = Adc_GetGroupStatus_ret env (trace s) g in (r, emit (Adc_GetGroupStatus g r) s))"

definition call_Adc_SetupResultBuffer ::
  "platform \<Rightarrow> nat \<Rightarrow> address \<Rightarrow> app_state \<Rightarrow> 8 word \<times> app_state" where
  "call_Adc_SetupResultBuffer env g p s =
     (let r = Adc_SetupResultBuffer_ret env (trace s) g
      in (r, emit (Adc_SetupResultBuffer g p r) s))"

definition call_Adc_GetReadResultBaseAddress ::
  "platform \<Rightarrow> nat \<Rightarrow> app_state \<Rightarrow> 32 word \<times> app_state" where
  "call_Adc_GetReadResultBaseAddress env g s =
     (let r = Adc_GetReadResultBaseAddress_ret env (trace s) g
      in (r, emit (Adc_GetReadResultBaseAddress g r) s))"

definition load_gAdcAppDmaBuffer ::
  "platform \<Rightarrow> nat \<Rightarrow> nat \<Rightarrow> app_state \<Rightarrow> 16 word \<times> app_state" where
  "load_gAdcAppDmaBuffer env g i s =
     (let v = Load_gAdcAppDmaBuffer_val env (trace s) g i
      in (v, emit (Load_gAdcAppDmaBuffer g i v) s))"

definition load16 :: "platform \<Rightarrow> 32 word \<Rightarrow> app_state \<Rightarrow> 16 word \<times> app_state" where
  "load16 env a s = (let v = Load16_val env (trace s) a in (v, emit (Load16 a v) s))"

definition call_AppUtils_getStackUsage ::
  "platform \<Rightarrow> app_state \<Rightarrow> 32 word \<times> app_state" where
  "call_AppUtils_getStackUsage env s =
     (let r = AppUtils_getStackUsage_ret env (trace s) in (r, emit (AppUtils_getStackUsage r) s))"

definition call_AppUtils_checkStackAndSectionCorruption ::
  "platform \<Rightarrow> app_state \<Rightarrow> 8 word \<times> app_state" where
  "call_AppUtils_checkStackAndSectionCorruption env s =
     (let r = AppUtils_checkStackAndSectionCorruption_ret env (trace s)
      in (r, emit (AppUtils_checkStackAndSectionCorruption r) s))"

subsection \<open>The functions of the file\<close>

definition Adc_appPrintStatus :: "nat \<Rightarrow> Adc_StatusType \<Rightarrow> app_state \<Rightarrow> app_state" where
  "Adc_appPrintStatus grpIdx st s =
     (let s = emit (GT_trace GT_INFO '' ADC Group %d Status: '' [grpIdx]) s
      in case st of
           ADC_IDLE \<Rightarrow> emit (GT_trace GT_INFO ''ADC_IDLE  !'' []) s
         | ADC_BUSY \<Rightarrow> emit (GT_trace GT_INFO ''ADC_BUSY !'' []) s
         | ADC_COMPLETED \<Rightarrow> emit (GT_trace GT_INFO ''ADC_COMPLETED !'' []) s
         | ADC_STREAM_COMPLETED \<Rightarrow> emit (GT_trace GT_INFO ''ADC_STREAM_COMPLETED !'' []) s)"

definition Adc_appEpwmEnable :: "32 word \<Rightarrow> app_state \<Rightarrow> app_state" where
  "Adc_appEpwmEnable baseAddr s = emits [
      EPWM_call ''EPWM_setClockPrescaler'' baseAddr [''EPWM_CLOCK_DIVIDER_8'', ''EPWM_HSCLOCK_DIVIDER_1''],
      EPWM_call ''EPWM_setTimeBasePeriod'' baseAddr [''25000''],
      EPWM_call ''EPWM_disableGlobalLoadRegisters'' baseAddr [''EPWM_GL_REGISTER_TBPRD_TBPRDHR''],
      EPWM_call ''EPWM_setPeriodLoadMode'' baseAddr [''EPWM_PERIOD_SHADOW_LOAD''],
      EPWM_call ''EPWM_setTimeBaseCounter'' baseAddr [''0''],
      EPWM_setTimeBaseCounterMode baseAddr EPWM_COUNTER_MODE_STOP_FREEZE,
      EPWM_call ''EPWM_setCountModeAfterSync'' baseAddr [''EPWM_COUNT_MODE_DOWN_AFTER_SYNC''],
      EPWM_call ''EPWM_disablePhaseShiftLoad'' baseAddr [],
      EPWM_call ''EPWM_setPhaseShift'' baseAddr [''0''],
      EPWM_call ''EPWM_enableSyncOutPulseSource'' baseAddr [''0''],
      EPWM_call ''EPWM_setSyncInPulseSource'' baseAddr [''EPWM_SYNC_IN_PULSE_SRC_DISABLE''],
      EPWM_call ''EPWM_setOneShotSyncOutTrigger'' baseAddr [''EPWM_OSHT_SYNC_OUT_TRIG_SYNC''],
      EPWM_call ''EPWM_setCounterCompareValue'' baseAddr [''EPWM_COUNTER_COMPARE_A'', ''12500''],
      EPWM_call ''EPWM_disableGlobalLoadRegisters'' baseAddr [''EPWM_GL_REGISTER_CMPA_CMPAHR''],
      EPWM_call ''EPWM_setCounterCompareShadowLoadMode'' baseAddr [''EPWM_COUNTER_COMPARE_A'', ''EPWM_COMP_LOAD_ON_CNTR_ZERO''],
      EPWM_call ''EPWM_setCounterCompareValue'' baseAddr [''EPWM_COUNTER_COMPARE_B'', ''0''],
      EPWM_call ''EPWM_disableGlobalLoadRegisters'' baseAddr [''EPWM_GL_REGISTER_CMPB_CMPBHR''],
      EPWM_call ''EPWM_setCounterCompareShadowLoadMode'' baseAddr [''EPWM_COUNTER_COMPARE_B'', ''EPWM_COMP_LOAD_ON_CNTR_ZERO''],
      EPWM_call ''EPWM_setCounterCompareValue'' baseAddr [''EPWM_COUNTER_COMPARE_C'', ''0''],
      EPWM_call ''EPWM_disableGlobalLoadRegisters'' baseAddr [''EPWM_GL_REGISTER_CMPC''],
      EPWM_call ''EPWM_setCounterCompareShadowLoadMode'' baseAddr [''EPWM_COUNTER_COMPARE_C'', ''EPWM_COMP_LOAD_ON_CNTR_ZERO''],
      EPWM_call ''EPWM_setCounterCompareValue'' baseAddr [''EPWM_COUNTER_COMPARE_D'', ''0''],
      EPWM_call ''EPWM_disableGlobalLoadRegisters'' baseAddr [''EPWM_GL_REGISTER_CMPD''],
      EPWM_call ''EPWM_setCounterCompareShadowLoadMode'' baseAddr [''EPWM_COUNTER_COMPARE_D'', ''EPWM_COMP_LOAD_ON_CNTR_ZERO''],
      EPWM_call ''EPWM_disableGlobalLoadRegisters'' baseAddr [''EPWM_GL_REGISTER_AQCSFRC''],
      EPWM_call ''EPWM_setActionQualifierContSWForceShadowMode'' baseAddr [''EPWM_AQ_SW_SH_LOAD_ON_CNTR_ZERO''],
      EPWM_call ''EPWM_disableGlobalLoadRegisters'' baseAddr [''EPWM_GL_REGISTER_AQCTLA_AQCTLA2''],
      EPWM_call ''EPWM_disableActionQualifierShadowLoadMode'' baseAddr [''EPWM_ACTION_QUALIFIER_A''],
      EPWM_call ''EPWM_setActionQualifierShadowLoadMode'' baseAddr [''EPWM_ACTION_QUALIFIER_A'', ''EPWM_AQ_LOAD_ON_CNTR_ZERO''],
      EPWM_call ''EPWM_setActionQualifierT1TriggerSource'' baseAddr [''EPWM_AQ_TRIGGER_EVENT_TRIG_DCA_1''],
      EPWM_call ''EPWM_setActionQualifierT2TriggerSource'' baseAddr [''EPWM_AQ_TRIGGER_EVENT_TRIG_DCA_1''],
      EPWM_call ''EPWM_setActionQualifierSWAction'' baseAddr [''EPWM_AQ_OUTPUT_A'', ''EPWM_AQ_OUTPUT_NO_CHANGE''],
      EPWM_call ''EPWM_setActionQualifierContSWForceAction'' baseAddr [''EPWM_AQ_OUTPUT_A'', ''EPWM_AQ_SW_DISABLED''],
      EPWM_call ''EPWM_disableGlobalLoadRegisters'' baseAddr [''EPWM_GL_REGISTER_AQCTLB_AQCTLB2''],
      EPWM_call ''EPWM_disableActionQualifierShadowLoadMode'' baseAddr [''EPWM_ACTION_QUALIFIER_B''],
      EPWM_call ''EPWM_setActionQualifierShadowLoadMode'' baseAddr [''EPWM_ACTION_QUALIFIER_B'', ''EPWM_AQ_LOAD_ON_CNTR_ZERO''],
      EPWM_call ''EPWM_setActionQualifierT1TriggerSource'' baseAddr [''EPWM_AQ_TRIGGER_EVENT_TRIG_DCA_1''],
      EPWM_call ''EPWM_setActionQualifierT2TriggerSource'' baseAddr [''EPWM_AQ_TRIGGER_EVENT_TRIG_DCA_1''],
      EPWM_call ''EPWM_setActionQualifierSWAction'' baseAddr [''EPWM_AQ_OUTPUT_B'', ''EPWM_AQ_OUTPUT_NO_CHANGE''],
      EPWM_call ''EPWM_setActionQualifierContSWForceAction'' baseAddr [''EPWM_AQ_OUTPUT_B'', ''EPWM_AQ_SW_DISABLED''],
      EPWM_call ''EPWM_setActionQualifierAction'' baseAddr [''EPWM_AQ_OUTPUT_A'', ''EPWM_AQ_OUTPUT_NO_CHANGE'', ''EPWM_AQ_OUTPUT_ON_TIMEBASE_ZERO''],
      EPWM_call ''EPWM_setActionQualifierAction'' baseAddr [''EPWM_AQ_OUTPUT_A'', ''EPWM_AQ_OUTPUT_NO_CHANGE'', ''EPWM_AQ_OUTPUT_ON_TIMEBASE_PERIOD''],
      EPWM_call ''EPWM_setActionQualifierAction'' baseAddr [''EPWM_AQ_OUTPUT_A'', ''EPWM_AQ_OUTPUT_HIGH'', ''EPWM_AQ_OUTPUT_ON_TIMEBASE_UP_CMPA''],
      EPWM_call ''EPWM_setActionQualifierAction'' baseAddr [''EPWM_AQ_OUTPUT_A'', ''EPWM_AQ_OUTPUT_LOW'', ''EPWM_AQ_OUTPUT_ON_TIMEBASE_DOWN_CMPA''],
      EPWM_call ''EPWM_setActionQualifierAction'' baseAddr [''EPWM_AQ_OUTPUT_A'', ''EPWM_AQ_OUTPUT_NO_CHANGE'', ''EPWM_AQ_OUTPUT_ON_TIMEBASE_UP_CMPB''],
      EPWM_call ''EPWM_setActionQualifierAction'' baseAddr [''EPWM_AQ_OUTPUT_A'', ''EPWM_AQ_OUTPUT_NO_CHANGE'', ''EPWM_AQ_OUTPUT_ON_TIMEBASE_DOWN_CMPB''],
      EPWM_call ''EPWM_setActionQualifierAction'' baseAddr [''EPWM_AQ_OUTPUT_A'', ''EPWM_AQ_OUTPUT_NO_CHANGE'', ''EPWM_AQ_OUTPUT_ON_T1_COUNT_UP''],
      EPWM_call ''EPWM_setActionQualifierAction'' baseAddr [''EPWM_AQ_OUTPUT_A'', ''EPWM_AQ_OUTPUT_NO_CHANGE'', ''EPWM_AQ_OUTPUT_ON_T1_COUNT_DOWN''],
      EPWM_call ''EPWM_setActionQualifierAction'' baseAddr [''EPWM_AQ_OUTPUT_A'', ''EPWM_AQ_OUTPUT_NO_CHANGE'', ''EPWM_AQ_OUTPUT_ON_T2_COUNT_UP''],
      EPWM_call ''EPWM_setActionQualifierAction'' baseAddr [''EPWM_AQ_OUTPUT_A'', ''EPWM_AQ_OUTPUT_NO_CHANGE'', ''EPWM_AQ_OUTPUT_ON_T2_COUNT_DOWN''],
      EPWM_call ''EPWM_setActionQualifierAction'' baseAddr [''EPWM_AQ_OUTPUT_B'', ''EPWM_AQ_OUTPUT_NO_CHANGE'', ''EPWM_AQ_OUTPUT_ON_TIMEBASE_ZERO''],
      EPWM_call ''EPWM_setActionQualifierAction'' baseAddr [''EPWM_AQ_OUTPUT_B'', ''EPWM_AQ_OUTPUT_NO_CHANGE'', ''EPWM_AQ_OUTPUT_ON_TIMEBASE_PERIOD''],
      EPWM_call ''EPWM_setActionQualifierAction'' baseAddr [''EPWM_AQ_OUTPUT_B'', ''EPWM_AQ_OUTPUT_NO_CHANGE'', ''EPWM_AQ_OUTPUT_ON_TIMEBASE_UP_CMPA''],
      EPWM_call ''EPWM_setActionQualifierAction'' baseAddr [''EPWM_AQ_OUTPUT_B'', ''EPWM_AQ_OUTPUT_NO_CHANGE'', ''EPWM_AQ_OUTPUT_ON_TIMEBASE_DOWN_CMPA''],
      EPWM_call ''EPWM_setActionQualifierAction'' baseAddr [''EPWM_AQ_OUTPUT_B'', ''EPWM_AQ_OUTPUT_NO_CHANGE'', ''EPWM_AQ_OUTPUT_ON_TIMEBASE_UP_CMPB''],
      EPWM_call ''EPWM_setActionQualifierAction'' baseAddr [''EPWM_AQ_OUTPUT_B'', ''EPWM_AQ_OUTPUT_NO_CHANGE'', ''EPWM_AQ_OUTPUT_ON_TIMEBASE_DOWN_CMPB''],
      EPWM_call ''EPWM_setActionQualifierAction'' baseAddr [''EPWM_AQ_OUTPUT_B'', ''EPWM_AQ_OUTPUT_NO_CHANGE'', ''EPWM_AQ_OUTPUT_ON_T1_COUNT_UP''],
      EPWM_call ''EPWM_setActionQualifierAction'' baseAddr [''EPWM_AQ_OUTPUT_B'', ''EPWM_AQ_OUTPUT_NO_CHANGE'', ''EPWM_AQ_OUTPUT_ON_T1_COUNT_DOWN''],
      EPWM_call ''EPWM_setActionQualifierAction'' baseAddr [''EPWM_AQ_OUTPUT_B'', ''EPWM_AQ_OUTPUT_NO_CHANGE'', ''EPWM_AQ_OUTPUT_ON_T2_COUNT_UP''],
      EPWM_call ''EPWM_setActionQualifierAction'' baseAddr [''EPWM_AQ_OUTPUT_B'', ''EPWM_AQ_OUTPUT_NO_CHANGE'', ''EPWM_AQ_OUTPUT_ON_T2_COUNT_DOWN''],
      EPWM_call ''EPWM_disableInterrupt'' baseAddr [],
      EPWM_call ''EPWM_setInterruptSource'' baseAddr [''EPWM_INT_TBCTR_ZERO'', ''EPWM_INT_TBCTR_ZERO''],
      EPWM_call ''EPWM_setInterruptEventCount'' baseAddr [''0''],
      EPWM_call ''EPWM_disableInterruptEventCountInit'' baseAddr [],
      EPWM_call ''EPWM_setInterruptEventCountInitValue'' baseAddr [''0''],
      EPWM_enableADCTrigger baseAddr EPWM_SOC_A,
      EPWM_call ''EPWM_setADCTriggerSource'' baseAddr [''EPWM_SOC_A'', ''EPWM_SOC_TBCTR_U_CMPA'', ''EPWM_SOC_TBCTR_U_CMPA''],
      EPWM_call ''EPWM_setADCTriggerEventPrescale'' baseAddr [''EPWM_SOC_A'', ''1''],
      EPWM_call ''EPWM_disableADCTriggerEventCountInit'' baseAddr [''EPWM_SOC_A''],
      EPWM_call ''EPWM_setADCTriggerEventCountInitValue'' baseAddr [''EPWM_SOC_A'', ''0''],
      EPWM_disableADCTrigger baseAddr EPWM_SOC_B,
      EPWM_call ''EPWM_setADCTriggerSource'' baseAddr [''EPWM_SOC_B'', ''EPWM_SOC_DCxEVT1'', ''EPWM_SOC_DCxEVT1''],
      EPWM_call ''EPWM_setADCTriggerEventPrescale'' baseAddr [''EPWM_SOC_B'', ''0''],
      EPWM_call ''EPWM_disableADCTriggerEventCountInit'' baseAddr [''EPWM_SOC_B''],
      EPWM_call ''EPWM_setADCTriggerEventCountInitValue'' baseAddr [''EPWM_SOC_B'', ''0''],
      EPWM_call ''EPWM_disableGlobalLoad'' baseAddr [],
      EPWM_call ''EPWM_setGlobalLoadTrigger'' baseAddr [''EPWM_GL_LOAD_PULSE_CNTR_ZERO''],
      EPWM_call ''EPWM_setGlobalLoadEventPrescale'' baseAddr [''0''],
      EPWM_call ''EPWM_disableGlobalLoadOneShotMode'' baseAddr [],
      EPWM_call ''EPWM_lockRegisters'' baseAddr [''0'']
    ] s"

definition Adc_appDisableTrigger :: "32 word \<Rightarrow> app_state \<Rightarrow> app_state" where
  "Adc_appDisableTrigger baseAddr s =
     (let s = emit (EPWM_disableADCTrigger baseAddr EPWM_SOC_A) s;
          s = emit (EPWM_disableADCTrigger baseAddr EPWM_SOC_B) s;
          s = emit (EPWM_setTimeBaseCounterMode baseAddr EPWM_COUNTER_MODE_STOP_FREEZE) s
      in s)"

definition Adc_appDmaTransferCallback :: "app_state \<Rightarrow> app_state" where
  "Adc_appDmaTransferCallback s =
     s\<lparr>gAdcAppDmaCallbackCount := gAdcAppDmaCallbackCount s + 1\<rparr>"

definition Adc_appDmaConfigure ::
  "platform \<Rightarrow> address \<Rightarrow> 16 word \<Rightarrow> 32 word \<Rightarrow> 32 word \<Rightarrow> app_state \<Rightarrow> app_state" where
  "Adc_appDmaConfigure env destPtr' len dmaCh srcAddr s =
     (let edmaParam = \<lparr>
            srcPtr = Addr_abs srcAddr,
            destPtr = destPtr',
            aCnt = len,
            bCnt = 1,
            cCnt = 1,
            bCntReload = 0,
            srcBIdx = 0,
            destBIdx = 0,
            srcCIdx = 0,
            destCIdx = 2,
            opt = CDD_EDMA_OPT_TCINTEN_MASK env OR CDD_EDMA_OPT_ITCINTEN_MASK env
                  OR CDD_EDMA_OPT_SYNCDIM_MASK env OR CDD_EDMA_OPT_STATIC_MASK env \<rparr>;
          s = emit (Cdd_Dma_ParamSet dmaCh 0 0 edmaParam) s;
          s = emit (Cdd_Dma_EnableTransferRegion dmaCh CDD_EDMA_TRIG_MODE_EVENT) s
      in s)"

text \<open>The body of the polling loop of \<^verbatim>\<open>Adc_appPrintResult\<close> (lines 359 to 365).\<close>

definition Adc_appPrintResult_poll ::
  "platform \<Rightarrow> 32 word \<Rightarrow> nat \<Rightarrow> app_state \<Rightarrow> app_state" where
  "Adc_appPrintResult_poll env dmaDataAddr logIndex s =
     (let s = emit (Mcal_CacheP_inv (Addr_gAdcAppDmaBuffer 0 0) (sizeof_gAdcAppDmaBuffer env)
                      Mcal_CacheP_TYPE_ALL) s;
          (v, s) = load_gAdcAppDmaBuffer env 0 0 s;
          s = s\<lparr>gAdcAppLog := (gAdcAppLog s)[logIndex := (gAdcAppLog s ! logIndex)\<lparr>dmaBuff := v\<rparr>]\<rparr>;
          (h, s) = load16 env dmaDataAddr s;
          s = s\<lparr>gAdcAppLog := (gAdcAppLog s)[logIndex := (gAdcAppLog s ! logIndex)\<lparr>hwResult := h\<rparr>]\<rparr>;
          (st, s) = call_Adc_GetGroupStatus env 0 s;
          s = s\<lparr>gAdcAppLog := (gAdcAppLog s)[logIndex := (gAdcAppLog s ! logIndex)\<lparr>status := st\<rparr>]\<rparr>;
          s = emit (AppUtils_delay 100) s
      in s)"

text \<open>The body of the printing loop of \<^verbatim>\<open>Adc_appPrintResult\<close> (lines 370 to 375).\<close>

definition Adc_appPrintResult_show :: "nat \<Rightarrow> app_state \<Rightarrow> app_state" where
  "Adc_appPrintResult_show logIndex s =
     (let s = emit (GT_trace GT_INFO '' [Log %d] '' [logIndex]) s;
          s = emit (GT_trace GT_INFO '' dmaBuff: %d,'' [unat (dmaBuff (gAdcAppLog s ! logIndex))]) s;
          s = emit (GT_trace GT_INFO '' HWResult: %d,'' [unat (hwResult (gAdcAppLog s ! logIndex))]) s;
          s = emit (GT_trace GT_INFO ''     '' []) s;
          s = Adc_appPrintStatus 0 (status (gAdcAppLog s ! logIndex)) s;
          s = emit (GT_trace GT_INFO ('' '' @ crlf) []) s
      in s)"

text \<open>The body of the group loop of \<^verbatim>\<open>Adc_appPrintResult\<close> (lines 348 to 353).\<close>

definition Adc_appPrintResult_group :: "platform \<Rightarrow> nat \<Rightarrow> app_state \<Rightarrow> app_state" where
  "Adc_appPrintResult_group env grpIdx s =
     (let grpCfg = groupCfg (AdcConfigSet env) grpIdx;
          hwUnitCfg' = hwUnitCfg (AdcConfigSet env) (hwUnitId grpCfg);
          s = emit (GT_trace GT_INFO ('' ADC Group %d, HW Unit %d, Base 0x%08X:'' @ crlf)
                      [grpIdx, unit_hwUnitId hwUnitCfg', unit_baseAddr hwUnitCfg']) s;
          s = emit (GT_trace GT_INFO ('' ----------------------------------------'' @ crlf) []) s
      in s)"

definition Adc_appPrintResult :: "platform \<Rightarrow> nat \<Rightarrow> app_state \<Rightarrow> app_state" where
  "Adc_appPrintResult env loopcnt s =
     (let s = emit (GT_trace GT_INFO ('' '' @ crlf) []) s;
          s = emit (GT_trace GT_INFO ('' Read Buffer Content (Loop %d)'' @ crlf) [loopcnt]) s;
          s = emit (GT_trace GT_INFO ('' ----------------------------'' @ crlf) []) s;
          s = for_loop 0 (ADC_MAX_GROUP env) (Adc_appPrintResult_group env) s;
          (dmaDataAddr, s) = call_Adc_GetReadResultBaseAddress env ADC_APP_GROUP_ID s;
          s = for_loop 0 ADC_APP_LOG_SIZE (Adc_appPrintResult_poll env dmaDataAddr) s;
          s = for_loop 0 ADC_APP_LOG_SIZE Adc_appPrintResult_show s;
          s = emit (GT_trace GT_INFO ('' '' @ crlf) []) s
      in s)"

text \<open>
  The body of the set-up loop of \<^verbatim>\<open>Adc_appTest\<close> (lines 127 to 143); the local
  \<^verbatim>\<open>testPassed\<close> travels with the state.
\<close>

definition Adc_appTest_setup ::
  "platform \<Rightarrow> nat \<Rightarrow> 32 word \<times> app_state \<Rightarrow> 32 word \<times> app_state" where
  "Adc_appTest_setup env grpIdx ts =
     (let (testPassed, s) = ts;
          (st, s) = call_Adc_GetGroupStatus env grpIdx s;
          s = Adc_appPrintStatus grpIdx st s;
          s = emit (GT_trace GT_INFO ('' '' @ crlf) []) s;
          (testPassed, s) =
            (if st \<noteq> ADC_IDLE
             then (E_NOT_OK, emit (GT_trace GT_ERR ('' ADC Group %d is not IDLE!!'' @ crlf) [grpIdx]) s)
             else (testPassed, s));
          (retVal, s) = call_Adc_SetupResultBuffer env grpIdx (Addr_gAdcAppSetupBuffer grpIdx 0) s;
          (testPassed, s) =
            (if retVal \<noteq> E_OK
             then (E_NOT_OK, emit (GT_trace GT_ERR ('' ADC Group %d setup buffer failed!!'' @ crlf) [grpIdx]) s)
             else (testPassed, s))
      in (testPassed, s))"

text \<open>The body of the iteration loop of \<^verbatim>\<open>Adc_appTest\<close> (lines 148 to 183).\<close>

definition Adc_appTest_iteration :: "platform \<Rightarrow> nat \<Rightarrow> app_state \<Rightarrow> app_state" where
  "Adc_appTest_iteration env loopcnt s =
     (let s = emit (memset (Addr_gAdcAppDmaBuffer 0 0) 0 (sizeof_gAdcAppDmaBuffer env)) s;
          s = emit (Mcal_CacheP_wb (Addr_gAdcAppDmaBuffer 0 0) (sizeof_gAdcAppDmaBuffer env)
                      Mcal_CacheP_TYPE_ALL) s;
          s = for_loop 0 (ADC_MAX_GROUP env) (\<lambda>grpIdx. emit (Adc_EnableGroupNotification grpIdx)) s;
          s = emit (Adc_EnableHardwareTrigger ADC_APP_GROUP_ID) s;
          s = emit (Adc_SetInterruptContinuousMode ADC_APP_GROUP_ID) s;
          (dmaDataAddr, s) = call_Adc_GetReadResultBaseAddress env ADC_APP_GROUP_ID s;
          s = Adc_appDmaConfigure env (Addr_gAdcAppDmaBuffer 0 0)
                (of_nat (ADC_APP_NUM_CHANNEL * 2)) ADC_APP_DMA_CHANNEL dmaDataAddr s;
          s = Adc_appEpwmEnable ADC_APP_EPWM_BASE_ADDR s;
          s = emit (EPWM_setTimeBaseCounterMode ADC_APP_EPWM_BASE_ADDR EPWM_COUNTER_MODE_UP) s;
          s = emit (Store32 (0x502F0000 + 0x1008) 0x01234567) s;
          s = emit (Store32 (0x502F0000 + 0x100C) 0xFEDCBA8) s;
          s = emit (Store32 (0x502F0000 + 0x0010) 0x00000001) s;
          s = Adc_appPrintResult env loopcnt s;
          s = Adc_appDisableTrigger ADC_APP_EPWM_BASE_ADDR s;
          s = emit (Adc_DisableHardwareTrigger ADC_APP_GROUP_ID) s;
          s = for_loop 0 (ADC_MAX_GROUP env) (\<lambda>grpIdx. emit (Adc_DisableGroupNotification grpIdx)) s
      in s)"

definition Adc_appTest :: "platform \<Rightarrow> app_state \<Rightarrow> app_state" where
  "Adc_appTest env s =
     (let (testPassed, s) = for_loop 0 (ADC_MAX_GROUP env) (Adc_appTest_setup env) (E_OK, s);
          s = for_loop 0 ADC_APP_LOOPCNT (Adc_appTest_iteration env) s
      in if testPassed \<noteq> E_OK then s\<lparr>gTestPassed := E_NOT_OK\<rparr> else s)"

definition Adc_appDeInit :: "platform \<Rightarrow> app_state \<Rightarrow> app_state" where
  "Adc_appDeInit env s =
     (let (usage, s) = call_AppUtils_getStackUsage env s;
          s = emit (GT_trace GT_INFO (APP_NAME env @ '': Stack Usage: %d bytes'' @ lfcr) [unat usage]) s;
          (r, s) = call_AppUtils_checkStackAndSectionCorruption env s;
          s = (if r \<noteq> E_OK
               then emit (GT_trace GT_ERR (APP_NAME env @ '': Stack/section corruption!!!'' @ lfcr) [])
                      (s\<lparr>gTestPassed := E_NOT_OK\<rparr>)
               else s);
          s = (if E_OK = gTestPassed s
               then emits [AppUtils_printf (APP_NAME env @ '': DONE (Passed) !!!'' @ crlf),
                           AppUtils_printf (APP_NAME env @ '': All tests have passed'' @ crlf),
                           AppUtils_logTestResult APP_UTILS_TEST_STATUS_PASS] s
               else emits [AppUtils_printf (APP_NAME env @ '': DONE (Failed) !!!'' @ crlf),
                           AppUtils_logTestResult APP_UTILS_TEST_STATUS_FAIL] s);
          s = emits [Adc_DeInit, Cdd_Dma_DeInit, Adc_appPlatformDeInit] s
      in s)"

text \<open>
  A C loop \<^verbatim>\<open>for (uint8_t i = i0; i < n; i++) body\<close>. The counter is eight bits wide and
  wraps from 255 to 0, so the loop returns only if \<open>n\<close> is at most 255; not returning is
  the value \<open>None\<close>. The body may itself contain such a loop.
\<close>

partial_function (option) for_loop_u8 ::
  "8 word \<Rightarrow> nat \<Rightarrow> (nat \<Rightarrow> 'a \<Rightarrow> 'a option) \<Rightarrow> 'a \<Rightarrow> 'a option" where
  "for_loop_u8 i n body s =
     (if unat i < n then Option.bind (body (unat i) s) (for_loop_u8 (i + 1) n body) else Some s)"

definition call_Adc_GetVersionInfo ::
  "platform \<Rightarrow> app_state \<Rightarrow> Std_VersionInfoType \<times> app_state" where
  "call_Adc_GetVersionInfo env s =
     (let r = Adc_GetVersionInfo_ret env (trace s) in (r, emit (Adc_GetVersionInfo r) s))"

definition call_Cdd_Dma_GetVersionInfo ::
  "platform \<Rightarrow> app_state \<Rightarrow> Std_VersionInfoType \<times> app_state" where
  "call_Cdd_Dma_GetVersionInfo env s =
     (let r = Cdd_Dma_GetVersionInfo_ret env (trace s) in (r, emit (Cdd_Dma_GetVersionInfo r) s))"

definition Adc_appInterruptConfig :: "app_state \<Rightarrow> app_state" where
  "Adc_appInterruptConfig s =
     (let s = emit vimInit s;
          intCfg = \<lparr> intcfg_map = ''VIM_INTTYPE_IRQ'',
                     intcfg_type = ''VIM_INTTRIGTYPE_PULSE'',
                     intcfg_intNum = ''MCAL_CSLR_R5FSS0_CORE0_INTR_TPCC0_INTAGGR'',
                     intcfg_handler = ''CDD_EDMA_lld_transferCompletionMasterIsrFxn'',
                     intcfg_priority = ''VIM_PRIORITY_4'' \<rparr>;
          s = emit (vimRegisterInterrupt intCfg) s
      in s)"

text \<open>The body of the channel loop of \<^verbatim>\<open>Adc_appInit\<close> (lines 268 to 272).\<close>

definition Adc_appInit_channel :: "Adc_GroupConfigType \<Rightarrow> nat \<Rightarrow> app_state \<Rightarrow> app_state" where
  "Adc_appInit_channel grpCfg chIdx s = emits [
      GT_trace GT_INFO (''    channelConfig %d   '' @ crlf) [chIdx],
      GT_trace GT_INFO (''     hwChannelId   : %d'' @ crlf) [hwChannelId (channelConfig grpCfg chIdx)],
      GT_trace GT_INFO (''     samplewindow  : %d'' @ crlf) [samplewindow (channelConfig grpCfg chIdx)]] s"

text \<open>The body of the group loop of \<^verbatim>\<open>Adc_appInit\<close> (lines 244 to 273).\<close>

definition Adc_appInit_group :: "platform \<Rightarrow> nat \<Rightarrow> app_state \<Rightarrow> app_state option" where
  "Adc_appInit_group env grpIdx s =
     (let grpCfg = groupCfg (AdcConfigSet env) grpIdx;
          s = emits [
      GT_trace GT_INFO (''  Group %d                       '' @ crlf) [grpIdx],
      GT_trace GT_INFO (''   groupId                   : %d'' @ crlf) [groupId grpCfg],
      GT_trace GT_INFO (''   groupPriority             : %d'' @ crlf) [groupPriority grpCfg],
      GT_trace GT_INFO (''   hwUnitId                  : %d'' @ crlf) [hwUnitId grpCfg],
      GT_trace GT_INFO (''   Adc_GroupEndNotification  : 0x%08x'' @ crlf) [Adc_GroupEndNotification grpCfg],
      GT_trace GT_INFO (''   streamNumSamples          : %d'' @ crlf) [streamNumSamples grpCfg],
      GT_trace GT_INFO (''   resolution                : %d'' @ crlf) [resolution grpCfg],
      GT_trace GT_INFO (''   convMode                  : %d'' @ crlf) [convMode grpCfg],
      GT_trace GT_INFO (''   triggSrc                  : %d'' @ crlf) [triggSrc grpCfg],
      GT_trace GT_INFO (''   accessMode                : %d'' @ crlf) [accessMode grpCfg],
      GT_trace GT_INFO (''   streamBufMode             : %d'' @ crlf) [streamBufMode grpCfg],
      GT_trace GT_INFO (''   hwTrigSignal              : %d'' @ crlf) [hwTrigSignal grpCfg],
      GT_trace GT_INFO (''   hwTrigTimer               : %d'' @ crlf) [hwTrigTimer grpCfg],
      GT_trace GT_INFO (''   groupReplacement          : %d'' @ crlf) [groupReplacement grpCfg],
      GT_trace GT_INFO (''   groupChannelMask          : 0x%08x'' @ crlf) [groupChannelMask grpCfg],
      GT_trace GT_INFO (''   groupDataAccessMode       : %d'' @ crlf) [groupDataAccessMode grpCfg],
      GT_trace GT_INFO (''   numChannels               : %d'' @ crlf) [numChannels grpCfg],
      GT_trace GT_INFO (''   groupDmaChannelId         : %d'' @ crlf) [groupDmaChannelId grpCfg]] s
      in for_loop_u8 0 (numChannels grpCfg) (\<lambda>chIdx s. Some (Adc_appInit_channel grpCfg chIdx s)) s)"

text \<open>The body of the hardware-unit loop of \<^verbatim>\<open>Adc_appInit\<close> (lines 277 to 284).\<close>

definition Adc_appInit_hwUnit :: "platform \<Rightarrow> nat \<Rightarrow> app_state \<Rightarrow> app_state" where
  "Adc_appInit_hwUnit env hwUnitIdx s =
     (let hwUnitCfg' = hwUnitCfg (AdcConfigSet env) hwUnitIdx
      in emits [
      GT_trace GT_INFO (''  HW Unit %d           '' @ crlf) [hwUnitIdx],
      GT_trace GT_INFO (''   hwUnitId    : %d'' @ crlf) [unit_hwUnitId hwUnitCfg'],
      GT_trace GT_INFO (''   baseAddr    : 0x%08x'' @ crlf) [unit_baseAddr hwUnitCfg'],
      GT_trace GT_INFO (''   prescale    : %d'' @ crlf) [unit_prescale hwUnitCfg'],
      GT_trace GT_INFO (''   resolution  : %d'' @ crlf) [unit_resolution hwUnitCfg']] s)"

definition Adc_appInit :: "platform \<Rightarrow> app_state \<Rightarrow> app_state option" where
  "Adc_appInit env s =
     (let s = emit Adc_appPlatformInit s;
          s = emit Cdd_Dma_Init s;
          s = emit Adc_Init s;
          s = Adc_appInterruptConfig s;
          s = emit (Cdd_Dma_CbkRegister ADC_APP_DMA_CHANNEL) s;
          s = emit (AppUtils_printf (APP_NAME env @ '': STARTS !!!'' @ crlf)) s;
          (versioninfo, s) = call_Adc_GetVersionInfo env s;
          s = emits [
      GT_trace GT_INFO ('' '' @ crlf) [],
      GT_trace GT_INFO ('' ADC MCAL Version Info'' @ crlf) [],
      GT_trace GT_INFO ('' ---------------------'' @ crlf) [],
      GT_trace GT_INFO ('' Vendor ID           : %d'' @ crlf) [vendorID versioninfo],
      GT_trace GT_INFO ('' Module ID           : %d'' @ crlf) [moduleID versioninfo],
      GT_trace GT_INFO ('' SW Major Version    : %d'' @ crlf) [sw_major_version versioninfo],
      GT_trace GT_INFO ('' SW Minor Version    : %d'' @ crlf) [sw_minor_version versioninfo],
      GT_trace GT_INFO ('' SW Patch Version    : %d'' @ crlf) [sw_patch_version versioninfo],
      GT_trace GT_INFO ('' '' @ crlf) []] s;
          (versioninfo, s) = call_Cdd_Dma_GetVersionInfo env s;
          s = emits [
      GT_trace GT_INFO ('' '' @ crlf) [],
      GT_trace GT_INFO ('' DMA MCAL Version Info'' @ crlf) [],
      GT_trace GT_INFO ('' ---------------------'' @ crlf) [],
      GT_trace GT_INFO ('' Vendor ID           : %d'' @ crlf) [vendorID versioninfo],
      GT_trace GT_INFO ('' Module ID           : %d'' @ crlf) [moduleID versioninfo],
      GT_trace GT_INFO ('' SW Major Version    : %d'' @ crlf) [sw_major_version versioninfo],
      GT_trace GT_INFO ('' SW Minor Version    : %d'' @ crlf) [sw_minor_version versioninfo],
      GT_trace GT_INFO ('' SW Patch Version    : %d'' @ crlf) [sw_patch_version versioninfo],
      GT_trace GT_INFO ('' '' @ crlf) []] s;
          s = emits [
      GT_trace GT_INFO ('' '' @ crlf) [],
      GT_trace GT_INFO ('' AdcConfigSet'' @ crlf) [],
      GT_trace GT_INFO ('' ------------'' @ crlf) [],
      GT_trace GT_INFO (''  maxGroup     : %d'' @ crlf) [maxGroup (AdcConfigSet env)],
      GT_trace GT_INFO (''  maxHwUnit    : %d'' @ crlf) [maxHwUnit (AdcConfigSet env)]] s
      in Option.bind (for_loop_u8 0 (ADC_MAX_GROUP env) (Adc_appInit_group env) s) (\<lambda>s.
         Option.bind (for_loop_u8 0 (ADC_MAX_HW_UNIT env)
                        (\<lambda>hwUnitIdx s. Some (Adc_appInit_hwUnit env hwUnitIdx s)) s) (\<lambda>s.
         Some (emit (GT_trace GT_INFO ('' ------------'' @ crlf) []) s))))"

text \<open>
  \<^verbatim>\<open>main\<close>: the result is the final state, or \<open>None\<close> if \<^verbatim>\<open>Adc_appInit\<close> does not return.
\<close>

definition main :: "platform \<Rightarrow> app_state \<Rightarrow> app_state option" where
  "main env s =
     Option.bind (Adc_appInit env s) (\<lambda>s. Some (Adc_appDeInit env (Adc_appTest env s)))"

text \<open>
  The hooks the drivers call: the group-end notification, which does nothing, and the
  exclusive-area hooks.
\<close>

definition AdcApp_Group0EndNotification :: "app_state \<Rightarrow> app_state" where
  "AdcApp_Group0EndNotification s = s"

definition SchM_Enter_Mcu_MCU_EXCLUSIVE_AREA_0 :: "app_state \<Rightarrow> app_state" where
  "SchM_Enter_Mcu_MCU_EXCLUSIVE_AREA_0 s = emit AppUtils_SchM_Enter_EXCLUSIVE_AREA_0 s"

definition SchM_Exit_Mcu_MCU_EXCLUSIVE_AREA_0 :: "app_state \<Rightarrow> app_state" where
  "SchM_Exit_Mcu_MCU_EXCLUSIVE_AREA_0 s = emit AppUtils_SchM_Exit_EXCLUSIVE_AREA_0 s"

definition SchM_Enter_Port_PORT_EXCLUSIVE_AREA_0 :: "app_state \<Rightarrow> app_state" where
  "SchM_Enter_Port_PORT_EXCLUSIVE_AREA_0 s = emit AppUtils_SchM_Enter_EXCLUSIVE_AREA_0 s"

definition SchM_Exit_Port_PORT_EXCLUSIVE_AREA_0 :: "app_state \<Rightarrow> app_state" where
  "SchM_Exit_Port_PORT_EXCLUSIVE_AREA_0 s = emit AppUtils_SchM_Exit_EXCLUSIVE_AREA_0 s"

definition SchM_Enter_Adc_ADC_EXCLUSIVE_AREA_0 :: "app_state \<Rightarrow> app_state" where
  "SchM_Enter_Adc_ADC_EXCLUSIVE_AREA_0 s = emit AppUtils_SchM_Enter_EXCLUSIVE_AREA_0 s"

definition SchM_Exit_Adc_ADC_EXCLUSIVE_AREA_0 :: "app_state \<Rightarrow> app_state" where
  "SchM_Exit_Adc_ADC_EXCLUSIVE_AREA_0 s = emit AppUtils_SchM_Exit_EXCLUSIVE_AREA_0 s"

definition SchM_Enter_Cdd_Dma_DMA_EXCLUSIVE_AREA_0 :: "app_state \<Rightarrow> app_state" where
  "SchM_Enter_Cdd_Dma_DMA_EXCLUSIVE_AREA_0 s = emit AppUtils_SchM_Enter_EXCLUSIVE_AREA_0 s"

definition SchM_Exit_Cdd_Dma_DMA_EXCLUSIVE_AREA_0 :: "app_state \<Rightarrow> app_state" where
  "SchM_Exit_Cdd_Dma_DMA_EXCLUSIVE_AREA_0 s = emit AppUtils_SchM_Exit_EXCLUSIVE_AREA_0 s"

section \<open>Reasoning infrastructure\<close>

text \<open>The events a computation from \<open>s\<close> to \<open>s'\<close> has added.\<close>

definition new_events :: "app_state \<Rightarrow> app_state \<Rightarrow> event list" where
  "new_events s s' = drop (length (trace s)) (trace s')"

lemma for_loop_fold: "for_loop i n body s = fold body [i..<n] s"
proof (induction i n body s rule: for_loop.induct)
  case (1 i n body s)
  show ?case
  proof (cases "i < n")
    case True
    then have "[i..<n] = i # [i + 1..<n]" by (simp add: upt_conv_Cons)
    with True 1 show ?thesis by (simp add: for_loop.simps [of i n])
  next
    case False
    then show ?thesis by (simp add: for_loop.simps [of i n])
  qed
qed

lemma emit_simps [simp]:
  "trace (emit e s) = trace s @ [e]"
  "gTestPassed (emit e s) = gTestPassed s"
  "gAdcAppDmaCallbackCount (emit e s) = gAdcAppDmaCallbackCount s"
  "gAdcAppLog (emit e s) = gAdcAppLog s"
  by (simp_all add: emit_def)

lemma emits_simps [simp]:
  "trace (emits es s) = trace s @ es"
  "gTestPassed (emits es s) = gTestPassed s"
  "gAdcAppDmaCallbackCount (emits es s) = gAdcAppDmaCallbackCount s"
  "gAdcAppLog (emits es s) = gAdcAppLog s"
  by (simp_all add: emits_def)

lemma map_filter_append: "List.map_filter f (xs @ ys) = List.map_filter f xs @ List.map_filter f ys"
  by (simp add: List.map_filter_def)

lemma fold_proj:
  assumes "\<And>i a. i \<in> set xs \<Longrightarrow> F (tr (body i a)) = F (tr a) @ g i"
  shows "F (tr (fold body xs a)) = F (tr a) @ concat (map g xs)"
  using assms by (induction xs arbitrary: a) simp_all

lemma new_events_proj:
  assumes "prefix (trace s) (trace s')"
    and "F (trace s') = F (trace s) @ Y"
    and "\<And>xs ys. F (xs @ ys) = F xs @ F ys"
  shows "F (new_events s s') = Y"
proof -
  from assms(1) obtain X where X: "trace s' = trace s @ X" by (auto simp: prefix_def)
  then have "new_events s s' = X" by (simp add: new_events_def)
  moreover from assms(2,3) X have "F X = Y" by simp
  ultimately show ?thesis by simp
qed


lemma call_simps [simp]:
  "fst (call_Adc_GetGroupStatus env g s) = Adc_GetGroupStatus_ret env (trace s) g"
  "snd (call_Adc_GetGroupStatus env g s) = emit (Adc_GetGroupStatus g (Adc_GetGroupStatus_ret env (trace s) g)) s"
  "fst (call_Adc_SetupResultBuffer env g p s) = Adc_SetupResultBuffer_ret env (trace s) g"
  "snd (call_Adc_SetupResultBuffer env g p s) = emit (Adc_SetupResultBuffer g p (Adc_SetupResultBuffer_ret env (trace s) g)) s"
  "fst (call_Adc_GetReadResultBaseAddress env g s) = Adc_GetReadResultBaseAddress_ret env (trace s) g"
  "snd (call_Adc_GetReadResultBaseAddress env g s) = emit (Adc_GetReadResultBaseAddress g (Adc_GetReadResultBaseAddress_ret env (trace s) g)) s"
  "fst (load_gAdcAppDmaBuffer env g i s) = Load_gAdcAppDmaBuffer_val env (trace s) g i"
  "snd (load_gAdcAppDmaBuffer env g i s) = emit (Load_gAdcAppDmaBuffer g i (Load_gAdcAppDmaBuffer_val env (trace s) g i)) s"
  "fst (load16 env a s) = Load16_val env (trace s) a"
  "snd (load16 env a s) = emit (Load16 a (Load16_val env (trace s) a)) s"
  "fst (call_AppUtils_getStackUsage env s) = AppUtils_getStackUsage_ret env (trace s)"
  "snd (call_AppUtils_getStackUsage env s) = emit (AppUtils_getStackUsage (AppUtils_getStackUsage_ret env (trace s))) s"
  "fst (call_AppUtils_checkStackAndSectionCorruption env s) = AppUtils_checkStackAndSectionCorruption_ret env (trace s)"
  "snd (call_AppUtils_checkStackAndSectionCorruption env s) = emit (AppUtils_checkStackAndSectionCorruption (AppUtils_checkStackAndSectionCorruption_ret env (trace s))) s"
  by (simp_all add: call_Adc_GetGroupStatus_def call_Adc_SetupResultBuffer_def
      call_Adc_GetReadResultBaseAddress_def load_gAdcAppDmaBuffer_def load16_def
      call_AppUtils_getStackUsage_def call_AppUtils_checkStackAndSectionCorruption_def Let_def)

subsection \<open>The control skeleton of a trace\<close>

text \<open>
  Most claims are about the order of driver calls, not about the values the drivers
  return or about diagnostic output. \<open>skel\<close> drops the diagnostic output
  (\<open>GT_trace\<close>, \<open>AppUtils_printf\<close>) and the EPWM configuration calls, and replaces
  every platform-supplied value in the remaining events by zero, so that the skeleton of
  what a function emits is a closed list.
\<close>

definition skel :: "event \<Rightarrow> event option" where
  "skel e =
     (case e of
        GT_trace l f as \<Rightarrow> None
      | AppUtils_printf f \<Rightarrow> None
      | EPWM_call f b as \<Rightarrow> None
      | Adc_GetGroupStatus g st \<Rightarrow> Some (Adc_GetGroupStatus g ADC_IDLE)
      | Adc_SetupResultBuffer g p r \<Rightarrow> Some (Adc_SetupResultBuffer g p 0)
      | Adc_GetReadResultBaseAddress g a \<Rightarrow> Some (Adc_GetReadResultBaseAddress g 0)
      | Cdd_Dma_ParamSet c x y p \<Rightarrow> Some (Cdd_Dma_ParamSet c x y (p\<lparr>srcPtr := Addr_abs 0\<rparr>))
      | Load16 a v \<Rightarrow> Some (Load16 0 0)
      | Load_gAdcAppDmaBuffer g i v \<Rightarrow> Some (Load_gAdcAppDmaBuffer g i 0)
      | AppUtils_getStackUsage u \<Rightarrow> Some (AppUtils_getStackUsage 0)
      | AppUtils_checkStackAndSectionCorruption r \<Rightarrow> Some (AppUtils_checkStackAndSectionCorruption 0)
      | _ \<Rightarrow> Some e)"

definition skeleton :: "event list \<Rightarrow> event list" where
  "skeleton es = List.map_filter skel es"

lemma skeleton_simps [simp]:
  "skeleton [] = []"
  "skeleton (xs @ ys) = skeleton xs @ skeleton ys"
  "skeleton (e # es) = (case skel e of None \<Rightarrow> skeleton es | Some k \<Rightarrow> k # skeleton es)"
  by (simp_all add: skeleton_def List.map_filter_def split: option.splits)

lemma skeleton_map_Some: "(\<And>x. skel (g x) = Some (h x)) \<Longrightarrow> skeleton (map g xs) = map h xs"
  by (induction xs) simp_all

lemma fold_emit_trace [simp]: "trace (fold (\<lambda>g. emit (E g)) xs s) = trace s @ map E xs"
  by (induction xs arbitrary: s) simp_all

definition Adc_appEpwmEnable_skel :: "32 word \<Rightarrow> event list" where
  "Adc_appEpwmEnable_skel b =
     [EPWM_setTimeBaseCounterMode b EPWM_COUNTER_MODE_STOP_FREEZE,
      EPWM_enableADCTrigger b EPWM_SOC_A,
      EPWM_disableADCTrigger b EPWM_SOC_B]"

lemma skel_EpwmEnable:
  "skeleton (trace (Adc_appEpwmEnable b s)) = skeleton (trace s) @ Adc_appEpwmEnable_skel b"
  by (simp add: Adc_appEpwmEnable_def Adc_appEpwmEnable_skel_def skel_def)

lemma skel_PrintStatus: "skeleton (trace (Adc_appPrintStatus g st s)) = skeleton (trace s)"
  by (cases st) (simp_all add: Adc_appPrintStatus_def skel_def)

definition poll_skel :: "platform \<Rightarrow> event list" where
  "poll_skel env =
     [Mcal_CacheP_inv (Addr_gAdcAppDmaBuffer 0 0) (sizeof_gAdcAppDmaBuffer env) Mcal_CacheP_TYPE_ALL,
      Load_gAdcAppDmaBuffer 0 0 0, Load16 0 0, Adc_GetGroupStatus 0 ADC_IDLE, AppUtils_delay 100]"

lemma skel_poll:
  "skeleton (trace (Adc_appPrintResult_poll env a i s)) = skeleton (trace s) @ poll_skel env"
  by (simp add: Adc_appPrintResult_poll_def Let_def split_def skel_def poll_skel_def)

lemma skel_show: "skeleton (trace (Adc_appPrintResult_show i s)) = skeleton (trace s)"
  by (simp add: Adc_appPrintResult_show_def Let_def skel_PrintStatus) (simp add: skel_def)

lemma skel_group: "skeleton (trace (Adc_appPrintResult_group env i s)) = skeleton (trace s)"
  by (simp add: Adc_appPrintResult_group_def Let_def skel_def)

lemma concat_map_Nil [simp]: "concat (map (\<lambda>_. []) xs) = []"
  by (induction xs) simp_all

lemma concat_map_const: "concat (map (\<lambda>_. ys) xs) = concat (replicate (length xs) ys)"
  by (induction xs) simp_all

definition Adc_appPrintResult_skel :: "platform \<Rightarrow> event list" where
  "Adc_appPrintResult_skel env =
     Adc_GetReadResultBaseAddress ADC_APP_GROUP_ID 0 # concat (replicate ADC_APP_LOG_SIZE (poll_skel env))"

lemma skel_fold_const:
  assumes "\<And>i a. skeleton (trace (body i a)) = skeleton (trace a) @ K"
  shows "skeleton (trace (fold body xs s)) = skeleton (trace s) @ concat (replicate (length xs) K)"
  using fold_proj [where F = skeleton and tr = trace and body = body and g = "\<lambda>_. K" and xs = xs and a = s]
    assms by (simp add: concat_map_const)

lemma skel_PrintResult:
  "skeleton (trace (Adc_appPrintResult env k s)) = skeleton (trace s) @ Adc_appPrintResult_skel env"
proof -
  have show_loop: "\<And>s n. skeleton (trace (for_loop 0 n Adc_appPrintResult_show s)) = skeleton (trace s)"
    using skel_fold_const [where K = "[]" and body = Adc_appPrintResult_show]
    by (simp add: for_loop_fold skel_show)
  have group_loop: "\<And>s n. skeleton (trace (for_loop 0 n (Adc_appPrintResult_group env) s)) = skeleton (trace s)"
    using skel_fold_const [where K = "[]" and body = "Adc_appPrintResult_group env"]
    by (simp add: for_loop_fold skel_group)
  have poll_loop: "\<And>s n a. skeleton (trace (for_loop 0 n (Adc_appPrintResult_poll env a) s))
      = skeleton (trace s) @ concat (replicate n (poll_skel env))"
    using skel_fold_const [where K = "poll_skel env" and body = "Adc_appPrintResult_poll env a" for a]
    by (simp add: for_loop_fold skel_poll)
  show ?thesis
    by (simp add: Adc_appPrintResult_def Let_def split_def show_loop group_loop poll_loop
        Adc_appPrintResult_skel_def) (simp add: skel_def)
qed


definition edmaParam_skel :: "platform \<Rightarrow> address \<Rightarrow> 16 word \<Rightarrow> Cdd_Dma_ParamEntry" where
  "edmaParam_skel env dst len =
     \<lparr> srcPtr = Addr_abs 0, destPtr = dst, aCnt = len, bCnt = 1, cCnt = 1, bCntReload = 0,
       srcBIdx = 0, destBIdx = 0, srcCIdx = 0, destCIdx = 2,
       opt = CDD_EDMA_OPT_TCINTEN_MASK env OR CDD_EDMA_OPT_ITCINTEN_MASK env
             OR CDD_EDMA_OPT_SYNCDIM_MASK env OR CDD_EDMA_OPT_STATIC_MASK env \<rparr>"

lemma skel_DmaConfigure:
  "skeleton (trace (Adc_appDmaConfigure env dst len ch src s)) =
     skeleton (trace s) @ [Cdd_Dma_ParamSet ch 0 0 (edmaParam_skel env dst len),
                           Cdd_Dma_EnableTransferRegion ch CDD_EDMA_TRIG_MODE_EVENT]"
  by (simp add: Adc_appDmaConfigure_def Let_def skel_def edmaParam_skel_def)

lemma skel_DisableTrigger:
  "skeleton (trace (Adc_appDisableTrigger b s)) =
     skeleton (trace s) @ [EPWM_disableADCTrigger b EPWM_SOC_A, EPWM_disableADCTrigger b EPWM_SOC_B,
                           EPWM_setTimeBaseCounterMode b EPWM_COUNTER_MODE_STOP_FREEZE]"
  by (simp add: Adc_appDisableTrigger_def Let_def skel_def)

definition Adc_appTest_iteration_skel :: "platform \<Rightarrow> event list" where
  "Adc_appTest_iteration_skel env =
     [memset (Addr_gAdcAppDmaBuffer 0 0) 0 (sizeof_gAdcAppDmaBuffer env),
      Mcal_CacheP_wb (Addr_gAdcAppDmaBuffer 0 0) (sizeof_gAdcAppDmaBuffer env) Mcal_CacheP_TYPE_ALL]
     @ map Adc_EnableGroupNotification [0..<ADC_MAX_GROUP env]
     @ [Adc_EnableHardwareTrigger ADC_APP_GROUP_ID,
        Adc_SetInterruptContinuousMode ADC_APP_GROUP_ID,
        Adc_GetReadResultBaseAddress ADC_APP_GROUP_ID 0,
        Cdd_Dma_ParamSet ADC_APP_DMA_CHANNEL 0 0
          (edmaParam_skel env (Addr_gAdcAppDmaBuffer 0 0) (of_nat (ADC_APP_NUM_CHANNEL * 2))),
        Cdd_Dma_EnableTransferRegion ADC_APP_DMA_CHANNEL CDD_EDMA_TRIG_MODE_EVENT]
     @ Adc_appEpwmEnable_skel ADC_APP_EPWM_BASE_ADDR
     @ [EPWM_setTimeBaseCounterMode ADC_APP_EPWM_BASE_ADDR EPWM_COUNTER_MODE_UP,
        Store32 (0x502F0000 + 0x1008) 0x01234567,
        Store32 (0x502F0000 + 0x100C) 0xFEDCBA8,
        Store32 (0x502F0000 + 0x0010) 0x00000001]
     @ Adc_appPrintResult_skel env
     @ [EPWM_disableADCTrigger ADC_APP_EPWM_BASE_ADDR EPWM_SOC_A,
        EPWM_disableADCTrigger ADC_APP_EPWM_BASE_ADDR EPWM_SOC_B,
        EPWM_setTimeBaseCounterMode ADC_APP_EPWM_BASE_ADDR EPWM_COUNTER_MODE_STOP_FREEZE,
        Adc_DisableHardwareTrigger ADC_APP_GROUP_ID]
     @ map Adc_DisableGroupNotification [0..<ADC_MAX_GROUP env]"

lemma skel_iteration:
  "skeleton (trace (Adc_appTest_iteration env k s)) =
     skeleton (trace s) @ Adc_appTest_iteration_skel env"
  by (simp add: Adc_appTest_iteration_def Let_def split_def for_loop_fold skel_DisableTrigger
      skel_PrintResult skel_EpwmEnable skel_DmaConfigure Adc_appTest_iteration_skel_def)
    (simp add: skel_def skeleton_map_Some)

definition Adc_appTest_setup_skel :: "nat \<Rightarrow> event list" where
  "Adc_appTest_setup_skel g =
     [Adc_GetGroupStatus g ADC_IDLE, Adc_SetupResultBuffer g (Addr_gAdcAppSetupBuffer g 0) 0]"

lemma skel_setup:
  "skeleton (trace (snd (Adc_appTest_setup env g ts))) =
     skeleton (trace (snd ts)) @ Adc_appTest_setup_skel g"
  by (simp add: Adc_appTest_setup_def Let_def split_def skel_PrintStatus Adc_appTest_setup_skel_def)
    (simp add: skel_def)

definition Adc_appTest_skel :: "platform \<Rightarrow> event list" where
  "Adc_appTest_skel env =
     concat (map Adc_appTest_setup_skel [0..<ADC_MAX_GROUP env])
     @ concat (replicate ADC_APP_LOOPCNT (Adc_appTest_iteration_skel env))"

lemma trace_gTestPassed_update [simp]: "trace (s\<lparr>gTestPassed := v\<rparr>) = trace s"
  by simp

lemma skel_Test:
  "skeleton (trace (Adc_appTest env s)) = skeleton (trace s) @ Adc_appTest_skel env"
proof -
  have setup_loop: "\<And>ts. skeleton (trace (snd (for_loop 0 (ADC_MAX_GROUP env) (Adc_appTest_setup env) ts)))
      = skeleton (trace (snd ts)) @ concat (map Adc_appTest_setup_skel [0..<ADC_MAX_GROUP env])"
    unfolding for_loop_fold
    by (rule fold_proj [where F = skeleton and tr = "\<lambda>ts. trace (snd ts)"]) (rule skel_setup)
  have iter_loop: "\<And>s. skeleton (trace (for_loop 0 ADC_APP_LOOPCNT (Adc_appTest_iteration env) s))
      = skeleton (trace s) @ concat (replicate ADC_APP_LOOPCNT (Adc_appTest_iteration_skel env))"
    using skel_fold_const [where K = "Adc_appTest_iteration_skel env" and body = "Adc_appTest_iteration env"]
    by (simp add: for_loop_fold skel_iteration)
  show ?thesis
    by (simp add: Adc_appTest_def Let_def split_def setup_loop iter_loop Adc_appTest_skel_def)
qed

subsection \<open>The trace only grows\<close>

lemma prefix_emit [simp]: "prefix h (trace s) \<Longrightarrow> prefix h (trace (emit e s))"
  by (auto simp: prefix_def)

lemma prefix_emits [simp]: "prefix h (trace s) \<Longrightarrow> prefix h (trace (emits es s))"
  by (auto simp: prefix_def)

lemma prefix_fold:
  assumes "\<And>i a h. prefix h (tr a) \<Longrightarrow> prefix h (tr (body i a))"
  shows "prefix h (tr a) \<Longrightarrow> prefix h (tr (fold body xs a))"
  using assms by (induction xs arbitrary: a) simp_all

lemma prefix_for_loop:
  assumes "\<And>i a h. prefix h (tr a) \<Longrightarrow> prefix h (tr (body i a))"
  shows "prefix h (tr a) \<Longrightarrow> prefix h (tr (for_loop i n body a))"
  unfolding for_loop_fold using assms by (rule prefix_fold)

lemma prefix_PrintStatus [simp]: "prefix h (trace s) \<Longrightarrow> prefix h (trace (Adc_appPrintStatus g st s))"
  by (cases st) (simp_all add: Adc_appPrintStatus_def)

lemma prefix_EpwmEnable [simp]: "prefix h (trace s) \<Longrightarrow> prefix h (trace (Adc_appEpwmEnable b s))"
  by (simp add: Adc_appEpwmEnable_def)

lemma prefix_DisableTrigger [simp]: "prefix h (trace s) \<Longrightarrow> prefix h (trace (Adc_appDisableTrigger b s))"
  by (simp add: Adc_appDisableTrigger_def)

lemma prefix_DmaConfigure [simp]:
  "prefix h (trace s) \<Longrightarrow> prefix h (trace (Adc_appDmaConfigure env d l c a s))"
  by (simp add: Adc_appDmaConfigure_def Let_def)

lemma prefix_poll [simp]:
  "prefix h (trace s) \<Longrightarrow> prefix h (trace (Adc_appPrintResult_poll env a i s))"
  by (simp add: Adc_appPrintResult_poll_def Let_def split_def)

lemma prefix_show [simp]: "prefix h (trace s) \<Longrightarrow> prefix h (trace (Adc_appPrintResult_show i s))"
  by (simp add: Adc_appPrintResult_show_def Let_def)

lemma prefix_group [simp]: "prefix h (trace s) \<Longrightarrow> prefix h (trace (Adc_appPrintResult_group env i s))"
  by (simp add: Adc_appPrintResult_group_def Let_def)

lemma prefix_PrintResult [simp]:
  "prefix h (trace s) \<Longrightarrow> prefix h (trace (Adc_appPrintResult env k s))"
  by (simp add: Adc_appPrintResult_def Let_def split_def prefix_for_loop [where tr = trace])

lemma prefix_iteration [simp]:
  "prefix h (trace s) \<Longrightarrow> prefix h (trace (Adc_appTest_iteration env k s))"
  by (simp add: Adc_appTest_iteration_def Let_def split_def prefix_for_loop [where tr = trace])

lemma prefix_setup [simp]:
  "prefix h (trace (snd ts)) \<Longrightarrow> prefix h (trace (snd (Adc_appTest_setup env g ts)))"
  by (simp add: Adc_appTest_setup_def Let_def split_def)

lemma prefix_Test [simp]: "prefix h (trace s) \<Longrightarrow> prefix h (trace (Adc_appTest env s))"
  by (simp add: Adc_appTest_def Let_def split_def prefix_for_loop [where tr = trace]
      prefix_for_loop [where tr = "\<lambda>ts. trace (snd ts)"])

lemma prefix_DeInit [simp]: "prefix h (trace s) \<Longrightarrow> prefix h (trace (Adc_appDeInit env s))"
  by (simp add: Adc_appDeInit_def Let_def split_def)

subsection \<open>Projections of the skeleton\<close>

lemma map_filter_concat: "List.map_filter f (concat xss) = concat (map (List.map_filter f) xss)"
  by (induction xss) (simp_all add: map_filter_append List.map_filter_simps)

lemma map_filter_map_Some: "(\<And>x. f (g x) = Some (h x)) \<Longrightarrow> List.map_filter f (map g xs) = map h xs"
  by (induction xs) (simp_all add: List.map_filter_simps)

lemma map_filter_map_None: "(\<And>x. f (g x) = None) \<Longrightarrow> List.map_filter f (map g xs) = []"
  by (induction xs) (simp_all add: List.map_filter_simps)

lemma map_filter_via_skel:
  assumes "\<And>e. P e = (case skel e of None \<Rightarrow> None | Some k \<Rightarrow> P k)"
  shows "List.map_filter P E = List.map_filter P (skeleton E)"
proof (induction E)
  case Nil
  show ?case by (simp add: List.map_filter_simps)
next
  case (Cons e E)
  show ?case
  proof (cases "skel e")
    case None
    with assms [of e] Cons show ?thesis by (simp add: List.map_filter_simps)
  next
    case (Some k)
    with assms [of e] Cons show ?thesis by (simp add: List.map_filter_simps split: option.splits)
  qed
qed

lemma skeleton_new_events_Test:
  "skeleton (new_events s (Adc_appTest env s)) = Adc_appTest_skel env"
  by (rule new_events_proj [where F = skeleton]) (simp_all add: skel_Test)

subsection \<open>Events added by a computation\<close>

lemma new_events_self [simp]: "new_events s s = []"
  by (simp add: new_events_def)

lemma new_events_append:
  assumes "prefix (trace s) (trace s')" and "prefix (trace s') (trace s'')"
  shows "new_events s s'' = new_events s s' @ new_events s' s''"
proof -
  from assms obtain X Y where "trace s' = trace s @ X" "trace s'' = trace s' @ Y"
    by (auto simp: prefix_def)
  then show ?thesis by (simp add: new_events_def)
qed

lemma new_events_emit [simp]:
  "prefix (trace s) (trace s') \<Longrightarrow> new_events s (emit e s') = new_events s s' @ [e]"
  by (auto simp: new_events_def prefix_def)

lemma new_events_emits [simp]:
  "prefix (trace s) (trace s') \<Longrightarrow> new_events s (emits es s') = new_events s s' @ es"
  by (auto simp: new_events_def prefix_def)

lemma new_events_gTestPassed_update [simp]:
  "new_events s (s'\<lparr>gTestPassed := v\<rparr>) = new_events s s'"
  by (simp add: new_events_def)

lemma new_events_gAdcAppLog_update [simp]:
  "new_events s (s'\<lparr>gAdcAppLog := v\<rparr>) = new_events s s'"
  by (simp add: new_events_def)

lemma prefix_updates [simp]:
  "prefix h (trace (s\<lparr>gAdcAppLog := l\<rparr>)) = prefix h (trace s)"
  "prefix h (trace (s\<lparr>gTestPassed := v\<rparr>)) = prefix h (trace s)"
  by simp_all

lemma new_events_PrintStatus [simp]:
  "prefix (trace s) (trace s') \<Longrightarrow>
   new_events s (Adc_appPrintStatus g st s') =
     new_events s s' @ [GT_trace GT_INFO '' ADC Group %d Status: '' [g],
       GT_trace GT_INFO (case st of ADC_IDLE \<Rightarrow> ''ADC_IDLE  !'' | ADC_BUSY \<Rightarrow> ''ADC_BUSY !''
          | ADC_COMPLETED \<Rightarrow> ''ADC_COMPLETED !''
          | ADC_STREAM_COMPLETED \<Rightarrow> ''ADC_STREAM_COMPLETED !'') []]"
  by (cases st) (simp_all add: Adc_appPrintStatus_def)

subsection \<open>What each function leaves unchanged\<close>

lemma fold_frame:
  assumes "\<And>i a. f (body i a) = f a"
  shows "f (fold body xs a) = f a"
  using assms by (induction xs arbitrary: a) simp_all

lemma for_loop_frame:
  assumes "\<And>i a. f (body i a) = f a"
  shows "f (for_loop i n body a) = f a"
  unfolding for_loop_fold using assms by (rule fold_frame)

lemmas for_loop_frames =
  for_loop_frame [where f = gTestPassed]
  for_loop_frame [where f = gAdcAppDmaCallbackCount]
  for_loop_frame [where f = gAdcAppLog]
  for_loop_frame [where f = "\<lambda>s. length (gAdcAppLog s)"]
  for_loop_frame [where f = "\<lambda>ts. gTestPassed (snd ts)"]
  for_loop_frame [where f = "\<lambda>ts. gAdcAppDmaCallbackCount (snd ts)"]
  for_loop_frame [where f = "\<lambda>ts. gAdcAppLog (snd ts)"]

lemma PrintStatus_frame [simp]:
  "gTestPassed (Adc_appPrintStatus g st s) = gTestPassed s"
  "gAdcAppDmaCallbackCount (Adc_appPrintStatus g st s) = gAdcAppDmaCallbackCount s"
  "gAdcAppLog (Adc_appPrintStatus g st s) = gAdcAppLog s"
  by (cases st; simp add: Adc_appPrintStatus_def)+

lemma EpwmEnable_frame [simp]:
  "gTestPassed (Adc_appEpwmEnable b s) = gTestPassed s"
  "gAdcAppDmaCallbackCount (Adc_appEpwmEnable b s) = gAdcAppDmaCallbackCount s"
  "gAdcAppLog (Adc_appEpwmEnable b s) = gAdcAppLog s"
  by (simp_all add: Adc_appEpwmEnable_def)

lemma DisableTrigger_frame [simp]:
  "gTestPassed (Adc_appDisableTrigger b s) = gTestPassed s"
  "gAdcAppDmaCallbackCount (Adc_appDisableTrigger b s) = gAdcAppDmaCallbackCount s"
  "gAdcAppLog (Adc_appDisableTrigger b s) = gAdcAppLog s"
  by (simp_all add: Adc_appDisableTrigger_def)

lemma DmaConfigure_frame [simp]:
  "gTestPassed (Adc_appDmaConfigure env d l c a s) = gTestPassed s"
  "gAdcAppDmaCallbackCount (Adc_appDmaConfigure env d l c a s) = gAdcAppDmaCallbackCount s"
  "gAdcAppLog (Adc_appDmaConfigure env d l c a s) = gAdcAppLog s"
  by (simp_all add: Adc_appDmaConfigure_def Let_def)

lemma poll_frame [simp]:
  "gTestPassed (Adc_appPrintResult_poll env a i s) = gTestPassed s"
  "gAdcAppDmaCallbackCount (Adc_appPrintResult_poll env a i s) = gAdcAppDmaCallbackCount s"
  "length (gAdcAppLog (Adc_appPrintResult_poll env a i s)) = length (gAdcAppLog s)"
  by (simp_all add: Adc_appPrintResult_poll_def Let_def split_def)

lemma show_frame [simp]:
  "gTestPassed (Adc_appPrintResult_show i s) = gTestPassed s"
  "gAdcAppDmaCallbackCount (Adc_appPrintResult_show i s) = gAdcAppDmaCallbackCount s"
  "gAdcAppLog (Adc_appPrintResult_show i s) = gAdcAppLog s"
  by (simp_all add: Adc_appPrintResult_show_def Let_def)

lemma group_frame [simp]:
  "gTestPassed (Adc_appPrintResult_group env i s) = gTestPassed s"
  "gAdcAppDmaCallbackCount (Adc_appPrintResult_group env i s) = gAdcAppDmaCallbackCount s"
  "gAdcAppLog (Adc_appPrintResult_group env i s) = gAdcAppLog s"
  by (simp_all add: Adc_appPrintResult_group_def Let_def)

lemma PrintResult_frame [simp]:
  "gTestPassed (Adc_appPrintResult env k s) = gTestPassed s"
  "gAdcAppDmaCallbackCount (Adc_appPrintResult env k s) = gAdcAppDmaCallbackCount s"
  "length (gAdcAppLog (Adc_appPrintResult env k s)) = length (gAdcAppLog s)"
  by (simp_all add: Adc_appPrintResult_def Let_def split_def for_loop_frames)

lemma iteration_frame [simp]:
  "gTestPassed (Adc_appTest_iteration env k s) = gTestPassed s"
  "gAdcAppDmaCallbackCount (Adc_appTest_iteration env k s) = gAdcAppDmaCallbackCount s"
  "length (gAdcAppLog (Adc_appTest_iteration env k s)) = length (gAdcAppLog s)"
  by (simp_all add: Adc_appTest_iteration_def Let_def split_def for_loop_frames)

lemma setup_frame [simp]:
  "gTestPassed (snd (Adc_appTest_setup env g ts)) = gTestPassed (snd ts)"
  "gAdcAppDmaCallbackCount (snd (Adc_appTest_setup env g ts)) = gAdcAppDmaCallbackCount (snd ts)"
  "gAdcAppLog (snd (Adc_appTest_setup env g ts)) = gAdcAppLog (snd ts)"
  by (simp_all add: Adc_appTest_setup_def Let_def split_def)

lemma Test_frame [simp]:
  "gAdcAppDmaCallbackCount (Adc_appTest env s) = gAdcAppDmaCallbackCount s"
  "length (gAdcAppLog (Adc_appTest env s)) = length (gAdcAppLog s)"
  by (simp_all add: Adc_appTest_def Let_def split_def for_loop_frames)

lemma DeInit_frame [simp]:
  "gAdcAppDmaCallbackCount (Adc_appDeInit env s) = gAdcAppDmaCallbackCount s"
  "gAdcAppLog (Adc_appDeInit env s) = gAdcAppLog s"
  by (simp_all add: Adc_appDeInit_def Let_def split_def)


section \<open>The run verdict\<close>

text \<open>
  The checks that can fail a run: a group whose status at set-up is not \<^verbatim>\<open>ADC_IDLE\<close> or
  whose \<^verbatim>\<open>Adc_SetupResultBuffer\<close> does not return \<^verbatim>\<open>E_OK\<close> (\<open>is_setup_failure\<close>, read on
  the events of the set-up loop), and a stack or section corruption reported at
  teardown (\<open>is_corruption\<close>). \<open>verdict_of\<close> picks the reported test result.
\<close>

definition is_setup_failure :: "event \<Rightarrow> bool" where
  "is_setup_failure e =
     (case e of
        Adc_GetGroupStatus g st \<Rightarrow> st \<noteq> ADC_IDLE
      | Adc_SetupResultBuffer g p r \<Rightarrow> r \<noteq> E_OK
      | _ \<Rightarrow> False)"

definition is_corruption :: "event \<Rightarrow> bool" where
  "is_corruption e =
     (case e of AppUtils_checkStackAndSectionCorruption r \<Rightarrow> r \<noteq> E_OK | _ \<Rightarrow> False)"

definition verdict_of :: "event \<Rightarrow> AppUtils_TestStatus option" where
  "verdict_of e = (case e of AppUtils_logTestResult v \<Rightarrow> Some v | _ \<Rightarrow> None)"

text \<open>
  The state in which \<^verbatim>\<open>Adc_appTest\<close> leaves its set-up loop, and the events of that loop.
  They are the events \<^verbatim>\<open>Adc_appTest\<close> issues before its first iteration
  (\<open>new_events_Test_split\<close> and \<open>setup_phase_eq\<close> below).
\<close>

definition Adc_appTest_after_setup :: "platform \<Rightarrow> app_state \<Rightarrow> app_state" where
  "Adc_appTest_after_setup env s =
     snd (for_loop 0 (ADC_MAX_GROUP env) (Adc_appTest_setup env) (E_OK, s))"

definition setup_events :: "platform \<Rightarrow> app_state \<Rightarrow> event list" where
  "setup_events env s = new_events s (Adc_appTest_after_setup env s)"

lemma E_NOT_OK_neq_E_OK [simp]:
  "(E_NOT_OK :: 'a::len word) \<noteq> E_OK"
  "(E_OK :: 'a::len word) \<noteq> E_NOT_OK"
  by (simp_all add: E_NOT_OK_def E_OK_def)

lemma setup_body_result:
  "fst (Adc_appTest_setup env g ts) =
     (if list_ex is_setup_failure (new_events (snd ts) (snd (Adc_appTest_setup env g ts)))
      then E_NOT_OK else fst ts)"
  by (simp add: Adc_appTest_setup_def Let_def split_def is_setup_failure_def)

lemma prefix_setup_fold:
  "prefix h (trace (snd ts)) \<Longrightarrow> prefix h (trace (snd (fold (Adc_appTest_setup env) gs ts)))"
  by (rule prefix_fold [where tr = "\<lambda>ts. trace (snd ts)"]) simp_all

lemma setup_fold_result:
  "fst (fold (Adc_appTest_setup env) gs ts) =
     (if list_ex is_setup_failure (new_events (snd ts) (snd (fold (Adc_appTest_setup env) gs ts)))
      then E_NOT_OK else fst ts)"
proof (induction gs arbitrary: ts)
  case Nil
  show ?case by simp
next
  case (Cons g gs)
  let ?ts1 = "Adc_appTest_setup env g ts"
  let ?ts2 = "fold (Adc_appTest_setup env) gs ?ts1"
  have split: "new_events (snd ts) (snd ?ts2) =
      new_events (snd ts) (snd ?ts1) @ new_events (snd ?ts1) (snd ?ts2)"
    by (rule new_events_append) (simp_all add: prefix_setup_fold)
  have "fst ?ts2 = (if list_ex is_setup_failure (new_events (snd ?ts1) (snd ?ts2))
      then E_NOT_OK else fst ?ts1)"
    by (rule Cons.IH)
  then show ?case
    using setup_body_result [of env g ts] by (simp add: split)
qed

lemma Test_gTestPassed:
  "gTestPassed (Adc_appTest env s) =
     (if list_ex is_setup_failure (setup_events env s) then E_NOT_OK else gTestPassed s)"
proof -
  have "fst (for_loop 0 (ADC_MAX_GROUP env) (Adc_appTest_setup env) (E_OK, s)) =
      (if list_ex is_setup_failure (setup_events env s) then E_NOT_OK else E_OK)"
    using setup_fold_result [of env "[0..<ADC_MAX_GROUP env]" "(E_OK, s)"]
    by (simp add: setup_events_def Adc_appTest_after_setup_def for_loop_fold)
  then show ?thesis
    by (simp add: Adc_appTest_def Let_def split_def for_loop_frames)
qed

lemma prefix_after_setup [simp]:
  "prefix h (trace s) \<Longrightarrow> prefix h (trace (Adc_appTest_after_setup env s))"
  by (simp add: Adc_appTest_after_setup_def for_loop_fold prefix_setup_fold)

lemma DeInit_verdict:
  "List.map_filter verdict_of (new_events s (Adc_appDeInit env s)) =
     [if gTestPassed s \<noteq> E_OK \<or> list_ex is_corruption (new_events s (Adc_appDeInit env s))
      then APP_UTILS_TEST_STATUS_FAIL else APP_UTILS_TEST_STATUS_PASS]"
  by (simp add: Adc_appDeInit_def Let_def split_def map_filter_append List.map_filter_simps
      verdict_of_def is_corruption_def)

lemma DeInit_gTestPassed:
  "gTestPassed (Adc_appDeInit env s) =
     (if list_ex is_corruption (new_events s (Adc_appDeInit env s)) then E_NOT_OK else gTestPassed s)"
  by (simp add: Adc_appDeInit_def Let_def split_def is_corruption_def)

lemma new_events_fold_induct:
  assumes pre: "\<And>i a h. prefix h (tr a) \<Longrightarrow> prefix h (tr (body i a))"
    and step: "\<And>i a. P (drop (length (tr a)) (tr (body i a)))"
    and nil: "P []"
    and app: "\<And>xs ys. P xs \<Longrightarrow> P ys \<Longrightarrow> P (xs @ ys)"
  shows "P (drop (length (tr a)) (tr (fold body xs a)))"
proof (induction xs arbitrary: a)
  case Nil
  show ?case by (simp add: nil)
next
  case (Cons x xs)
  have p1: "prefix (tr a) (tr (body x a))" by (rule pre) simp
  have p2: "prefix (tr (body x a)) (tr (fold body xs (body x a)))"
    by (rule prefix_fold [where tr = tr, OF pre]) simp_all
  from p1 obtain X where X: "tr (body x a) = tr a @ X" by (auto simp: prefix_def)
  from p2 obtain Y where Y: "tr (fold body xs (body x a)) = tr (body x a) @ Y"
    by (auto simp: prefix_def)
  have "P X" using step [of a x] X by simp
  moreover have "P Y" using Cons.IH [of "body x a"] Y by simp
  ultimately have "P (X @ Y)" by (rule app)
  then show ?case using X Y by simp
qed

text \<open>The two error lines of the set-up loop, for group \<open>g\<close>.\<close>

definition not_idle_error :: "nat \<Rightarrow> event" where
  "not_idle_error g = GT_trace GT_ERR ('' ADC Group %d is not IDLE!!'' @ crlf) [g]"

definition setup_buffer_error :: "nat \<Rightarrow> event" where
  "setup_buffer_error g = GT_trace GT_ERR ('' ADC Group %d setup buffer failed!!'' @ crlf) [g]"

text \<open>
  In a list of events, the error line of group \<open>g\<close> is present exactly when the check it
  reports failed for \<open>g\<close>.
\<close>

definition errors_match_failures :: "nat \<Rightarrow> event list \<Rightarrow> bool" where
  "errors_match_failures g E \<longleftrightarrow>
     (not_idle_error g \<in> set E) = (\<exists>st. st \<noteq> ADC_IDLE \<and> Adc_GetGroupStatus g st \<in> set E) \<and>
     (setup_buffer_error g \<in> set E) =
       (\<exists>r. r \<noteq> E_OK \<and> Adc_SetupResultBuffer g (Addr_gAdcAppSetupBuffer g 0) r \<in> set E)"

lemma errors_match_failures_Nil: "errors_match_failures g []"
  by (simp add: errors_match_failures_def)

lemma errors_match_failures_append:
  "errors_match_failures g xs \<Longrightarrow> errors_match_failures g ys \<Longrightarrow> errors_match_failures g (xs @ ys)"
  by (auto simp: errors_match_failures_def)

lemma errors_match_failures_setup:
  "errors_match_failures g' (drop (length (trace (snd ts))) (trace (snd (Adc_appTest_setup env g ts))))"
  by (cases "Adc_GetGroupStatus_ret env (trace (snd ts)) g")
    (auto simp: Adc_appTest_setup_def Let_def split_def errors_match_failures_def
      Adc_appPrintStatus_def not_idle_error_def setup_buffer_error_def)

lemma errors_match_failures_setup_events: "errors_match_failures g (setup_events env s)"
  unfolding setup_events_def Adc_appTest_after_setup_def new_events_def for_loop_fold
  using new_events_fold_induct [where tr = "\<lambda>ts. trace (snd ts)" and body = "Adc_appTest_setup env"
      and P = "errors_match_failures g" and a = "(E_OK, s)" and xs = "[0..<ADC_MAX_GROUP env]"]
  by (simp add: errors_match_failures_setup errors_match_failures_Nil errors_match_failures_append)

lemma skeleton_setup_events:
  "skeleton (setup_events env s) = concat (map Adc_appTest_setup_skel [0..<ADC_MAX_GROUP env])"
proof -
  have "skeleton (trace (snd (fold (Adc_appTest_setup env) [0..<ADC_MAX_GROUP env] (E_OK, s)))) =
      skeleton (trace s) @ concat (map Adc_appTest_setup_skel [0..<ADC_MAX_GROUP env])"
    using fold_proj [where F = skeleton and tr = "\<lambda>ts. trace (snd ts)"
        and body = "Adc_appTest_setup env" and g = Adc_appTest_setup_skel
        and xs = "[0..<ADC_MAX_GROUP env]" and a = "(E_OK, s)"]
    by (simp add: skel_setup)
  then show ?thesis
    unfolding setup_events_def
    by (intro new_events_proj [where F = skeleton])
      (simp_all add: Adc_appTest_after_setup_def for_loop_fold prefix_setup_fold)
qed

lemma verdict_of_skel: "verdict_of e = (case skel e of None \<Rightarrow> None | Some k \<Rightarrow> verdict_of k)"
  by (cases e) (simp_all add: verdict_of_def skel_def)

lemma no_verdict_in_Test: "List.map_filter verdict_of (new_events s (Adc_appTest env s)) = []"
proof -
  have it: "List.map_filter verdict_of (Adc_appTest_iteration_skel env) = []"
    by (simp add: Adc_appTest_iteration_skel_def map_filter_append
        map_filter_map_None Adc_appEpwmEnable_skel_def Adc_appPrintResult_skel_def
        map_filter_concat poll_skel_def verdict_of_def)
  have st: "List.map_filter verdict_of (Adc_appTest_setup_skel g) = []" for g
    by (simp add: Adc_appTest_setup_skel_def verdict_of_def)
  have "List.map_filter verdict_of (new_events s (Adc_appTest env s)) =
      List.map_filter verdict_of (Adc_appTest_skel env)"
    by (subst map_filter_via_skel [OF verdict_of_skel]) (simp add: skeleton_new_events_Test)
  also have "\<dots> = []"
    by (simp add: Adc_appTest_skel_def map_filter_append map_filter_concat it st o_def)
  finally show ?thesis .
qed

text \<open>
  The run after initialisation is \<^verbatim>\<open>Adc_appTest\<close> followed by \<^verbatim>\<open>Adc_appDeInit\<close>, as in
  \<^verbatim>\<open>main\<close>. \<open>run_verdicts\<close> lists the test results it reports, \<open>teardown_events\<close> the
  events of \<^verbatim>\<open>Adc_appDeInit\<close>.
\<close>

definition run_verdicts :: "platform \<Rightarrow> app_state \<Rightarrow> AppUtils_TestStatus list" where
  "run_verdicts env s =
     List.map_filter verdict_of (new_events s (Adc_appDeInit env (Adc_appTest env s)))"

definition teardown_events :: "platform \<Rightarrow> app_state \<Rightarrow> event list" where
  "teardown_events env s = new_events (Adc_appTest env s) (Adc_appDeInit env (Adc_appTest env s))"

lemma new_events_run:
  "new_events s (Adc_appDeInit env (Adc_appTest env s)) =
     new_events s (Adc_appTest env s) @ teardown_events env s"
  unfolding teardown_events_def by (rule new_events_append) simp_all

lemma run_verdicts_eq:
  "run_verdicts env s =
     [if gTestPassed s \<noteq> E_OK \<or> list_ex is_setup_failure (setup_events env s)
            \<or> list_ex is_corruption (teardown_events env s)
      then APP_UTILS_TEST_STATUS_FAIL else APP_UTILS_TEST_STATUS_PASS]"
  by (simp add: run_verdicts_def new_events_run map_filter_append no_verdict_in_Test
      teardown_events_def DeInit_verdict Test_gTestPassed)

section \<open>Concrete inputs\<close>

text \<open>
  The values of the file-scope variables when \<^verbatim>\<open>main\<close> starts (their C initialisers),
  and a platform with two groups of which group 1 is busy at set-up; loads return the
  number of events issued so far.
\<close>

definition app_start :: app_state where
  "app_start =
     \<lparr> gTestPassed = E_OK,
       gAdcAppDmaCallbackCount = 0,
       gAdcAppLog = replicate ADC_APP_LOG_SIZE \<lparr>dmaBuff = 0, hwResult = 0, status = ADC_IDLE\<rparr>,
       trace = [] \<rparr>"

definition demo_version :: Std_VersionInfoType where
  "demo_version =
     \<lparr> vendorID = 44, moduleID = 123, sw_major_version = 1, sw_minor_version = 0,
       sw_patch_version = 0 \<rparr>"

definition demo_config :: Adc_ConfigType where
  "demo_config =
     \<lparr> maxGroup = 2,
       maxHwUnit = 1,
       groupCfg = (\<lambda>g.
         \<lparr> groupId = g, groupPriority = 0, hwUnitId = 0, Adc_GroupEndNotification = 0,
           streamNumSamples = 1, resolution = 12, convMode = 0, triggSrc = 1, accessMode = 0,
           streamBufMode = 0, hwTrigSignal = 0, hwTrigTimer = 0, groupReplacement = 0,
           groupChannelMask = 1, groupDataAccessMode = 0, numChannels = 1,
           groupDmaChannelId = 0,
           channelConfig = (\<lambda>c. \<lparr>hwChannelId = c, samplewindow = 16\<rparr>) \<rparr>),
       hwUnitCfg = (\<lambda>u.
         \<lparr>unit_hwUnitId = u, unit_baseAddr = 0x502C0000, unit_prescale = 0, unit_resolution = 12\<rparr>) \<rparr>"

definition busy_platform :: platform where
  "busy_platform =
     \<lparr> ADC_MAX_GROUP = 2,
       APP_NAME = ''ADC_APP'',
       CDD_EDMA_OPT_TCINTEN_MASK = 0x00100000,
       CDD_EDMA_OPT_ITCINTEN_MASK = 0x00200000,
       CDD_EDMA_OPT_SYNCDIM_MASK = 0x00000004,
       CDD_EDMA_OPT_STATIC_MASK = 0x00000008,
       ADC_MAX_HW_UNIT = 1,
       AdcConfigSet = demo_config,
       Adc_GetVersionInfo_ret = (\<lambda>h. demo_version),
       Cdd_Dma_GetVersionInfo_ret = (\<lambda>h. demo_version),
       Adc_GetGroupStatus_ret = (\<lambda>h g. if g = 1 then ADC_BUSY else ADC_IDLE),
       Adc_SetupResultBuffer_ret = (\<lambda>h g. E_OK),
       Adc_GetReadResultBaseAddress_ret = (\<lambda>h g. 0x502C0000),
       Load_gAdcAppDmaBuffer_val = (\<lambda>h g i. of_nat (length h)),
       Load16_val = (\<lambda>h a. of_nat (length h)),
       AppUtils_getStackUsage_ret = (\<lambda>h. 1024),
       AppUtils_checkStackAndSectionCorruption_ret = (\<lambda>h. E_OK) \<rparr>"

lemma busy_platform_setup_fails: "list_ex is_setup_failure (setup_events busy_platform app_start)"
  by (simp add: setup_events_def Adc_appTest_after_setup_def for_loop.simps
      Adc_appTest_setup_def Let_def split_def busy_platform_def app_start_def
      is_setup_failure_def)

text \<open>The same platform with every group idle: a run that passes.\<close>

definition idle_platform :: platform where
  "idle_platform = busy_platform\<lparr>Adc_GetGroupStatus_ret := (\<lambda>h g. ADC_IDLE)\<rparr>"

lemma idle_platform_setup_ok: "\<not> list_ex is_setup_failure (setup_events idle_platform app_start)"
  by (simp add: setup_events_def Adc_appTest_after_setup_def for_loop.simps
      Adc_appTest_setup_def Let_def split_def busy_platform_def idle_platform_def app_start_def
      is_setup_failure_def E_OK_def)

text \<open>
  The same platform with group 0 failing both set-up checks instead: it is busy and its
  result buffer is refused.
\<close>

definition first_busy_platform :: platform where
  "first_busy_platform =
     busy_platform\<lparr>Adc_GetGroupStatus_ret := (\<lambda>h g. if g = 0 then ADC_BUSY else ADC_IDLE),
                   Adc_SetupResultBuffer_ret := (\<lambda>h g. if g = 0 then E_NOT_OK else E_OK)\<rparr>"

lemma no_corruption_reported:
  "AppUtils_checkStackAndSectionCorruption_ret env = (\<lambda>h. E_OK) \<Longrightarrow>
   \<not> list_ex is_corruption (teardown_events env s)"
  by (simp add: teardown_events_def Adc_appDeInit_def Let_def split_def is_corruption_def)

section \<open>Initialisation and \<^verbatim>\<open>main\<close>\<close>

text \<open>
  The loops of \<^verbatim>\<open>Adc_appInit\<close> count in eight bits. If they return, the states before
  and after are related by any reflexive and transitive relation that every body
  respects.
\<close>

lemma for_loop_u8_inv_aux:
  assumes refl: "\<And>a. R a a"
    and trans: "\<And>a b c. R a b \<Longrightarrow> R b c \<Longrightarrow> R a c"
    and run: "for_loop_u8 i n body s = Some s'"
  shows "(\<forall>j a a'. body j a = Some a' \<longrightarrow> R a a') \<longrightarrow> R s s'"
proof (rule for_loop_u8.raw_induct
    [where P = "\<lambda>i n body s s'. (\<forall>j a a'. body j a = Some a' \<longrightarrow> R a a') \<longrightarrow> R s s'", OF _ run])
  fix f :: "8 word \<Rightarrow> nat \<Rightarrow> (nat \<Rightarrow> 'a \<Rightarrow> 'a option) \<Rightarrow> 'a \<Rightarrow> 'a option"
    and i n body s s'
  assume IH: "\<And>i n body s s'. f i n body s = Some s' \<Longrightarrow>
      (\<forall>j a a'. body j a = Some a' \<longrightarrow> R a a') \<longrightarrow> R s s'"
    and unfold: "(if unat i < n then Option.bind (body (unat i) s) (f (i + 1) n body) else Some s) = Some s'"
  show "(\<forall>j a a'. body j a = Some a' \<longrightarrow> R a a') \<longrightarrow> R s s'"
  proof
    assume step: "\<forall>j a a'. body j a = Some a' \<longrightarrow> R a a'"
    show "R s s'"
    proof (cases "unat i < n")
      case True
      with unfold obtain s1 where s1: "body (unat i) s = Some s1" "f (i + 1) n body s1 = Some s'"
        by (auto simp: bind_eq_Some_conv)
      from step s1(1) have "R s s1" by blast
      moreover from IH [OF s1(2)] step have "R s1 s'" by blast
      ultimately show ?thesis by (rule trans)
    next
      case False
      with unfold show ?thesis by (simp add: refl)
    qed
  qed
qed

lemma for_loop_u8_inv:
  assumes "for_loop_u8 i n body s = Some s'"
    and "\<And>j a a'. body j a = Some a' \<Longrightarrow> R a a'"
    and "\<And>a. R a a"
    and "\<And>a b c. R a b \<Longrightarrow> R b c \<Longrightarrow> R a c"
  shows "R s s'"
  using for_loop_u8_inv_aux [of R i n body s s'] assms by blast

text \<open>What the orchestrator's printing and set-up code may do to a state: append events.\<close>

definition only_emits :: "app_state \<Rightarrow> app_state \<Rightarrow> bool" where
  "only_emits s s' \<longleftrightarrow>
     prefix (trace s) (trace s') \<and> gTestPassed s' = gTestPassed s \<and>
     gAdcAppDmaCallbackCount s' = gAdcAppDmaCallbackCount s \<and> gAdcAppLog s' = gAdcAppLog s"

lemma only_emits_refl [simp]: "only_emits s s"
  by (simp add: only_emits_def)

lemma only_emits_trans: "only_emits a b \<Longrightarrow> only_emits b c \<Longrightarrow> only_emits a c"
  by (auto simp: only_emits_def)

lemma only_emits_emit [simp]: "only_emits s (emit e s)" "only_emits s (emits es s)"
  by (simp_all add: only_emits_def)

lemma only_emits_emit_after [simp]:
  "only_emits s s' \<Longrightarrow> only_emits s (emit e s')"
  "only_emits s s' \<Longrightarrow> only_emits s (emits es s')"
  by (simp_all add: only_emits_def)

lemma Init_channel_only_emits: "only_emits s (Adc_appInit_channel g c s)"
  by (simp add: Adc_appInit_channel_def)

lemma Init_group_only_emits:
  assumes "Adc_appInit_group env g s = Some s'"
  shows "only_emits s s'"
proof -
  let ?s1 = "emits [] s"
  from assms obtain s1 where s1: "only_emits s s1"
    and loop: "for_loop_u8 0 (numChannels (groupCfg (AdcConfigSet env) g))
        (\<lambda>chIdx s. Some (Adc_appInit_channel (groupCfg (AdcConfigSet env) g) chIdx s)) s1 = Some s'"
    unfolding Adc_appInit_group_def Let_def by (metis only_emits_emit(2))
  have "only_emits s1 s'"
    using loop
    by (rule for_loop_u8_inv) (auto simp: Init_channel_only_emits intro: only_emits_trans)
  with s1 show ?thesis by (rule only_emits_trans)
qed

lemma InterruptConfig_only_emits [simp]:
  "only_emits s s' \<Longrightarrow> only_emits s (Adc_appInterruptConfig s')"
  by (simp add: Adc_appInterruptConfig_def Let_def)

lemma call_version_simps [simp]:
  "fst (call_Adc_GetVersionInfo env s) = Adc_GetVersionInfo_ret env (trace s)"
  "snd (call_Adc_GetVersionInfo env s) = emit (Adc_GetVersionInfo (Adc_GetVersionInfo_ret env (trace s))) s"
  "fst (call_Cdd_Dma_GetVersionInfo env s) = Cdd_Dma_GetVersionInfo_ret env (trace s)"
  "snd (call_Cdd_Dma_GetVersionInfo env s) = emit (Cdd_Dma_GetVersionInfo (Cdd_Dma_GetVersionInfo_ret env (trace s))) s"
  by (simp_all add: call_Adc_GetVersionInfo_def call_Cdd_Dma_GetVersionInfo_def Let_def)

lemma Init_only_emits:
  assumes "Adc_appInit env s = Some s'"
  shows "only_emits s s'"
proof -
  from assms obtain s1 s2 s3 where s1: "only_emits s s1"
    and g: "for_loop_u8 0 (ADC_MAX_GROUP env) (Adc_appInit_group env) s1 = Some s2"
    and h: "for_loop_u8 0 (ADC_MAX_HW_UNIT env)
        (\<lambda>hwUnitIdx s. Some (Adc_appInit_hwUnit env hwUnitIdx s)) s2 = Some s3"
    and e: "only_emits s3 s'"
    unfolding Adc_appInit_def Let_def split_def bind_eq_Some_conv
    by (elim exE conjE) (simp, metis only_emits_emit_after only_emits_emit only_emits_refl InterruptConfig_only_emits)
  have "only_emits s1 s2"
    using g by (rule for_loop_u8_inv) (auto simp: Init_group_only_emits intro: only_emits_trans)
  moreover have "only_emits s2 s3"
    using h
    by (rule for_loop_u8_inv) (auto simp: Adc_appInit_hwUnit_def Let_def intro: only_emits_trans)
  ultimately show ?thesis using s1 e by (blast intro: only_emits_trans)
qed


lemma unat_u8_Suc: "unat (i :: 8 word) < 255 \<Longrightarrow> unat (i + 1) = unat i + 1"
  by (simp add: unat_word_ariths)

lemma for_loop_u8_returns:
  assumes "n \<le> 255" and "\<And>j a. j < n \<Longrightarrow> \<exists>a'. body j a = Some a'"
  shows "\<exists>s'. for_loop_u8 i n body s = Some s'"
proof (induction "n - unat i" arbitrary: i s)
  case 0
  then show ?case by (subst for_loop_u8.simps) simp
next
  case (Suc k)
  then have lt: "unat i < n" by simp
  with assms(2) obtain s1 where s1: "body (unat i) s = Some s1" by blast
  from lt assms(1) have "unat (i + 1) = unat i + 1" by (simp add: unat_u8_Suc)
  with Suc.hyps(2) have "k = n - unat (i + 1)" by simp
  from Suc.hyps(1) [OF this] obtain s' where "for_loop_u8 (i + 1) n body s1 = Some s'" by blast
  with lt s1 show ?case by (subst for_loop_u8.simps) simp
qed

text \<open>
  The configurations for which \<^verbatim>\<open>Adc_appInit\<close> returns: no loop bound exceeds what an
  eight-bit counter reaches.
\<close>

definition Adc_appInit_terminates :: "platform \<Rightarrow> bool" where
  "Adc_appInit_terminates env \<longleftrightarrow>
     ADC_MAX_GROUP env \<le> 255 \<and> ADC_MAX_HW_UNIT env \<le> 255 \<and>
     list_all (\<lambda>g. numChannels (groupCfg (AdcConfigSet env) g) \<le> 255) [0..<ADC_MAX_GROUP env]"

lemma Init_returns:
  assumes "Adc_appInit_terminates env"
  shows "\<exists>s'. Adc_appInit env s = Some s'"
proof -
  from assms have g: "ADC_MAX_GROUP env \<le> 255" and h: "ADC_MAX_HW_UNIT env \<le> 255"
    and c: "\<And>j. j < ADC_MAX_GROUP env \<Longrightarrow> numChannels (groupCfg (AdcConfigSet env) j) \<le> 255"
    by (simp_all add: Adc_appInit_terminates_def list_all_iff)
  have grp: "\<exists>a'. Adc_appInit_group env j a = Some a'" if "j < ADC_MAX_GROUP env" for j a
    unfolding Adc_appInit_group_def Let_def
    by (rule for_loop_u8_returns) (simp_all add: c that)
  have hw: "\<exists>s'. for_loop_u8 0 (ADC_MAX_HW_UNIT env)
      (\<lambda>hwUnitIdx s. Some (Adc_appInit_hwUnit env hwUnitIdx s)) a = Some s'" for a
    by (rule for_loop_u8_returns) (simp_all add: h)
  have "\<exists>s'. for_loop_u8 0 (ADC_MAX_GROUP env) (Adc_appInit_group env) a = Some s'" for a
    by (rule for_loop_u8_returns) (simp_all add: g grp)
  with hw show ?thesis
    unfolding Adc_appInit_def Let_def split_def bind_eq_Some_conv by metis
qed

lemma main_returns:
  assumes "Adc_appInit_terminates env"
  shows "\<exists>s1. Adc_appInit env s = Some s1 \<and> only_emits s s1 \<and>
            main env s = Some (Adc_appDeInit env (Adc_appTest env s1))"
proof -
  from Init_returns [OF assms] obtain s1 where s1: "Adc_appInit env s = Some s1" by blast
  then have "only_emits s s1" by (rule Init_only_emits)
  with s1 show ?thesis by (simp add: main_def)
qed

lemma main_Some:
  "main env s = Some s' \<longleftrightarrow>
     (\<exists>s1. Adc_appInit env s = Some s1 \<and> s' = Adc_appDeInit env (Adc_appTest env s1))"
  by (auto simp: main_def bind_eq_Some_conv)

lemma hooks_only_emit:
  "only_emits s (AdcApp_Group0EndNotification s)"
  "only_emits s (SchM_Enter_Mcu_MCU_EXCLUSIVE_AREA_0 s)"
  "only_emits s (SchM_Exit_Mcu_MCU_EXCLUSIVE_AREA_0 s)"
  "only_emits s (SchM_Enter_Port_PORT_EXCLUSIVE_AREA_0 s)"
  "only_emits s (SchM_Exit_Port_PORT_EXCLUSIVE_AREA_0 s)"
  "only_emits s (SchM_Enter_Adc_ADC_EXCLUSIVE_AREA_0 s)"
  "only_emits s (SchM_Exit_Adc_ADC_EXCLUSIVE_AREA_0 s)"
  "only_emits s (SchM_Enter_Cdd_Dma_DMA_EXCLUSIVE_AREA_0 s)"
  "only_emits s (SchM_Exit_Cdd_Dma_DMA_EXCLUSIVE_AREA_0 s)"
  "only_emits s (Adc_appInterruptConfig s)"
  by (simp_all add: AdcApp_Group0EndNotification_def SchM_Enter_Mcu_MCU_EXCLUSIVE_AREA_0_def
      SchM_Exit_Mcu_MCU_EXCLUSIVE_AREA_0_def SchM_Enter_Port_PORT_EXCLUSIVE_AREA_0_def
      SchM_Exit_Port_PORT_EXCLUSIVE_AREA_0_def SchM_Enter_Adc_ADC_EXCLUSIVE_AREA_0_def
      SchM_Exit_Adc_ADC_EXCLUSIVE_AREA_0_def SchM_Enter_Cdd_Dma_DMA_EXCLUSIVE_AREA_0_def
      SchM_Exit_Cdd_Dma_DMA_EXCLUSIVE_AREA_0_def)

text \<open>
  The functions of the file that are called by the drivers or during initialisation
  only, and take no argument.
\<close>

definition file_hooks :: "(app_state \<Rightarrow> app_state) list" where
  "file_hooks =
     [Adc_appInterruptConfig, AdcApp_Group0EndNotification,
      SchM_Enter_Mcu_MCU_EXCLUSIVE_AREA_0, SchM_Exit_Mcu_MCU_EXCLUSIVE_AREA_0,
      SchM_Enter_Port_PORT_EXCLUSIVE_AREA_0, SchM_Exit_Port_PORT_EXCLUSIVE_AREA_0,
      SchM_Enter_Adc_ADC_EXCLUSIVE_AREA_0, SchM_Exit_Adc_ADC_EXCLUSIVE_AREA_0,
      SchM_Enter_Cdd_Dma_DMA_EXCLUSIVE_AREA_0, SchM_Exit_Cdd_Dma_DMA_EXCLUSIVE_AREA_0]"

lemma file_hooks_only_emit: "list_all (\<lambda>f. only_emits s (f s)) file_hooks"
  by (simp add: file_hooks_def hooks_only_emit)

lemma demo_terminates: "Adc_appInit_terminates idle_platform" "Adc_appInit_terminates busy_platform"
  by (simp_all add: Adc_appInit_terminates_def idle_platform_def busy_platform_def demo_config_def
      list_all_iff)

section \<open>The application log\<close>

text \<open>
  The values a poll tick samples, as they appear in the events: the buffered DMA value,
  the value of the hardware result register and the group status. \<open>entries_of\<close> groups
  a list of samples into log entries, three samples an entry.
\<close>

datatype sample = BufVal "16 word" | HwVal "16 word" | StatusVal Adc_StatusType

definition sample_of :: "event \<Rightarrow> sample option" where
  "sample_of e =
     (case e of
        Load_gAdcAppDmaBuffer g i v \<Rightarrow> Some (BufVal v)
      | Load16 a v \<Rightarrow> Some (HwVal v)
      | Adc_GetGroupStatus g st \<Rightarrow> Some (StatusVal st)
      | _ \<Rightarrow> None)"

definition samples :: "event list \<Rightarrow> sample list" where
  "samples E = List.map_filter sample_of E"

fun entries_of :: "sample list \<Rightarrow> Adc_AppLog_t list" where
  "entries_of (BufVal v # HwVal h # StatusVal st # xs) =
     \<lparr>dmaBuff = v, hwResult = h, status = st\<rparr> # entries_of xs"
| "entries_of _ = []"

lemma samples_simps [simp]:
  "samples [] = []"
  "samples (xs @ ys) = samples xs @ samples ys"
  "samples (e # es) = (case sample_of e of None \<Rightarrow> samples es | Some x \<Rightarrow> x # samples es)"
  by (simp_all add: samples_def map_filter_append split: option.splits)

text \<open>The entry one poll tick records, started in state \<open>s\<close>.\<close>

definition Adc_appPrintResult_poll_entry :: "platform \<Rightarrow> 32 word \<Rightarrow> app_state \<Rightarrow> Adc_AppLog_t" where
  "Adc_appPrintResult_poll_entry env dmaDataAddr s =
     (let s = emit (Mcal_CacheP_inv (Addr_gAdcAppDmaBuffer 0 0) (sizeof_gAdcAppDmaBuffer env)
                      Mcal_CacheP_TYPE_ALL) s;
          (v, s) = load_gAdcAppDmaBuffer env 0 0 s;
          (h, s) = load16 env dmaDataAddr s;
          (st, s) = call_Adc_GetGroupStatus env 0 s
      in \<lparr>dmaBuff = v, hwResult = h, status = st\<rparr>)"

lemma Adc_AppLog_t_all_updated:
  "(r :: Adc_AppLog_t)\<lparr>dmaBuff := v, hwResult := h, status := st\<rparr> =
     \<lparr>dmaBuff = v, hwResult = h, status = st\<rparr>"
  by (cases r) simp

lemma poll_events:
  "new_events s (Adc_appPrintResult_poll env a i s) =
     [Mcal_CacheP_inv (Addr_gAdcAppDmaBuffer 0 0) (sizeof_gAdcAppDmaBuffer env) Mcal_CacheP_TYPE_ALL,
      Load_gAdcAppDmaBuffer 0 0 (dmaBuff (Adc_appPrintResult_poll_entry env a s)),
      Load16 a (hwResult (Adc_appPrintResult_poll_entry env a s)),
      Adc_GetGroupStatus 0 (status (Adc_appPrintResult_poll_entry env a s)),
      AppUtils_delay 100]"
  by (simp add: Adc_appPrintResult_poll_def Adc_appPrintResult_poll_entry_def Let_def split_def)

lemma poll_log:
  "gAdcAppLog (Adc_appPrintResult_poll env a i s) =
     (gAdcAppLog s)[i := Adc_appPrintResult_poll_entry env a s]"
proof (cases "i < length (gAdcAppLog s)")
  case True
  then show ?thesis
    by (simp add: Adc_appPrintResult_poll_def Adc_appPrintResult_poll_entry_def Let_def split_def
        Adc_AppLog_t_all_updated)
next
  case False
  then show ?thesis
    by (simp add: Adc_appPrintResult_poll_def Let_def split_def list_update_beyond)
qed

lemma poll_fold_log:
  "i \<le> n \<Longrightarrow> n \<le> length (gAdcAppLog s) \<Longrightarrow>
   gAdcAppLog (fold (Adc_appPrintResult_poll env a) [i..<n] s) =
     take i (gAdcAppLog s)
     @ entries_of (samples (new_events s (fold (Adc_appPrintResult_poll env a) [i..<n] s)))
     @ drop n (gAdcAppLog s)"
proof (induction "n - i" arbitrary: i s)
  case 0
  then show ?case by simp
next
  case (Suc k)
  let ?body = "Adc_appPrintResult_poll env a"
  let ?s1 = "?body i s"
  let ?s2 = "fold ?body [Suc i..<n] ?s1"
  let ?e = "Adc_appPrintResult_poll_entry env a s"
  from Suc.hyps(2) have lt: "i < n" by simp
  then have upt: "[i..<n] = i # [Suc i..<n]" by (simp add: upt_conv_Cons)
  have p2: "prefix (trace ?s1) (trace ?s2)"
    by (rule prefix_fold [where tr = trace]) simp_all
  have ev: "new_events s ?s2 = new_events s ?s1 @ new_events ?s1 ?s2"
    by (rule new_events_append) (simp_all add: p2)
  have len1: "n \<le> length (gAdcAppLog ?s1)" using Suc.prems by simp
  have IH: "gAdcAppLog ?s2 =
      take (Suc i) (gAdcAppLog ?s1) @ entries_of (samples (new_events ?s1 ?s2)) @ drop n (gAdcAppLog ?s1)"
    using Suc.hyps(1) [of "Suc i" ?s1] Suc.hyps(2) lt len1 by simp
  have t: "take (Suc i) (gAdcAppLog ?s1) = take i (gAdcAppLog s) @ [?e]"
    using lt Suc.prems by (simp add: poll_log take_Suc_conv_app_nth)
  have d: "drop n (gAdcAppLog ?s1) = drop n (gAdcAppLog s)"
    using lt by (simp add: poll_log)
  show ?case
    by (simp add: upt IH t d ev poll_events sample_of_def)
qed

lemma samples_fold_quiet:
  assumes "\<And>i a. samples (trace (body i a)) = samples (trace a)"
  shows "samples (trace (fold body xs s)) = samples (trace s)"
  using fold_proj [where F = samples and tr = trace and body = body and g = "\<lambda>_. []" and xs = xs and a = s]
    assms by simp

lemma samples_PrintStatus [simp]: "samples (trace (Adc_appPrintStatus g st s)) = samples (trace s)"
  by (cases st) (simp_all add: Adc_appPrintStatus_def sample_of_def)

lemma samples_show [simp]: "samples (trace (Adc_appPrintResult_show i s)) = samples (trace s)"
  by (simp add: Adc_appPrintResult_show_def Let_def sample_of_def)

lemma samples_group [simp]: "samples (trace (Adc_appPrintResult_group env i s)) = samples (trace s)"
  by (simp add: Adc_appPrintResult_group_def Let_def sample_of_def)

lemma samples_EpwmEnable [simp]: "samples (trace (Adc_appEpwmEnable b s)) = samples (trace s)"
  by (simp add: Adc_appEpwmEnable_def sample_of_def)

lemma samples_DisableTrigger [simp]: "samples (trace (Adc_appDisableTrigger b s)) = samples (trace s)"
  by (simp add: Adc_appDisableTrigger_def sample_of_def)

lemma samples_DmaConfigure [simp]:
  "samples (trace (Adc_appDmaConfigure env d l c a s)) = samples (trace s)"
  by (simp add: Adc_appDmaConfigure_def Let_def sample_of_def)

lemma samples_map_quiet: "(\<And>x. sample_of (g x) = None) \<Longrightarrow> samples (map g xs) = []"
  by (simp add: samples_def map_filter_map_None)

lemma trace_as_new_events: "prefix (trace s) (trace s') \<Longrightarrow> trace s' = trace s @ new_events s s'"
  by (auto simp: prefix_def new_events_def)

lemma poll_loop_log:
  assumes "length (gAdcAppLog s) = ADC_APP_LOG_SIZE"
  shows "\<exists>S. samples (trace (for_loop 0 ADC_APP_LOG_SIZE (Adc_appPrintResult_poll env a) s)) =
              samples (trace s) @ S \<and>
            gAdcAppLog (for_loop 0 ADC_APP_LOG_SIZE (Adc_appPrintResult_poll env a) s) = entries_of S"
proof -
  let ?s' = "fold (Adc_appPrintResult_poll env a) [0..<ADC_APP_LOG_SIZE] s"
  have p: "prefix (trace s) (trace ?s')"
    by (rule prefix_fold [where tr = trace]) simp_all
  have "trace ?s' = trace s @ new_events s ?s'"
    using p by (rule trace_as_new_events)
  then have "samples (trace ?s') = samples (trace s) @ samples (new_events s ?s')"
    by (metis samples_simps(2))
  moreover have "gAdcAppLog ?s' = entries_of (samples (new_events s ?s'))"
    using poll_fold_log [of 0 ADC_APP_LOG_SIZE s env a] assms by simp
  ultimately show ?thesis unfolding for_loop_fold by blast
qed

lemma PrintResult_log:
  assumes "length (gAdcAppLog s) = ADC_APP_LOG_SIZE"
  shows "\<exists>S. samples (trace (Adc_appPrintResult env k s)) = samples (trace s) @ S \<and>
            gAdcAppLog (Adc_appPrintResult env k s) = entries_of S"
proof -
  define s1 where "s1 = for_loop 0 (ADC_MAX_GROUP env) (Adc_appPrintResult_group env)
      (emit (GT_trace GT_INFO ('' ----------------------------'' @ crlf) [])
        (emit (GT_trace GT_INFO ('' Read Buffer Content (Loop %d)'' @ crlf) [k])
          (emit (GT_trace GT_INFO ('' '' @ crlf) []) s)))"
  define a where "a = fst (call_Adc_GetReadResultBaseAddress env ADC_APP_GROUP_ID s1)"
  define sa where "sa = snd (call_Adc_GetReadResultBaseAddress env ADC_APP_GROUP_ID s1)"
  define sb where "sb = for_loop 0 ADC_APP_LOG_SIZE (Adc_appPrintResult_poll env a) sa"
  have eq: "Adc_appPrintResult env k s =
      emit (GT_trace GT_INFO ('' '' @ crlf) []) (for_loop 0 ADC_APP_LOG_SIZE Adc_appPrintResult_show sb)"
    by (simp add: Adc_appPrintResult_def Let_def split_def s1_def a_def sa_def sb_def)
  have s1_samples: "samples (trace s1) = samples (trace s)"
    by (simp add: s1_def for_loop_fold samples_fold_quiet sample_of_def)
  have s1_log: "gAdcAppLog s1 = gAdcAppLog s"
    by (simp add: s1_def for_loop_frames)
  have sa_samples: "samples (trace sa) = samples (trace s)"
    by (simp add: sa_def s1_samples sample_of_def)
  have sa_log: "length (gAdcAppLog sa) = ADC_APP_LOG_SIZE"
    by (simp add: sa_def s1_log assms)
  from poll_loop_log [OF sa_log, of env a] obtain S where
    S: "samples (trace sb) = samples (trace sa) @ S" "gAdcAppLog sb = entries_of S"
    unfolding sb_def by blast
  have "samples (trace (Adc_appPrintResult env k s)) = samples (trace s) @ S"
    by (simp add: eq for_loop_fold samples_fold_quiet S sa_samples sample_of_def)
  moreover have "gAdcAppLog (Adc_appPrintResult env k s) = entries_of S"
    by (simp add: eq for_loop_frames S)
  ultimately show ?thesis by blast
qed

lemma iteration_log:
  assumes "length (gAdcAppLog s) = ADC_APP_LOG_SIZE"
  shows "\<exists>S. samples (trace (Adc_appTest_iteration env k s)) = samples (trace s) @ S \<and>
            gAdcAppLog (Adc_appTest_iteration env k s) = entries_of S"
proof -
  define s1 where "s1 = emit (Adc_SetInterruptContinuousMode ADC_APP_GROUP_ID)
      (emit (Adc_EnableHardwareTrigger ADC_APP_GROUP_ID)
        (for_loop 0 (ADC_MAX_GROUP env) (\<lambda>grpIdx. emit (Adc_EnableGroupNotification grpIdx))
          (emit (Mcal_CacheP_wb (Addr_gAdcAppDmaBuffer 0 0) (sizeof_gAdcAppDmaBuffer env) Mcal_CacheP_TYPE_ALL)
            (emit (memset (Addr_gAdcAppDmaBuffer 0 0) 0 (sizeof_gAdcAppDmaBuffer env)) s))))"
  define a where "a = fst (call_Adc_GetReadResultBaseAddress env ADC_APP_GROUP_ID s1)"
  define s2 where "s2 = snd (call_Adc_GetReadResultBaseAddress env ADC_APP_GROUP_ID s1)"
  define sa where "sa =
      emit (Store32 (0x502F0000 + 0x0010) 0x00000001)
        (emit (Store32 (0x502F0000 + 0x100C) 0xFEDCBA8)
          (emit (Store32 (0x502F0000 + 0x1008) 0x01234567)
            (emit (EPWM_setTimeBaseCounterMode ADC_APP_EPWM_BASE_ADDR EPWM_COUNTER_MODE_UP)
              (Adc_appEpwmEnable ADC_APP_EPWM_BASE_ADDR
                (Adc_appDmaConfigure env (Addr_gAdcAppDmaBuffer 0 0)
                  (of_nat (ADC_APP_NUM_CHANNEL * 2)) ADC_APP_DMA_CHANNEL a s2)))))"
  define sb where "sb = Adc_appPrintResult env k sa"
  have eq: "Adc_appTest_iteration env k s =
      for_loop 0 (ADC_MAX_GROUP env) (\<lambda>grpIdx. emit (Adc_DisableGroupNotification grpIdx))
        (emit (Adc_DisableHardwareTrigger ADC_APP_GROUP_ID)
          (Adc_appDisableTrigger ADC_APP_EPWM_BASE_ADDR sb))"
    by (simp add: Adc_appTest_iteration_def Let_def split_def s1_def a_def s2_def sa_def sb_def)
  have sa_samples: "samples (trace sa) = samples (trace s)"
    by (simp add: sa_def s2_def s1_def for_loop_fold samples_map_quiet sample_of_def)
  have sa_log: "length (gAdcAppLog sa) = ADC_APP_LOG_SIZE"
    by (simp add: sa_def s2_def s1_def for_loop_frames assms)
  from PrintResult_log [OF sa_log, of env k] obtain S where
    S: "samples (trace sb) = samples (trace sa) @ S" "gAdcAppLog sb = entries_of S"
    unfolding sb_def by blast
  have "samples (trace (Adc_appTest_iteration env k s)) = samples (trace s) @ S"
    by (simp add: eq for_loop_fold samples_map_quiet S sa_samples sample_of_def)
  moreover have "gAdcAppLog (Adc_appTest_iteration env k s) = entries_of S"
    by (simp add: eq for_loop_frames S)
  ultimately show ?thesis by blast
qed

lemma log_is_samples:
  assumes "prefix (trace s) (trace s')"
    and "\<exists>S. samples (trace s') = samples (trace s) @ S \<and> gAdcAppLog s' = entries_of S"
  shows "gAdcAppLog s' = entries_of (samples (new_events s s'))"
proof -
  from assms(2) obtain S where S: "samples (trace s') = samples (trace s) @ S"
    "gAdcAppLog s' = entries_of S" by blast
  have "samples (new_events s s') = S"
    using assms(1) S(1) by (rule new_events_proj) simp
  with S(2) show ?thesis by simp
qed

text \<open>The state in which the polling loop of an iteration starts, and the address it polls.\<close>

definition Adc_appTest_iteration_arm :: "platform \<Rightarrow> app_state \<Rightarrow> app_state" where
  "Adc_appTest_iteration_arm env s =
     (let s = emit (memset (Addr_gAdcAppDmaBuffer 0 0) 0 (sizeof_gAdcAppDmaBuffer env)) s;
          s = emit (Mcal_CacheP_wb (Addr_gAdcAppDmaBuffer 0 0) (sizeof_gAdcAppDmaBuffer env)
                      Mcal_CacheP_TYPE_ALL) s;
          s = for_loop 0 (ADC_MAX_GROUP env) (\<lambda>grpIdx. emit (Adc_EnableGroupNotification grpIdx)) s;
          s = emit (Adc_EnableHardwareTrigger ADC_APP_GROUP_ID) s;
          s = emit (Adc_SetInterruptContinuousMode ADC_APP_GROUP_ID) s;
          (dmaDataAddr, s) = call_Adc_GetReadResultBaseAddress env ADC_APP_GROUP_ID s;
          s = Adc_appDmaConfigure env (Addr_gAdcAppDmaBuffer 0 0)
                (of_nat (ADC_APP_NUM_CHANNEL * 2)) ADC_APP_DMA_CHANNEL dmaDataAddr s;
          s = Adc_appEpwmEnable ADC_APP_EPWM_BASE_ADDR s;
          s = emit (EPWM_setTimeBaseCounterMode ADC_APP_EPWM_BASE_ADDR EPWM_COUNTER_MODE_UP) s;
          s = emit (Store32 (0x502F0000 + 0x1008) 0x01234567) s;
          s = emit (Store32 (0x502F0000 + 0x100C) 0xFEDCBA8) s;
          s = emit (Store32 (0x502F0000 + 0x0010) 0x00000001) s
      in s)"

definition Adc_appPrintResult_header :: "platform \<Rightarrow> nat \<Rightarrow> app_state \<Rightarrow> 32 word \<times> app_state" where
  "Adc_appPrintResult_header env loopcnt s =
     (let s = emit (GT_trace GT_INFO ('' '' @ crlf) []) s;
          s = emit (GT_trace GT_INFO ('' Read Buffer Content (Loop %d)'' @ crlf) [loopcnt]) s;
          s = emit (GT_trace GT_INFO ('' ----------------------------'' @ crlf) []) s;
          s = for_loop 0 (ADC_MAX_GROUP env) (Adc_appPrintResult_group env) s
      in call_Adc_GetReadResultBaseAddress env ADC_APP_GROUP_ID s)"

definition drain_start :: "platform \<Rightarrow> nat \<Rightarrow> app_state \<Rightarrow> app_state" where
  "drain_start env k s = snd (Adc_appPrintResult_header env k (Adc_appTest_iteration_arm env s))"

definition drain_addr :: "platform \<Rightarrow> nat \<Rightarrow> app_state \<Rightarrow> 32 word" where
  "drain_addr env k s = fst (Adc_appPrintResult_header env k (Adc_appTest_iteration_arm env s))"

definition drain_end :: "platform \<Rightarrow> nat \<Rightarrow> app_state \<Rightarrow> app_state" where
  "drain_end env k s =
     for_loop 0 ADC_APP_LOG_SIZE (Adc_appPrintResult_poll env (drain_addr env k s)) (drain_start env k s)"

lemma iteration_log_is_drain_log:
  "gAdcAppLog (Adc_appTest_iteration env k s) = gAdcAppLog (drain_end env k s)"
  by (simp add: Adc_appTest_iteration_def Adc_appPrintResult_def Let_def split_def for_loop_frames
      drain_end_def drain_start_def drain_addr_def Adc_appPrintResult_header_def
      Adc_appTest_iteration_arm_def)

lemma drain_start_log [simp]: "gAdcAppLog (drain_start env k s) = gAdcAppLog s"
  by (simp add: drain_start_def Adc_appPrintResult_header_def Adc_appTest_iteration_arm_def
      Let_def split_def for_loop_frames)

lemma prefix_drain_start [simp]: "prefix h (trace s) \<Longrightarrow> prefix h (trace (drain_start env k s))"
  by (simp add: drain_start_def Adc_appPrintResult_header_def Adc_appTest_iteration_arm_def
      Let_def split_def prefix_for_loop [where tr = trace])

definition drain_start_skel :: "platform \<Rightarrow> event list" where
  "drain_start_skel env =
     [memset (Addr_gAdcAppDmaBuffer 0 0) 0 (sizeof_gAdcAppDmaBuffer env),
      Mcal_CacheP_wb (Addr_gAdcAppDmaBuffer 0 0) (sizeof_gAdcAppDmaBuffer env) Mcal_CacheP_TYPE_ALL]
     @ map Adc_EnableGroupNotification [0..<ADC_MAX_GROUP env]
     @ [Adc_EnableHardwareTrigger ADC_APP_GROUP_ID,
        Adc_SetInterruptContinuousMode ADC_APP_GROUP_ID,
        Adc_GetReadResultBaseAddress ADC_APP_GROUP_ID 0,
        Cdd_Dma_ParamSet ADC_APP_DMA_CHANNEL 0 0
          (edmaParam_skel env (Addr_gAdcAppDmaBuffer 0 0) (of_nat (ADC_APP_NUM_CHANNEL * 2))),
        Cdd_Dma_EnableTransferRegion ADC_APP_DMA_CHANNEL CDD_EDMA_TRIG_MODE_EVENT]
     @ Adc_appEpwmEnable_skel ADC_APP_EPWM_BASE_ADDR
     @ [EPWM_setTimeBaseCounterMode ADC_APP_EPWM_BASE_ADDR EPWM_COUNTER_MODE_UP,
        Store32 (0x502F0000 + 0x1008) 0x01234567,
        Store32 (0x502F0000 + 0x100C) 0xFEDCBA8,
        Store32 (0x502F0000 + 0x0010) 0x00000001,
        Adc_GetReadResultBaseAddress ADC_APP_GROUP_ID 0]"

lemma skel_drain_start:
  "skeleton (trace (drain_start env k s)) = skeleton (trace s) @ drain_start_skel env"
proof -
  have group_loop: "\<And>s xs. skeleton (trace (fold (Adc_appPrintResult_group env) xs s)) = skeleton (trace s)"
    using skel_fold_const [where K = "[]" and body = "Adc_appPrintResult_group env"]
    by (simp add: skel_group)
  show ?thesis
    by (simp add: drain_start_def Adc_appPrintResult_header_def Adc_appTest_iteration_arm_def
      Let_def split_def for_loop_fold group_loop skel_EpwmEnable skel_DmaConfigure
      drain_start_skel_def skel_def skeleton_map_Some)
qed

lemma poll_fold_take:
  "\<forall>x\<in>set xs. i \<le> x \<Longrightarrow>
   take i (gAdcAppLog (fold (Adc_appPrintResult_poll env a) xs s)) = take i (gAdcAppLog s)"
  by (induction xs arbitrary: s) (simp_all add: poll_log)

lemma poll_fold_drop:
  "\<forall>x\<in>set xs. x < i \<Longrightarrow>
   drop i (gAdcAppLog (fold (Adc_appPrintResult_poll env a) xs s)) = drop i (gAdcAppLog s)"
  by (induction xs arbitrary: s) (simp_all add: poll_log)

lemma poll_loop_first_entry:
  assumes "0 < length (gAdcAppLog s)"
  shows "gAdcAppLog (for_loop 0 ADC_APP_LOG_SIZE (Adc_appPrintResult_poll env a) s) ! 0 =
     Adc_appPrintResult_poll_entry env a s"
proof -
  let ?s1 = "Adc_appPrintResult_poll env a 0 s"
  let ?s' = "fold (Adc_appPrintResult_poll env a) [1..<ADC_APP_LOG_SIZE] ?s1"
  have "[0..<ADC_APP_LOG_SIZE] = 0 # [1..<ADC_APP_LOG_SIZE]"
    by (simp add: ADC_APP_LOG_SIZE_def upt_conv_Cons)
  then have run: "for_loop 0 ADC_APP_LOG_SIZE (Adc_appPrintResult_poll env a) s = ?s'"
    by (simp add: for_loop_fold)
  have "take 1 (gAdcAppLog ?s') = take 1 (gAdcAppLog ?s1)"
    by (rule poll_fold_take) simp
  moreover have "0 < length (gAdcAppLog ?s')" "0 < length (gAdcAppLog ?s1)"
    using assms by (simp_all add: fold_frame [where f = "\<lambda>s. length (gAdcAppLog s)"])
  ultimately have "gAdcAppLog ?s' ! 0 = gAdcAppLog ?s1 ! 0"
    by (metis One_nat_def hd_conv_nth hd_take length_greater_0_conv less_numeral_extra(1))
  also have "\<dots> = Adc_appPrintResult_poll_entry env a s"
    using assms by (simp add: poll_log)
  finally show ?thesis by (simp add: run)
qed

lemma iteration_first_sample:
  assumes "0 < length (gAdcAppLog s)"
  shows "dmaBuff (gAdcAppLog (Adc_appTest_iteration env k s) ! 0) =
     Load_gAdcAppDmaBuffer_val env
       (trace (drain_start env k s)
        @ [Mcal_CacheP_inv (Addr_gAdcAppDmaBuffer 0 0) (sizeof_gAdcAppDmaBuffer env) Mcal_CacheP_TYPE_ALL]) 0 0"
proof -
  have "gAdcAppLog (Adc_appTest_iteration env k s) ! 0 =
      Adc_appPrintResult_poll_entry env (drain_addr env k s) (drain_start env k s)"
    unfolding iteration_log_is_drain_log drain_end_def
    using assms by (intro poll_loop_first_entry) simp
  then show ?thesis
    by (simp add: Adc_appPrintResult_poll_entry_def Let_def split_def)
qed

lemma in_skeleton_iff:
  assumes "skel x = Some x" and "\<And>e. skel e = Some x \<Longrightarrow> e = x"
  shows "x \<in> set (skeleton E) \<longleftrightarrow> x \<in> set E"
proof (induction E)
  case Nil
  show ?case by simp
next
  case (Cons e E)
  show ?case
  proof (cases "skel e")
    case None
    with assms(1) have "e \<noteq> x" by auto
    with None Cons show ?thesis by simp
  next
    case (Some k)
    with assms Cons show ?thesis by auto
  qed
qed

lemma DisableHardwareTrigger_in_skeleton:
  "Adc_DisableHardwareTrigger g \<in> set (skeleton E) \<longleftrightarrow> Adc_DisableHardwareTrigger g \<in> set E"
proof (rule in_skeleton_iff)
  show "skel (Adc_DisableHardwareTrigger g) = Some (Adc_DisableHardwareTrigger g)"
    by (simp add: skel_def)
  show "e = Adc_DisableHardwareTrigger g" if "skel e = Some (Adc_DisableHardwareTrigger g)" for e
    using that by (cases e) (simp_all add: skel_def)
qed

section \<open>Arming order (claim C3)\<close>

text \<open>
  The steps of the arming sequence, each with what it is applied to: filling a buffer
  (address, value, size), writing it back from the cache (address, size), enabling a
  group's notification, enabling a group's hardware trigger, programming the DMA
  parameter set of a channel (with its destination), enabling the DMA transfer region
  of a channel, and starting the EPWM counter (\<^verbatim>\<open>EPWM_setTimeBaseCounterMode\<close> with
  \<^verbatim>\<open>EPWM_COUNTER_MODE_UP\<close>). Every other event, the counter-mode call with
  \<^verbatim>\<open>EPWM_COUNTER_MODE_STOP_FREEZE\<close> included, is no arming step.
\<close>

datatype arm_step =
    Filled address nat nat
  | Flushed address nat
  | NotifyOn nat
  | HwTrigOn nat
  | DmaConfigured "32 word" address
  | DmaArmed "32 word"
  | TrigStarted "32 word"

definition arm_step_of :: "event \<Rightarrow> arm_step option" where
  "arm_step_of e =
     (case e of
        memset p v n \<Rightarrow> Some (Filled p v n)
      | Mcal_CacheP_wb p n t \<Rightarrow> Some (Flushed p n)
      | Adc_EnableGroupNotification g \<Rightarrow> Some (NotifyOn g)
      | Adc_EnableHardwareTrigger g \<Rightarrow> Some (HwTrigOn g)
      | Cdd_Dma_ParamSet c x y p \<Rightarrow> Some (DmaConfigured c (destPtr p))
      | Cdd_Dma_EnableTransferRegion c m \<Rightarrow> Some (DmaArmed c)
      | EPWM_setTimeBaseCounterMode b m \<Rightarrow>
          (case m of EPWM_COUNTER_MODE_UP \<Rightarrow> Some (TrigStarted b)
                   | EPWM_COUNTER_MODE_STOP_FREEZE \<Rightarrow> None)
      | _ \<Rightarrow> None)"

text \<open>The arming steps of one iteration.\<close>

definition arm_pattern :: "platform \<Rightarrow> arm_step list" where
  "arm_pattern env =
     [Filled (Addr_gAdcAppDmaBuffer 0 0) 0 (sizeof_gAdcAppDmaBuffer env),
      Flushed (Addr_gAdcAppDmaBuffer 0 0) (sizeof_gAdcAppDmaBuffer env)]
     @ map NotifyOn [0..<ADC_MAX_GROUP env]
     @ [HwTrigOn ADC_APP_GROUP_ID,
        DmaConfigured ADC_APP_DMA_CHANNEL (Addr_gAdcAppDmaBuffer 0 0),
        DmaArmed ADC_APP_DMA_CHANNEL,
        TrigStarted ADC_APP_EPWM_BASE_ADDR]"

lemma arm_step_of_skel: "arm_step_of e = (case skel e of None \<Rightarrow> None | Some k \<Rightarrow> arm_step_of k)"
  by (cases e) (simp_all add: arm_step_of_def skel_def)

lemma arm_steps_setup_skel: "List.map_filter arm_step_of (Adc_appTest_setup_skel g) = []"
  by (simp add: Adc_appTest_setup_skel_def arm_step_of_def)

lemma arm_steps_iteration_skel:
  "List.map_filter arm_step_of (Adc_appTest_iteration_skel env) = arm_pattern env"
proof -
  have on: "List.map_filter arm_step_of (map Adc_EnableGroupNotification xs) = map NotifyOn xs" for xs
    by (simp add: map_filter_map_Some [where h = NotifyOn] arm_step_of_def)
  have off: "List.map_filter arm_step_of (map Adc_DisableGroupNotification xs) = []" for xs
    by (simp add: map_filter_map_None arm_step_of_def)
  have poll: "List.map_filter arm_step_of (poll_skel env) = []"
    by (simp add: poll_skel_def arm_step_of_def)
  have pr: "List.map_filter arm_step_of (Adc_appPrintResult_skel env) = []"
    by (simp add: Adc_appPrintResult_skel_def map_filter_concat poll arm_step_of_def)
  show ?thesis
    by (simp add: Adc_appTest_iteration_skel_def map_filter_append on off pr
        Adc_appEpwmEnable_skel_def arm_step_of_def arm_pattern_def edmaParam_skel_def)
qed

text \<open>
  Claim C3. Whatever the platform answers and whatever the state \<^verbatim>\<open>Adc_appTest\<close> starts
  in, the arming steps among the events it issues are, ten times over
  (\<^verbatim>\<open>ADC_APP_LOOPCNT\<close>), exactly: all of \<^verbatim>\<open>gAdcAppDmaBuffer\<close> filled with zero, the same
  bytes written back from the cache, the notification of every group enabled in index
  order, the hardware trigger of group 0 enabled, the DMA parameter set of the channel
  programmed with \<^verbatim>\<open>gAdcAppDmaBuffer\<close> as destination, the DMA transfer region of the
  channel enabled, and the EPWM counter started (count-up mode). In particular each
  iteration enables the DMA transfer before it starts the counter, never after, and the
  set-up loop issues no arming step.
\<close>

theorem arming_order_in_every_iteration:
  "List.map_filter arm_step_of (new_events s (Adc_appTest env s)) =
     concat (replicate ADC_APP_LOOPCNT (arm_pattern env))"
proof -
  have "List.map_filter arm_step_of (new_events s (Adc_appTest env s)) =
      List.map_filter arm_step_of (Adc_appTest_skel env)"
    by (subst map_filter_via_skel [OF arm_step_of_skel]) (simp add: skeleton_new_events_Test)
  also have "\<dots> = concat (replicate ADC_APP_LOOPCNT (arm_pattern env))"
    by (simp add: Adc_appTest_skel_def map_filter_append map_filter_concat arm_steps_setup_skel
        arm_steps_iteration_skel o_def)
  finally show ?thesis .
qed

section \<open>Disarming order (claim C7)\<close>

text \<open>
  The calls that stop something: a counter-mode call (with its mode), a disable of an
  EPWM start-of-conversion trigger, the disable of the ADC hardware trigger and of a
  group notification. \<open>Polled\<close> marks a poll tick (\<^verbatim>\<open>AppUtils_delay\<close>), so that the
  Disarmed phase is seen to follow the Draining phase.
\<close>

datatype disarm_step =
    CounterMode EPWM_TimeBaseCountMode
  | TrigPathOff EPWM_ADCStartOfConversionType
  | Polled
  | HwTrigOff nat
  | NotifyOff nat

definition disarm_step_of :: "event \<Rightarrow> disarm_step option" where
  "disarm_step_of e =
     (case e of
        EPWM_setTimeBaseCounterMode b m \<Rightarrow> Some (CounterMode m)
      | EPWM_disableADCTrigger b soc \<Rightarrow> Some (TrigPathOff soc)
      | AppUtils_delay n \<Rightarrow> Some Polled
      | Adc_DisableHardwareTrigger g \<Rightarrow> Some (HwTrigOff g)
      | Adc_DisableGroupNotification g \<Rightarrow> Some (NotifyOff g)
      | _ \<Rightarrow> None)"

lemma disarm_step_of_skel:
  "disarm_step_of e = (case skel e of None \<Rightarrow> None | Some k \<Rightarrow> disarm_step_of k)"
  by (cases e) (simp_all add: disarm_step_of_def skel_def)

definition disarm_pattern :: "platform \<Rightarrow> disarm_step list" where
  "disarm_pattern env =
     [CounterMode EPWM_COUNTER_MODE_STOP_FREEZE, TrigPathOff EPWM_SOC_B,
      CounterMode EPWM_COUNTER_MODE_UP]
     @ replicate ADC_APP_LOG_SIZE Polled
     @ [TrigPathOff EPWM_SOC_A, TrigPathOff EPWM_SOC_B,
        CounterMode EPWM_COUNTER_MODE_STOP_FREEZE,
        HwTrigOff ADC_APP_GROUP_ID]
     @ map NotifyOff [0..<ADC_MAX_GROUP env]"

lemma disarm_steps_setup_skel: "List.map_filter disarm_step_of (Adc_appTest_setup_skel g) = []"
  by (simp add: Adc_appTest_setup_skel_def List.map_filter_simps disarm_step_of_def)

lemma concat_replicate_singleton: "concat (replicate n [x]) = replicate n x"
  by (induction n) simp_all

lemma disarm_steps_iteration_skel:
  "List.map_filter disarm_step_of (Adc_appTest_iteration_skel env) = disarm_pattern env"
proof -
  have on: "List.map_filter disarm_step_of (map Adc_EnableGroupNotification xs) = []" for xs
    by (simp add: map_filter_map_None disarm_step_of_def)
  have off: "List.map_filter disarm_step_of (map Adc_DisableGroupNotification xs) = map NotifyOff xs" for xs
    by (simp add: map_filter_map_Some [where h = NotifyOff] disarm_step_of_def)
  have poll: "List.map_filter disarm_step_of (poll_skel env) = [Polled]"
    by (simp add: poll_skel_def List.map_filter_simps disarm_step_of_def)
  have pr: "List.map_filter disarm_step_of (Adc_appPrintResult_skel env) = replicate ADC_APP_LOG_SIZE Polled"
    by (simp add: Adc_appPrintResult_skel_def List.map_filter_simps map_filter_concat poll
        concat_replicate_singleton disarm_step_of_def)
  show ?thesis
    by (simp add: Adc_appTest_iteration_skel_def map_filter_append on off pr
        Adc_appEpwmEnable_skel_def List.map_filter_simps disarm_pattern_def disarm_step_of_def)
qed

text \<open>
  Claim C7. In each of the ten iterations of \<^verbatim>\<open>Adc_appTest\<close>, after the counter has been
  started and the ten poll ticks have run, the Disarmed phase is exactly: EPWM trigger
  SOC-A disabled, SOC-B disabled, counter frozen (the trigger generator is stopped), then
  the ADC hardware trigger of group 0 disabled, then the notification of every group
  disabled in index order. The three steps before the counter start are those
  \<^verbatim>\<open>Adc_appEpwmEnable\<close> issues while arming.
\<close>

theorem disarm_order_in_every_iteration:
  "List.map_filter disarm_step_of (new_events s (Adc_appTest env s)) =
     concat (replicate ADC_APP_LOOPCNT (disarm_pattern env))"
proof -
  have "List.map_filter disarm_step_of (new_events s (Adc_appTest env s)) =
      List.map_filter disarm_step_of (Adc_appTest_skel env)"
    by (subst map_filter_via_skel [OF disarm_step_of_skel]) (simp add: skeleton_new_events_Test)
  also have "\<dots> = concat (replicate ADC_APP_LOOPCNT (disarm_pattern env))"
    by (simp add: Adc_appTest_skel_def map_filter_append map_filter_concat disarm_steps_setup_skel
        disarm_steps_iteration_skel o_def)
  finally show ?thesis .
qed

section \<open>Set-up failures (claim C1)\<close>

text \<open>
  The set-up phase of \<^verbatim>\<open>Adc_appTest\<close>: the events it issues before the first iteration
  begins. Every iteration begins with the \<open>memset\<close> of line 149, and there is always a
  first iteration (\<^verbatim>\<open>ADC_APP_LOOPCNT\<close> is 10).
\<close>

definition is_iteration_start :: "event \<Rightarrow> bool" where
  "is_iteration_start e = (case e of memset p v n \<Rightarrow> True | _ \<Rightarrow> False)"

definition setup_phase :: "platform \<Rightarrow> app_state \<Rightarrow> event list" where
  "setup_phase env s = takeWhile (\<lambda>e. \<not> is_iteration_start e) (new_events s (Adc_appTest env s))"

lemma setup_body_before_iterations:
  "list_all (\<lambda>e. \<not> is_iteration_start e)
     (drop (length (trace (snd ts))) (trace (snd (Adc_appTest_setup env g ts))))"
  by (cases "Adc_GetGroupStatus_ret env (trace (snd ts)) g")
    (auto simp: Adc_appTest_setup_def Let_def split_def is_iteration_start_def Adc_appPrintStatus_def)

lemma setup_events_before_iterations:
  "list_all (\<lambda>e. \<not> is_iteration_start e) (setup_events env s)"
  unfolding setup_events_def Adc_appTest_after_setup_def new_events_def for_loop_fold
  using new_events_fold_induct [where tr = "\<lambda>ts. trace (snd ts)" and body = "Adc_appTest_setup env"
      and P = "list_all (\<lambda>e. \<not> is_iteration_start e)" and a = "(E_OK, s)"
      and xs = "[0..<ADC_MAX_GROUP env]"]
  by (simp add: setup_body_before_iterations)

lemma iteration_begins:
  "prefix (trace s @ [memset (Addr_gAdcAppDmaBuffer 0 0) 0 (sizeof_gAdcAppDmaBuffer env)])
     (trace (Adc_appTest_iteration env k s))"
  by (simp add: Adc_appTest_iteration_def Let_def split_def prefix_for_loop [where tr = trace])

lemma iterations_begin:
  "\<exists>X. new_events s (for_loop 0 ADC_APP_LOOPCNT (Adc_appTest_iteration env) s) =
     memset (Addr_gAdcAppDmaBuffer 0 0) 0 (sizeof_gAdcAppDmaBuffer env) # X"
proof -
  have "for_loop 0 ADC_APP_LOOPCNT (Adc_appTest_iteration env) s =
      for_loop 1 ADC_APP_LOOPCNT (Adc_appTest_iteration env) (Adc_appTest_iteration env 0 s)"
    by (subst for_loop.simps) (simp add: ADC_APP_LOOPCNT_def)
  moreover have "prefix (trace s @ [memset (Addr_gAdcAppDmaBuffer 0 0) 0 (sizeof_gAdcAppDmaBuffer env)])
      (trace (for_loop 1 ADC_APP_LOOPCNT (Adc_appTest_iteration env) (Adc_appTest_iteration env 0 s)))"
    by (rule prefix_for_loop [where tr = trace]) (simp_all add: iteration_begins)
  ultimately show ?thesis
    by (auto simp: new_events_def prefix_def)
qed

lemma new_events_Test_split:
  "new_events s (Adc_appTest env s) =
     setup_events env s
     @ new_events (Adc_appTest_after_setup env s)
         (for_loop 0 ADC_APP_LOOPCNT (Adc_appTest_iteration env) (Adc_appTest_after_setup env s))"
proof -
  have "trace (Adc_appTest env s) =
      trace (for_loop 0 ADC_APP_LOOPCNT (Adc_appTest_iteration env) (Adc_appTest_after_setup env s))"
    by (simp add: Adc_appTest_def Adc_appTest_after_setup_def Let_def split_def)
  then have "new_events s (Adc_appTest env s) =
      new_events s (for_loop 0 ADC_APP_LOOPCNT (Adc_appTest_iteration env) (Adc_appTest_after_setup env s))"
    by (simp add: new_events_def)
  also have "\<dots> = new_events s (Adc_appTest_after_setup env s)
      @ new_events (Adc_appTest_after_setup env s)
         (for_loop 0 ADC_APP_LOOPCNT (Adc_appTest_iteration env) (Adc_appTest_after_setup env s))"
    by (rule new_events_append) (simp_all add: prefix_for_loop [where tr = trace])
  finally show ?thesis by (simp add: setup_events_def)
qed

lemma setup_phase_eq: "setup_phase env s = setup_events env s"
proof -
  obtain X where X: "new_events (Adc_appTest_after_setup env s)
         (for_loop 0 ADC_APP_LOOPCNT (Adc_appTest_iteration env) (Adc_appTest_after_setup env s)) =
     memset (Addr_gAdcAppDmaBuffer 0 0) 0 (sizeof_gAdcAppDmaBuffer env) # X"
    using iterations_begin by blast
  have "\<forall>e\<in>set (setup_events env s). \<not> is_iteration_start e"
    using setup_events_before_iterations [of env s] by (simp add: list_all_iff)
  then show ?thesis
    unfolding setup_phase_def new_events_Test_split X
    by (simp add: takeWhile_append2 is_iteration_start_def)
qed

text \<open>
  Claim C1. In the set-up phase of \<^verbatim>\<open>Adc_appTest\<close>, for every group \<open>g\<close>, the "not IDLE"
  error for \<open>g\<close> is printed exactly when the status read for \<open>g\<close> was not \<^verbatim>\<open>ADC_IDLE\<close>, and
  the "setup buffer failed" error for \<open>g\<close> exactly when \<^verbatim>\<open>Adc_SetupResultBuffer\<close> for \<open>g\<close>
  did not return \<^verbatim>\<open>E_OK\<close>. Whatever the answers, the driver calls of the set-up phase
  are, for every group \<open>0 .. ADC_MAX_GROUP - 1\<close> in index order, the status query and
  then the installation of the result buffer: set-up continues with the failing
  group's buffer and with all later groups. If any of these checks failed,
  \<^verbatim>\<open>Adc_appTest\<close> leaves \<^verbatim>\<open>gTestPassed\<close> at \<^verbatim>\<open>E_NOT_OK\<close> and the one result the run reports
  is \<^verbatim>\<open>APP_UTILS_TEST_STATUS_FAIL\<close>.
\<close>

theorem setup_failure_recorded_and_setup_continues:
  "errors_match_failures g (setup_phase env s) \<and>
   skeleton (setup_phase env s) = concat (map Adc_appTest_setup_skel [0..<ADC_MAX_GROUP env]) \<and>
   (list_ex is_setup_failure (setup_phase env s) \<longrightarrow>
      gTestPassed (Adc_appTest env s) = E_NOT_OK \<and>
      run_verdicts env s = [APP_UTILS_TEST_STATUS_FAIL])"
  by (simp add: setup_phase_eq errors_match_failures_setup_events skeleton_setup_events
      run_verdicts_eq Test_gTestPassed)

text \<open>
  Scenario B of the specification: group 1 is busy, its error is printed, none is
  printed for group 0, the buffer of group 1 is installed all the same, and the run
  reports FAIL. And with group 0 busy and its buffer installation failing, both errors
  are printed for group 0, none for group 1, and group 1 is still checked and set up.
\<close>

lemma busy_platform_setup_phase:
  "setup_phase busy_platform app_start =
     [Adc_GetGroupStatus 0 ADC_IDLE,
      GT_trace GT_INFO '' ADC Group %d Status: '' [0],
      GT_trace GT_INFO ''ADC_IDLE  !'' [],
      GT_trace GT_INFO ('' '' @ crlf) [],
      Adc_SetupResultBuffer 0 (Addr_gAdcAppSetupBuffer 0 0) E_OK,
      Adc_GetGroupStatus 1 ADC_BUSY,
      GT_trace GT_INFO '' ADC Group %d Status: '' [1],
      GT_trace GT_INFO ''ADC_BUSY !'' [],
      GT_trace GT_INFO ('' '' @ crlf) [],
      not_idle_error 1,
      Adc_SetupResultBuffer 1 (Addr_gAdcAppSetupBuffer 1 0) E_OK]"
  by (simp add: setup_phase_eq setup_events_def Adc_appTest_after_setup_def for_loop.simps
      Adc_appTest_setup_def Let_def split_def busy_platform_def app_start_def not_idle_error_def)

lemma first_busy_platform_setup_phase:
  "setup_phase first_busy_platform app_start =
     [Adc_GetGroupStatus 0 ADC_BUSY,
      GT_trace GT_INFO '' ADC Group %d Status: '' [0],
      GT_trace GT_INFO ''ADC_BUSY !'' [],
      GT_trace GT_INFO ('' '' @ crlf) [],
      not_idle_error 0,
      Adc_SetupResultBuffer 0 (Addr_gAdcAppSetupBuffer 0 0) E_NOT_OK,
      setup_buffer_error 0,
      Adc_GetGroupStatus 1 ADC_IDLE,
      GT_trace GT_INFO '' ADC Group %d Status: '' [1],
      GT_trace GT_INFO ''ADC_IDLE  !'' [],
      GT_trace GT_INFO ('' '' @ crlf) [],
      Adc_SetupResultBuffer 1 (Addr_gAdcAppSetupBuffer 1 0) E_OK]"
  by (simp add: setup_phase_eq setup_events_def Adc_appTest_after_setup_def for_loop.simps
      Adc_appTest_setup_def Let_def split_def first_busy_platform_def busy_platform_def
      app_start_def not_idle_error_def setup_buffer_error_def)

theorem setup_failure_recorded_and_setup_continues_witness:
  "list_ex is_setup_failure (setup_phase busy_platform app_start) \<and>
   not_idle_error 1 \<in> set (setup_phase busy_platform app_start) \<and>
   not_idle_error 0 \<notin> set (setup_phase busy_platform app_start) \<and>
   Adc_SetupResultBuffer 1 (Addr_gAdcAppSetupBuffer 1 0) E_OK \<in> set (setup_phase busy_platform app_start) \<and>
   gTestPassed (Adc_appTest busy_platform app_start) = E_NOT_OK \<and>
   run_verdicts busy_platform app_start = [APP_UTILS_TEST_STATUS_FAIL] \<and>
   list_ex is_setup_failure (setup_phase first_busy_platform app_start) \<and>
   not_idle_error 0 \<in> set (setup_phase first_busy_platform app_start) \<and>
   setup_buffer_error 0 \<in> set (setup_phase first_busy_platform app_start) \<and>
   Adc_GetGroupStatus 1 ADC_IDLE \<in> set (setup_phase first_busy_platform app_start) \<and>
   Adc_SetupResultBuffer 1 (Addr_gAdcAppSetupBuffer 1 0) E_OK \<in> set (setup_phase first_busy_platform app_start) \<and>
   not_idle_error 1 \<notin> set (setup_phase first_busy_platform app_start) \<and>
   gTestPassed (Adc_appTest first_busy_platform app_start) = E_NOT_OK \<and>
   run_verdicts first_busy_platform app_start = [APP_UTILS_TEST_STATUS_FAIL]"
proof -
  have f1: "list_ex is_setup_failure (setup_phase busy_platform app_start)"
    by (simp add: busy_platform_setup_phase is_setup_failure_def not_idle_error_def)
  have m1: "not_idle_error 1 \<in> set (setup_phase busy_platform app_start)"
    "not_idle_error 0 \<notin> set (setup_phase busy_platform app_start)"
    "Adc_SetupResultBuffer 1 (Addr_gAdcAppSetupBuffer 1 0) E_OK \<in> set (setup_phase busy_platform app_start)"
    by (simp_all add: busy_platform_setup_phase) (simp add: not_idle_error_def)
  have f2: "list_ex is_setup_failure (setup_phase first_busy_platform app_start)"
    by (simp add: first_busy_platform_setup_phase is_setup_failure_def not_idle_error_def)
  have m2: "not_idle_error 0 \<in> set (setup_phase first_busy_platform app_start)"
    "setup_buffer_error 0 \<in> set (setup_phase first_busy_platform app_start)"
    "Adc_GetGroupStatus 1 ADC_IDLE \<in> set (setup_phase first_busy_platform app_start)"
    "Adc_SetupResultBuffer 1 (Addr_gAdcAppSetupBuffer 1 0) E_OK \<in> set (setup_phase first_busy_platform app_start)"
    "not_idle_error 1 \<notin> set (setup_phase first_busy_platform app_start)"
    by (simp_all add: first_busy_platform_setup_phase) (simp add: not_idle_error_def setup_buffer_error_def)
  from setup_failure_recorded_and_setup_continues [of 1 busy_platform app_start]
    setup_failure_recorded_and_setup_continues [of 0 first_busy_platform app_start]
    f1 m1 f2 m2
  show ?thesis by simp
qed

section \<open>One verdict, after all iterations (claim C2)\<close>

text \<open>
  The steps of a run that matter here: a group's result buffer installed, the start of an
  iteration (the \<open>memset\<close>), a poll tick, the end of an iteration (the ADC hardware
  trigger disabled), the corruption check, and the reported test result.
\<close>

datatype run_step =
    GroupSetUp nat
  | IterationBegins
  | PollTick
  | IterationEnds
  | CorruptionChecked
  | Verdict AppUtils_TestStatus

definition run_step_of :: "event \<Rightarrow> run_step option" where
  "run_step_of e =
     (case e of
        Adc_SetupResultBuffer g p r \<Rightarrow> Some (GroupSetUp g)
      | memset p v n \<Rightarrow> Some IterationBegins
      | AppUtils_delay n \<Rightarrow> Some PollTick
      | Adc_DisableHardwareTrigger g \<Rightarrow> Some IterationEnds
      | AppUtils_checkStackAndSectionCorruption r \<Rightarrow> Some CorruptionChecked
      | AppUtils_logTestResult v \<Rightarrow> Some (Verdict v)
      | _ \<Rightarrow> None)"

lemma run_step_of_skel: "run_step_of e = (case skel e of None \<Rightarrow> None | Some k \<Rightarrow> run_step_of k)"
  by (cases e) (simp_all add: run_step_of_def skel_def)

definition iteration_steps :: "run_step list" where
  "iteration_steps = IterationBegins # replicate ADC_APP_LOG_SIZE PollTick @ [IterationEnds]"

lemma run_steps_Test:
  "List.map_filter run_step_of (new_events s (Adc_appTest env s)) =
     map GroupSetUp [0..<ADC_MAX_GROUP env] @ concat (replicate ADC_APP_LOOPCNT iteration_steps)"
proof -
  have poll: "List.map_filter run_step_of (poll_skel env) = [PollTick]"
    by (simp add: poll_skel_def run_step_of_def)
  have it: "List.map_filter run_step_of (Adc_appTest_iteration_skel env) = iteration_steps"
    by (simp add: Adc_appTest_iteration_skel_def map_filter_append
        map_filter_map_None Adc_appEpwmEnable_skel_def Adc_appPrintResult_skel_def
        map_filter_concat poll concat_replicate_singleton iteration_steps_def run_step_of_def)
  have st: "List.map_filter run_step_of (Adc_appTest_setup_skel g) = [GroupSetUp g]" for g
    by (simp add: Adc_appTest_setup_skel_def run_step_of_def)
  have sts: "concat (map (\<lambda>g. [GroupSetUp g]) xs) = map GroupSetUp xs" for xs
    by (induction xs) simp_all
  have "List.map_filter run_step_of (new_events s (Adc_appTest env s)) =
      List.map_filter run_step_of (Adc_appTest_skel env)"
    by (subst map_filter_via_skel [OF run_step_of_skel]) (simp add: skeleton_new_events_Test)
  also have "\<dots> = map GroupSetUp [0..<ADC_MAX_GROUP env] @ concat (replicate ADC_APP_LOOPCNT iteration_steps)"
    by (simp add: Adc_appTest_skel_def map_filter_append map_filter_concat it st sts o_def)
  finally show ?thesis .
qed

lemma run_steps_DeInit:
  "List.map_filter run_step_of (new_events s (Adc_appDeInit env s)) =
     [CorruptionChecked,
      Verdict (if list_ex is_corruption (new_events s (Adc_appDeInit env s)) \<or> gTestPassed s \<noteq> E_OK
               then APP_UTILS_TEST_STATUS_FAIL else APP_UTILS_TEST_STATUS_PASS)]"
  by (simp add: Adc_appDeInit_def Let_def split_def map_filter_append
      run_step_of_def is_corruption_def)

text \<open>
  Claim C2. Whatever the platform answers: after the set-up of every group the run
  executes exactly \<^verbatim>\<open>ADC_APP_LOOPCNT\<close> = 10 iterations of \<^verbatim>\<open>ADC_APP_LOG_SIZE\<close> = 10 poll
  ticks each, then makes the corruption check, then reports exactly one test result.
  That result is FAIL if a set-up check failed, or the corruption check failed, or the
  flag was not \<^verbatim>\<open>E_OK\<close> on entry, and PASS otherwise. No failure shortens the loop.
  (By \<open>main_Some\<close>, a run of \<^verbatim>\<open>main\<close> is \<^verbatim>\<open>Adc_appInit\<close> followed by exactly this, and
  by \<open>Init_only_emits\<close> the flag is still \<^verbatim>\<open>E_OK\<close> when \<^verbatim>\<open>Adc_appInit\<close> has returned.)
\<close>

theorem errors_aggregated_into_one_final_verdict:
  "List.map_filter run_step_of (new_events s (Adc_appDeInit env (Adc_appTest env s))) =
     map GroupSetUp [0..<ADC_MAX_GROUP env]
     @ concat (replicate ADC_APP_LOOPCNT iteration_steps)
     @ [CorruptionChecked,
        Verdict (if list_ex is_setup_failure (setup_events env s)
                    \<or> list_ex is_corruption (teardown_events env s)
                    \<or> gTestPassed s \<noteq> E_OK
                 then APP_UTILS_TEST_STATUS_FAIL else APP_UTILS_TEST_STATUS_PASS)]"
proof -
  have "List.map_filter run_step_of (teardown_events env s) =
      [CorruptionChecked,
       Verdict (if list_ex is_setup_failure (setup_events env s)
                    \<or> list_ex is_corruption (teardown_events env s)
                    \<or> gTestPassed s \<noteq> E_OK
                then APP_UTILS_TEST_STATUS_FAIL else APP_UTILS_TEST_STATUS_PASS)]"
    unfolding teardown_events_def
    by (simp add: run_steps_DeInit Test_gTestPassed)
  then show ?thesis
    by (simp add: new_events_run map_filter_append run_steps_Test)
qed

section \<open>The verdict flag is failure-sticky (claim C10)\<close>

lemma Callback_frame [simp]:
  "gTestPassed (Adc_appDmaTransferCallback s) = gTestPassed s"
  "gAdcAppLog (Adc_appDmaTransferCallback s) = gAdcAppLog s"
  "trace (Adc_appDmaTransferCallback s) = trace s"
  "gAdcAppDmaCallbackCount (Adc_appDmaTransferCallback s) = gAdcAppDmaCallbackCount s + 1"
  by (simp_all add: Adc_appDmaTransferCallback_def)

text \<open>A computation either keeps \<^verbatim>\<open>gTestPassed\<close> or sets it to \<^verbatim>\<open>E_NOT_OK\<close>.\<close>

definition flag_kept_or_failed :: "app_state \<Rightarrow> app_state \<Rightarrow> bool" where
  "flag_kept_or_failed s s' \<longleftrightarrow> gTestPassed s' = gTestPassed s \<or> gTestPassed s' = E_NOT_OK"

text \<open>
  Claim C10. \<^verbatim>\<open>gTestPassed\<close> starts as \<^verbatim>\<open>E_OK\<close>. \<^verbatim>\<open>Adc_appTest\<close> and \<^verbatim>\<open>Adc_appDeInit\<close>
  keep it or set it to \<^verbatim>\<open>E_NOT_OK\<close>, every other function of the file keeps it
  (\<^verbatim>\<open>Adc_appInit\<close>, when it returns, and the hooks only issue events), so a flag that is
  not \<^verbatim>\<open>E_OK\<close> never becomes \<^verbatim>\<open>E_OK\<close> again. Started with \<^verbatim>\<open>E_OK\<close>, the run reports
  FAIL if and only if a set-up check or the corruption check failed, and the flag is
  \<^verbatim>\<open>E_OK\<close> at the end if and only if none did.
\<close>

theorem verdict_flag_is_failure_sticky:
  "gTestPassed app_start = E_OK \<and>
   flag_kept_or_failed s (Adc_appTest env s) \<and>
   flag_kept_or_failed s (Adc_appDeInit env s) \<and>
   gTestPassed (Adc_appTest_iteration env k s) = gTestPassed s \<and>
   gTestPassed (Adc_appPrintResult env k s) = gTestPassed s \<and>
   gTestPassed (Adc_appPrintStatus g st s) = gTestPassed s \<and>
   gTestPassed (Adc_appEpwmEnable b s) = gTestPassed s \<and>
   gTestPassed (Adc_appDisableTrigger b s) = gTestPassed s \<and>
   gTestPassed (Adc_appDmaConfigure env d l c a s) = gTestPassed s \<and>
   gTestPassed (Adc_appDmaTransferCallback s) = gTestPassed s \<and>
   list_all (\<lambda>f. only_emits s (f s)) file_hooks \<and>
   (Adc_appInit env s = Some s' \<longrightarrow> only_emits s s') \<and>
   (gTestPassed s \<noteq> E_OK \<longrightarrow>
      gTestPassed (Adc_appTest env s) \<noteq> E_OK \<and> gTestPassed (Adc_appDeInit env s) \<noteq> E_OK) \<and>
   (gTestPassed s = E_OK \<longrightarrow>
      run_verdicts env s =
        [if list_ex is_setup_failure (setup_events env s)
              \<or> list_ex is_corruption (teardown_events env s)
         then APP_UTILS_TEST_STATUS_FAIL else APP_UTILS_TEST_STATUS_PASS] \<and>
      (gTestPassed (Adc_appDeInit env (Adc_appTest env s)) = E_OK) =
        (\<not> (list_ex is_setup_failure (setup_events env s)
              \<or> list_ex is_corruption (teardown_events env s))))"
proof -
  have start: "gTestPassed app_start = E_OK" by (simp add: app_start_def)
  have t: "flag_kept_or_failed s (Adc_appTest env s)"
    by (simp add: flag_kept_or_failed_def Test_gTestPassed)
  have d: "flag_kept_or_failed s (Adc_appDeInit env s)"
    by (simp add: flag_kept_or_failed_def DeInit_gTestPassed)
  have sticky: "gTestPassed s \<noteq> E_OK \<longrightarrow>
      gTestPassed (Adc_appTest env s) \<noteq> E_OK \<and> gTestPassed (Adc_appDeInit env s) \<noteq> E_OK"
    by (simp add: Test_gTestPassed DeInit_gTestPassed)
  have final: "gTestPassed s = E_OK \<longrightarrow>
      run_verdicts env s =
        [if list_ex is_setup_failure (setup_events env s)
              \<or> list_ex is_corruption (teardown_events env s)
         then APP_UTILS_TEST_STATUS_FAIL else APP_UTILS_TEST_STATUS_PASS] \<and>
      (gTestPassed (Adc_appDeInit env (Adc_appTest env s)) = E_OK) =
        (\<not> (list_ex is_setup_failure (setup_events env s)
              \<or> list_ex is_corruption (teardown_events env s)))"
    by (simp add: run_verdicts_eq DeInit_gTestPassed Test_gTestPassed teardown_events_def)
  have init: "Adc_appInit env s = Some s' \<longrightarrow> only_emits s s'"
    by (simp add: Init_only_emits)
  from start t d sticky final init file_hooks_only_emit [of s] show ?thesis by simp
qed

theorem verdict_flag_is_failure_sticky_witness:
  "(\<exists>s1. Adc_appInit idle_platform app_start = Some s1 \<and> gTestPassed s1 = E_OK) \<and>
   gTestPassed app_start = E_OK \<and>
   run_verdicts busy_platform app_start = [APP_UTILS_TEST_STATUS_FAIL] \<and>
   run_verdicts idle_platform app_start = [APP_UTILS_TEST_STATUS_PASS] \<and>
   gTestPassed (app_start\<lparr>gTestPassed := E_NOT_OK\<rparr>) \<noteq> E_OK \<and>
   gTestPassed (Adc_appTest idle_platform (app_start\<lparr>gTestPassed := E_NOT_OK\<rparr>)) \<noteq> E_OK"
proof -
  have start: "gTestPassed app_start = E_OK" by (simp add: app_start_def)
  have failed: "gTestPassed (app_start\<lparr>gTestPassed := E_NOT_OK\<rparr>) \<noteq> E_OK" by simp
  have c1: "\<not> list_ex is_corruption (teardown_events busy_platform app_start)"
    by (rule no_corruption_reported) (simp add: busy_platform_def)
  have c2: "\<not> list_ex is_corruption (teardown_events idle_platform app_start)"
    by (rule no_corruption_reported) (simp add: busy_platform_def idle_platform_def)
  from verdict_flag_is_failure_sticky [where s = app_start and env = busy_platform] start c1
    busy_platform_setup_fails
  have v1: "run_verdicts busy_platform app_start = [APP_UTILS_TEST_STATUS_FAIL]" by simp
  from verdict_flag_is_failure_sticky [where s = app_start and env = idle_platform] start c2
    idle_platform_setup_ok
  have v2: "run_verdicts idle_platform app_start = [APP_UTILS_TEST_STATUS_PASS]" by simp
  from verdict_flag_is_failure_sticky [where s = "app_start\<lparr>gTestPassed := E_NOT_OK\<rparr>" and env = idle_platform] failed
  have v3: "gTestPassed (Adc_appTest idle_platform (app_start\<lparr>gTestPassed := E_NOT_OK\<rparr>)) \<noteq> E_OK"
    by blast
  from Init_returns [OF demo_terminates(1)] obtain s1 where
    s1: "Adc_appInit idle_platform app_start = Some s1" by blast
  with verdict_flag_is_failure_sticky [where s = app_start and env = idle_platform and s' = s1]
  have "only_emits app_start s1" by blast
  with s1 start have v0: "\<exists>s1. Adc_appInit idle_platform app_start = Some s1 \<and> gTestPassed s1 = E_OK"
    by (auto simp: only_emits_def)
  from v0 start v1 v2 failed v3 show ?thesis by simp
qed

section \<open>The completion counter (claim C6)\<close>

lemma Callback_funpow_count:
  "gAdcAppDmaCallbackCount ((Adc_appDmaTransferCallback ^^ k) s) = gAdcAppDmaCallbackCount s + of_nat k"
  by (induction k) simp_all

lemma unat_add_of_nat:
  fixes c :: "32 word"
  assumes "unat c + n < 2 ^ 32"
  shows "unat (c + of_nat n) = unat c + n"
proof -
  have "unat (c + of_nat n) = (unat c + unat (of_nat n :: 32 word)) mod 2 ^ 32"
    by (simp add: unat_word_ariths)
  moreover from assms have "unat (of_nat n :: 32 word) = n"
    by (simp add: unat_of_nat)
  ultimately show ?thesis using assms by simp
qed

text \<open>
  The callback is called by the DMA driver's completion interrupt while the program
  runs; the interrupt and the driver are not part of the file. A run is therefore taken
  as any sequence of activities, each of which is either one completion, that is one
  call of \<^verbatim>\<open>Adc_appDmaTransferCallback\<close>, or one call of another function of the file:
  \<^verbatim>\<open>Adc_appInit\<close>, \<^verbatim>\<open>Adc_appTest\<close> and \<^verbatim>\<open>Adc_appDeInit\<close> as \<^verbatim>\<open>main\<close> calls them, the
  functions they call and the bodies of the iteration and polling loops (so that a
  completion may fall between two iterations or two poll ticks), and the functions the
  drivers call back.
\<close>

datatype hook =
    Hook_Adc_appInterruptConfig
  | Hook_AdcApp_Group0EndNotification
  | Hook_SchM_Enter_Mcu_MCU_EXCLUSIVE_AREA_0
  | Hook_SchM_Exit_Mcu_MCU_EXCLUSIVE_AREA_0
  | Hook_SchM_Enter_Port_PORT_EXCLUSIVE_AREA_0
  | Hook_SchM_Exit_Port_PORT_EXCLUSIVE_AREA_0
  | Hook_SchM_Enter_Adc_ADC_EXCLUSIVE_AREA_0
  | Hook_SchM_Exit_Adc_ADC_EXCLUSIVE_AREA_0
  | Hook_SchM_Enter_Cdd_Dma_DMA_EXCLUSIVE_AREA_0
  | Hook_SchM_Exit_Cdd_Dma_DMA_EXCLUSIVE_AREA_0

fun call_hook :: "hook \<Rightarrow> app_state \<Rightarrow> app_state" where
  "call_hook Hook_Adc_appInterruptConfig = Adc_appInterruptConfig"
| "call_hook Hook_AdcApp_Group0EndNotification = AdcApp_Group0EndNotification"
| "call_hook Hook_SchM_Enter_Mcu_MCU_EXCLUSIVE_AREA_0 = SchM_Enter_Mcu_MCU_EXCLUSIVE_AREA_0"
| "call_hook Hook_SchM_Exit_Mcu_MCU_EXCLUSIVE_AREA_0 = SchM_Exit_Mcu_MCU_EXCLUSIVE_AREA_0"
| "call_hook Hook_SchM_Enter_Port_PORT_EXCLUSIVE_AREA_0 = SchM_Enter_Port_PORT_EXCLUSIVE_AREA_0"
| "call_hook Hook_SchM_Exit_Port_PORT_EXCLUSIVE_AREA_0 = SchM_Exit_Port_PORT_EXCLUSIVE_AREA_0"
| "call_hook Hook_SchM_Enter_Adc_ADC_EXCLUSIVE_AREA_0 = SchM_Enter_Adc_ADC_EXCLUSIVE_AREA_0"
| "call_hook Hook_SchM_Exit_Adc_ADC_EXCLUSIVE_AREA_0 = SchM_Exit_Adc_ADC_EXCLUSIVE_AREA_0"
| "call_hook Hook_SchM_Enter_Cdd_Dma_DMA_EXCLUSIVE_AREA_0 = SchM_Enter_Cdd_Dma_DMA_EXCLUSIVE_AREA_0"
| "call_hook Hook_SchM_Exit_Cdd_Dma_DMA_EXCLUSIVE_AREA_0 = SchM_Exit_Cdd_Dma_DMA_EXCLUSIVE_AREA_0"

datatype activity =
    DMA_completion
  | Do_Adc_appInit
  | Do_Adc_appTest
  | Do_Adc_appDeInit
  | Do_Adc_appTest_iteration nat
  | Do_Adc_appPrintResult nat
  | Do_Adc_appPrintResult_poll "32 word" nat
  | Do_Adc_appPrintStatus nat Adc_StatusType
  | Do_Adc_appEpwmEnable "32 word"
  | Do_Adc_appDisableTrigger "32 word"
  | Do_Adc_appDmaConfigure address "16 word" "32 word" "32 word"
  | Do_hook hook

text \<open>
  One activity; \<^verbatim>\<open>Adc_appInit\<close> is the one function that may not return (its loop
  counters are \<^verbatim>\<open>uint8_t\<close>), in which case nothing follows it.
\<close>

fun perform :: "platform \<Rightarrow> activity \<Rightarrow> app_state \<Rightarrow> app_state option" where
  "perform env DMA_completion s = Some (Adc_appDmaTransferCallback s)"
| "perform env Do_Adc_appInit s = Adc_appInit env s"
| "perform env Do_Adc_appTest s = Some (Adc_appTest env s)"
| "perform env Do_Adc_appDeInit s = Some (Adc_appDeInit env s)"
| "perform env (Do_Adc_appTest_iteration k) s = Some (Adc_appTest_iteration env k s)"
| "perform env (Do_Adc_appPrintResult k) s = Some (Adc_appPrintResult env k s)"
| "perform env (Do_Adc_appPrintResult_poll a i) s = Some (Adc_appPrintResult_poll env a i s)"
| "perform env (Do_Adc_appPrintStatus g st) s = Some (Adc_appPrintStatus g st s)"
| "perform env (Do_Adc_appEpwmEnable b) s = Some (Adc_appEpwmEnable b s)"
| "perform env (Do_Adc_appDisableTrigger b) s = Some (Adc_appDisableTrigger b s)"
| "perform env (Do_Adc_appDmaConfigure d l c a) s = Some (Adc_appDmaConfigure env d l c a s)"
| "perform env (Do_hook h) s = Some (call_hook h s)"

fun run_with_completions :: "platform \<Rightarrow> activity list \<Rightarrow> app_state \<Rightarrow> app_state option" where
  "run_with_completions env [] s = Some s"
| "run_with_completions env (a # as) s = Option.bind (perform env a s) (run_with_completions env as)"

definition completions :: "activity list \<Rightarrow> nat" where
  "completions as = length (filter (\<lambda>a. a = DMA_completion) as)"

lemma call_hook_only_emits: "only_emits s (call_hook h s)"
  by (cases h) (simp_all add: hooks_only_emit)

lemma perform_count:
  assumes "perform env a s = Some s'"
  shows "gAdcAppDmaCallbackCount s' =
     (if a = DMA_completion then gAdcAppDmaCallbackCount s + 1 else gAdcAppDmaCallbackCount s)"
proof (cases a)
  case Do_Adc_appInit
  with assms have "only_emits s s'" by (simp add: Init_only_emits)
  with Do_Adc_appInit show ?thesis by (simp add: only_emits_def)
next
  case (Do_hook h)
  with assms call_hook_only_emits [of s h] show ?thesis by (auto simp: only_emits_def)
qed (use assms in auto)

lemma run_count:
  "run_with_completions env as s = Some s' \<Longrightarrow>
   gAdcAppDmaCallbackCount s' = gAdcAppDmaCallbackCount s + of_nat (completions as)"
proof (induction as arbitrary: s)
  case Nil
  then show ?case by (simp add: completions_def)
next
  case (Cons a as)
  from Cons.prems obtain s1 where s1: "perform env a s = Some s1"
    and r: "run_with_completions env as s1 = Some s'"
    by (auto simp: bind_eq_Some_conv)
  from Cons.IH [OF r] perform_count [OF s1] show ?case
    by (simp add: completions_def)
qed

lemma run_append:
  "run_with_completions env (as @ bs) s =
     Option.bind (run_with_completions env as s) (run_with_completions env bs)"
  by (induction as arbitrary: s) (simp_all, metis bind_assoc)

lemma run_count_nat:
  assumes "run_with_completions env as s = Some s'"
    and "unat (gAdcAppDmaCallbackCount s) + completions as < 2 ^ 32"
  shows "unat (gAdcAppDmaCallbackCount s') = unat (gAdcAppDmaCallbackCount s) + completions as"
  using run_count [OF assms(1)] unat_add_of_nat [OF assms(2)] by simp

lemma run_monotone:
  assumes "run_with_completions env as s = Some s'" and "run_with_completions env bs s' = Some s''"
    and "unat (gAdcAppDmaCallbackCount s) + completions (as @ bs) < 2 ^ 32"
  shows "unat (gAdcAppDmaCallbackCount s') \<le> unat (gAdcAppDmaCallbackCount s'')"
proof -
  from assms(3) have b1: "unat (gAdcAppDmaCallbackCount s) + completions as < 2 ^ 32"
    by (simp add: completions_def)
  from assms(1,2) have r: "run_with_completions env (as @ bs) s = Some s''"
    by (simp add: run_append)
  from run_count_nat [OF assms(1) b1] run_count_nat [OF r assms(3)]
  show ?thesis by (simp add: completions_def)
qed

text \<open>
  Claim C6. Every invocation of \<^verbatim>\<open>Adc_appDmaTransferCallback\<close> adds one to the counter
  and changes nothing else: not the verdict flag, not the log, and it issues no event (no
  driver call, no output, no delay). No other function of the file changes the counter
  (\<^verbatim>\<open>Adc_appInit\<close>, when it returns, and the hooks only issue events); the program does
  not even read it. Hence in every run, wherever the completions fall, the counter at
  any point is its initial value plus the number of completions so far, and it never
  decreases from one point of the run to a later one.

  The counter is a \<^verbatim>\<open>uint32\<close> that starts at 0 (line 99), so this is stated for runs in
  which it does not wrap: the initial value plus the number of completions is below
  \<open>2^32\<close>. A run of the program polls \<^verbatim>\<open>ADC_APP_LOOPCNT * ADC_APP_LOG_SIZE\<close> = 100 times
  with \<^verbatim>\<open>AppUtils_delay(100)\<close> while the EPWM triggers at the rate programmed in
  \<^verbatim>\<open>Adc_appEpwmEnable\<close> (a 200 MHz clock divided by 8 and by the period 25000), which
  makes in the order of \<open>10^4\<close> completions.
\<close>

theorem completion_counter_written_only_by_callback:
  "gAdcAppDmaCallbackCount (Adc_appDmaTransferCallback s) = gAdcAppDmaCallbackCount s + 1 \<and>
   gTestPassed (Adc_appDmaTransferCallback s) = gTestPassed s \<and>
   gAdcAppLog (Adc_appDmaTransferCallback s) = gAdcAppLog s \<and>
   trace (Adc_appDmaTransferCallback s) = trace s \<and>
   gAdcAppDmaCallbackCount (Adc_appTest env s) = gAdcAppDmaCallbackCount s \<and>
   gAdcAppDmaCallbackCount (Adc_appDeInit env s) = gAdcAppDmaCallbackCount s \<and>
   gAdcAppDmaCallbackCount (Adc_appTest_iteration env k s) = gAdcAppDmaCallbackCount s \<and>
   gAdcAppDmaCallbackCount (Adc_appPrintResult env k s) = gAdcAppDmaCallbackCount s \<and>
   gAdcAppDmaCallbackCount (Adc_appPrintResult_poll env a i s) = gAdcAppDmaCallbackCount s \<and>
   gAdcAppDmaCallbackCount (Adc_appPrintStatus g st s) = gAdcAppDmaCallbackCount s \<and>
   gAdcAppDmaCallbackCount (Adc_appEpwmEnable b s) = gAdcAppDmaCallbackCount s \<and>
   gAdcAppDmaCallbackCount (Adc_appDisableTrigger b s) = gAdcAppDmaCallbackCount s \<and>
   gAdcAppDmaCallbackCount (Adc_appDmaConfigure env d l c a s) = gAdcAppDmaCallbackCount s \<and>
   gAdcAppDmaCallbackCount (call_hook h s) = gAdcAppDmaCallbackCount s \<and>
   (Adc_appInit env s = Some s' \<longrightarrow> gAdcAppDmaCallbackCount s' = gAdcAppDmaCallbackCount s) \<and>
   (unat (gAdcAppDmaCallbackCount s) + n < 2 ^ 32 \<longrightarrow>
      unat (gAdcAppDmaCallbackCount ((Adc_appDmaTransferCallback ^^ n) s)) =
        unat (gAdcAppDmaCallbackCount s) + n) \<and>
   (run_with_completions env as s = Some s1 \<and>
    unat (gAdcAppDmaCallbackCount s) + completions as < 2 ^ 32 \<longrightarrow>
      unat (gAdcAppDmaCallbackCount s1) = unat (gAdcAppDmaCallbackCount s) + completions as) \<and>
   (run_with_completions env as s = Some s1 \<and> run_with_completions env bs s1 = Some s2 \<and>
    unat (gAdcAppDmaCallbackCount s) + completions (as @ bs) < 2 ^ 32 \<longrightarrow>
      unat (gAdcAppDmaCallbackCount s1) \<le> unat (gAdcAppDmaCallbackCount s2))"
proof -
  have hook: "gAdcAppDmaCallbackCount (call_hook h s) = gAdcAppDmaCallbackCount s"
    using call_hook_only_emits [of s h] by (simp add: only_emits_def)
  have init: "Adc_appInit env s = Some s' \<longrightarrow> gAdcAppDmaCallbackCount s' = gAdcAppDmaCallbackCount s"
    using Init_only_emits [of env s s'] by (auto simp: only_emits_def)
  have pow: "unat (gAdcAppDmaCallbackCount s) + n < 2 ^ 32 \<longrightarrow>
      unat (gAdcAppDmaCallbackCount ((Adc_appDmaTransferCallback ^^ n) s)) =
        unat (gAdcAppDmaCallbackCount s) + n"
    by (simp add: Callback_funpow_count unat_add_of_nat)
  have run: "run_with_completions env as s = Some s1 \<and>
    unat (gAdcAppDmaCallbackCount s) + completions as < 2 ^ 32 \<longrightarrow>
      unat (gAdcAppDmaCallbackCount s1) = unat (gAdcAppDmaCallbackCount s) + completions as"
    by (auto dest: run_count_nat)
  have mono: "run_with_completions env as s = Some s1 \<and> run_with_completions env bs s1 = Some s2 \<and>
    unat (gAdcAppDmaCallbackCount s) + completions (as @ bs) < 2 ^ 32 \<longrightarrow>
      unat (gAdcAppDmaCallbackCount s1) \<le> unat (gAdcAppDmaCallbackCount s2)"
    by (auto dest: run_monotone)
  from hook init pow run mono show ?thesis by simp
qed

text \<open>
  A run of \<^verbatim>\<open>main\<close> on the idle platform with one completion between \<^verbatim>\<open>Adc_appInit\<close>
  and \<^verbatim>\<open>Adc_appTest\<close> and one between \<^verbatim>\<open>Adc_appTest\<close> and \<^verbatim>\<open>Adc_appDeInit\<close>: the
  counter reads 1 after \<^verbatim>\<open>Adc_appTest\<close> and 2 at the end. And ten thousand completions
  in a row count to 10000.
\<close>

theorem completion_counter_written_only_by_callback_witness:
  "(\<exists>s0 s1 s2.
      Adc_appInit idle_platform app_start = Some s0 \<and> gAdcAppDmaCallbackCount s0 = 0 \<and>
      run_with_completions idle_platform [Do_Adc_appInit, DMA_completion, Do_Adc_appTest] app_start = Some s1 \<and>
      run_with_completions idle_platform [DMA_completion, Do_Adc_appDeInit] s1 = Some s2 \<and>
      unat (gAdcAppDmaCallbackCount s1) = 1 \<and> unat (gAdcAppDmaCallbackCount s2) = 2 \<and>
      unat (gAdcAppDmaCallbackCount s1) \<le> unat (gAdcAppDmaCallbackCount s2)) \<and>
   unat (gAdcAppDmaCallbackCount app_start) + 10000 < 2 ^ 32 \<and>
   unat (gAdcAppDmaCallbackCount ((Adc_appDmaTransferCallback ^^ 10000) app_start)) = 10000"
proof -
  let ?as = "[Do_Adc_appInit, DMA_completion, Do_Adc_appTest]"
  let ?bs = "[DMA_completion, Do_Adc_appDeInit]"
  have z: "gAdcAppDmaCallbackCount app_start = 0"
    by (simp add: app_start_def)
  have h: "unat (gAdcAppDmaCallbackCount app_start) + 10000 < 2 ^ 32"
    by (simp add: z)
  from completion_counter_written_only_by_callback [where s = app_start and n = 10000] h
  have k: "unat (gAdcAppDmaCallbackCount ((Adc_appDmaTransferCallback ^^ 10000) app_start)) =
      unat (gAdcAppDmaCallbackCount app_start) + 10000"
    by blast
  from Init_returns [OF demo_terminates(1)] obtain s0 where
    s0: "Adc_appInit idle_platform app_start = Some s0" by blast
  with completion_counter_written_only_by_callback
    [where s = app_start and env = idle_platform and s' = s0]
  have c0: "gAdcAppDmaCallbackCount s0 = 0" by (simp add: z)
  define s1 where "s1 = Adc_appTest idle_platform (Adc_appDmaTransferCallback s0)"
  define s2 where "s2 = Adc_appDeInit idle_platform (Adc_appDmaTransferCallback s1)"
  have r1: "run_with_completions idle_platform ?as app_start = Some s1"
    by (simp add: s0 s1_def)
  have r2: "run_with_completions idle_platform ?bs s1 = Some s2"
    by (simp add: s2_def)
  have b1: "unat (gAdcAppDmaCallbackCount app_start) + completions ?as < 2 ^ 32"
    and b2: "unat (gAdcAppDmaCallbackCount app_start) + completions (?as @ ?bs) < 2 ^ 32"
    by (simp_all add: z completions_def)
  from completion_counter_written_only_by_callback
    [where s = app_start and env = idle_platform and as = ?as and bs = ?bs and ?s1.0 = s1 and ?s2.0 = s2]
    r1 r2 b1 b2
  have n1: "unat (gAdcAppDmaCallbackCount s1) = unat (gAdcAppDmaCallbackCount app_start) + completions ?as"
    and le: "unat (gAdcAppDmaCallbackCount s1) \<le> unat (gAdcAppDmaCallbackCount s2)"
    by blast+
  have r12: "run_with_completions idle_platform (?as @ ?bs) app_start = Some s2"
    by (simp only: run_append r1 r2 bind.simps)
  from completion_counter_written_only_by_callback
    [where s = app_start and env = idle_platform and as = "?as @ ?bs" and ?s1.0 = s2]
    r12 b2
  have n2: "unat (gAdcAppDmaCallbackCount s2) =
      unat (gAdcAppDmaCallbackCount app_start) + completions (?as @ ?bs)"
    by blast
  from n1 n2 have "unat (gAdcAppDmaCallbackCount s1) = 1" "unat (gAdcAppDmaCallbackCount s2) = 2"
    by (simp_all add: z completions_def)
  with s0 c0 r1 r2 le h k z show ?thesis by auto
qed

section \<open>The installed DMA descriptor (claim C5)\<close>

text \<open>
  The only descriptor the file builds is the \<^verbatim>\<open>Cdd_Dma_ParamEntry\<close> of
  \<^verbatim>\<open>Adc_appDmaConfigure\<close> (lines 539 to 561), handed to \<^verbatim>\<open>Cdd_Dma_ParamSet\<close>.
  \<open>installed_descriptor\<close> reads it off the event.
\<close>

definition installed_descriptor :: "event \<Rightarrow> Cdd_Dma_ParamEntry option" where
  "installed_descriptor e = (case e of Cdd_Dma_ParamSet c x y p \<Rightarrow> Some p | _ \<Rightarrow> None)"

text \<open>
  The specification's \<open>TransferDescriptor\<close> lists its fields in the order of
  \<^verbatim>\<open>Cdd_Dma_ParamEntry\<close>: source and destination address, \<open>elementCount\<close> (A-count, \<^verbatim>\<open>aCnt\<close>),
  \<open>innerFrameCount\<close> (B-count, \<^verbatim>\<open>bCnt\<close>), \<open>outerFrameCount\<close> (C-count, \<^verbatim>\<open>cCnt\<close>),
  \<open>reloadCount\<close> (\<^verbatim>\<open>bCntReload\<close>), \<open>sourceIndexStride\<close> (\<^verbatim>\<open>srcBIdx\<close>), \<open>destIndexStride\<close>
  (\<^verbatim>\<open>destBIdx\<close>), \<open>sourceFrameStride\<close> (\<^verbatim>\<open>srcCIdx\<close>), \<open>destFrameStride\<close> (\<^verbatim>\<open>destCIdx\<close>) and
  the option flags (\<^verbatim>\<open>opt\<close>). An option flag is set when the option word contains its
  mask.
\<close>

definition has_option :: "32 word \<Rightarrow> Cdd_Dma_ParamEntry \<Rightarrow> bool" where
  "has_option m p \<longleftrightarrow> opt p AND m = m"

definition destIndexStride :: "Cdd_Dma_ParamEntry \<Rightarrow> 16 word" where
  "destIndexStride p = destBIdx p"

definition destFrameStride :: "Cdd_Dma_ParamEntry \<Rightarrow> 16 word" where
  "destFrameStride p = destCIdx p"

text \<open>
  The counts and flags the claim asks for: the element count is the sampler's output per
  trigger, one two-byte sample for each of the \<^verbatim>\<open>ADC_APP_NUM_CHANNEL\<close> channels; the inner
  and outer frame counts are one; completion interrupt, intermediate completion
  interrupt, dimensional sync and static reprogram are set.
\<close>

definition descriptor_counts_and_flags :: "platform \<Rightarrow> Cdd_Dma_ParamEntry \<Rightarrow> bool" where
  "descriptor_counts_and_flags env p \<longleftrightarrow>
     unat (aCnt p) = ADC_APP_NUM_CHANNEL * sizeof_Adc_ValueGroupType \<and>
     bCnt p = 1 \<and>
     cCnt p = 1 \<and>
     has_option (CDD_EDMA_OPT_TCINTEN_MASK env) p \<and>
     has_option (CDD_EDMA_OPT_ITCINTEN_MASK env) p \<and>
     has_option (CDD_EDMA_OPT_SYNCDIM_MASK env) p \<and>
     has_option (CDD_EDMA_OPT_STATIC_MASK env) p"

text \<open>
  Modelled from the spec: the transfer engine's write cursor. The engine behind
  \<^verbatim>\<open>Cdd_Dma_ParamSet\<close> (the Cdd_Dma driver and the EDMA hardware) is not among the sources.
  \<open>spec_cursor_advance\<close> is the number of bytes by which one completion moves the
  destination of the next transfer, as section 4.1 of the specification describes it:
  "with \<open>staticReprogram\<close> set, the descriptor is not advanced or consumed -- the same slot
  configuration rearms immediately, meaning all samples land in the same destination
  offset region"; otherwise "callers must not assume automatic cursor advancement across
  completions unless the descriptor explicitly expresses a multi-frame shape
  (\<open>innerFrameCount\<close>/\<open>outerFrameCount\<close> > 1) or uses a linked chain of slots; a
  single-shot descriptor that is merely rearmed will overwrite the same memory
  repeatedly", and where the cursor advances it is \<open>destIndexStride\<close> that advances it
  (the invariant's words). Linked chains are left out: the file programs the one
  parameter set of \<^verbatim>\<open>Cdd_Dma_ParamSet(dmaCh, 0, 0, edmaParam)\<close> and no link.
\<close>

definition spec_cursor_advance :: "platform \<Rightarrow> Cdd_Dma_ParamEntry \<Rightarrow> int" where
  "spec_cursor_advance env p =
     (if has_option (CDD_EDMA_OPT_STATIC_MASK env) p then 0
      else if 1 < unat (bCnt p) \<or> 1 < unat (cCnt p) then sint (destIndexStride p)
      else 0)"

text \<open>
  Modelled from the spec: the descriptor invariant, in the words of the specification
  and of the claim. It asks for the counts and flags above, and "\<open>destIndexStride\<close> must
  advance the circular buffer write cursor by exactly one sample slot per completion";
  the effect on the cursor is that of the engine, which is not among the sources.
\<close>

definition spec_descriptor_invariant :: "platform \<Rightarrow> Cdd_Dma_ParamEntry \<Rightarrow> bool" where
  "spec_descriptor_invariant env p \<longleftrightarrow>
     descriptor_counts_and_flags env p \<and>
     spec_cursor_advance env p = int sizeof_Adc_ValueGroupType"

text \<open>
  What \<^verbatim>\<open>Adc_appDmaConfigure\<close> installs instead: the counts and flags, the first element of
  \<^verbatim>\<open>gAdcAppDmaBuffer\<close> as destination, a destination index stride of zero and a
  destination frame stride of one sample slot; with the static flag and frame counts of
  one, a completion does not move the write cursor.
\<close>

definition installed_descriptor_shape :: "platform \<Rightarrow> Cdd_Dma_ParamEntry \<Rightarrow> bool" where
  "installed_descriptor_shape env p \<longleftrightarrow>
     descriptor_counts_and_flags env p \<and>
     destPtr p = Addr_gAdcAppDmaBuffer 0 0 \<and>
     destIndexStride p = 0 \<and>
     sint (destFrameStride p) = int sizeof_Adc_ValueGroupType \<and>
     spec_cursor_advance env p = 0"

lemma or4_and:
  fixes a b c d :: "'a::len word"
  shows "(a OR b OR c OR d) AND a = a" "(a OR b OR c OR d) AND b = b"
    "(a OR b OR c OR d) AND c = c" "(a OR b OR c OR d) AND d = d"
  by (auto simp: bit_eq_iff bit_and_iff bit_or_iff)

lemma map_filter_map_option:
  "List.map_filter (\<lambda>e. map_option P (f e)) E = map P (List.map_filter f E)"
  by (induction E) (simp_all add: List.map_filter_simps split: option.splits)

text \<open>
  \<^verbatim>\<open>Adc_appTest\<close> installs \<^verbatim>\<open>ADC_APP_LOOPCNT\<close> descriptors, which differ at most in the
  source address the platform supplied (\<^verbatim>\<open>Adc_GetReadResultBaseAddress\<close>).
\<close>

lemma installed_descriptors_map:
  assumes P: "\<And>p a. P (p\<lparr>srcPtr := a\<rparr>) = P p"
  shows "map P (List.map_filter installed_descriptor (new_events s (Adc_appTest env s))) =
     replicate ADC_APP_LOOPCNT
       (P (edmaParam_skel env (Addr_gAdcAppDmaBuffer 0 0) (of_nat (ADC_APP_NUM_CHANNEL * 2))))"
proof -
  let ?f = "\<lambda>e. map_option P (installed_descriptor e)"
  have sk: "?f e = (case skel e of None \<Rightarrow> None | Some k \<Rightarrow> ?f k)" for e
    by (cases e) (simp_all add: installed_descriptor_def skel_def P)
  have it: "List.map_filter ?f (Adc_appTest_iteration_skel env) =
      [P (edmaParam_skel env (Addr_gAdcAppDmaBuffer 0 0) (of_nat (ADC_APP_NUM_CHANNEL * 2)))]"
    by (simp add: Adc_appTest_iteration_skel_def map_filter_append
        map_filter_map_None Adc_appEpwmEnable_skel_def Adc_appPrintResult_skel_def
        map_filter_concat poll_skel_def installed_descriptor_def List.map_filter_simps)
  have st: "List.map_filter ?f (Adc_appTest_setup_skel g) = []" for g
    by (simp add: Adc_appTest_setup_skel_def installed_descriptor_def List.map_filter_simps)
  have "List.map_filter ?f (new_events s (Adc_appTest env s)) =
      List.map_filter ?f (Adc_appTest_skel env)"
    by (subst map_filter_via_skel [of ?f, OF sk]) (simp add: skeleton_new_events_Test)
  also have "\<dots> = replicate ADC_APP_LOOPCNT
       (P (edmaParam_skel env (Addr_gAdcAppDmaBuffer 0 0) (of_nat (ADC_APP_NUM_CHANNEL * 2))))"
    by (simp add: Adc_appTest_skel_def map_filter_append map_filter_concat it st o_def
        concat_replicate_singleton)
  finally show ?thesis
    by (simp add: map_filter_map_option)
qed

lemma descriptor_srcPtr [simp]:
  "descriptor_counts_and_flags env (p\<lparr>srcPtr := a\<rparr>) = descriptor_counts_and_flags env p"
  "spec_cursor_advance env (p\<lparr>srcPtr := a\<rparr>) = spec_cursor_advance env p"
  "destIndexStride (p\<lparr>srcPtr := a\<rparr>) = destIndexStride p"
  "destFrameStride (p\<lparr>srcPtr := a\<rparr>) = destFrameStride p"
  by (simp_all add: descriptor_counts_and_flags_def spec_cursor_advance_def has_option_def
      destIndexStride_def destFrameStride_def)

lemma skel_descriptor_counts_and_flags:
  "descriptor_counts_and_flags env (edmaParam_skel env dst len) =
     (unat len = ADC_APP_NUM_CHANNEL * sizeof_Adc_ValueGroupType)"
  by (simp add: descriptor_counts_and_flags_def has_option_def edmaParam_skel_def or4_and)

lemma skel_descriptor_cursor:
  "spec_cursor_advance env (edmaParam_skel env dst len) = 0"
  by (simp add: spec_cursor_advance_def edmaParam_skel_def)

lemma skel_descriptor_strides:
  "destIndexStride (edmaParam_skel env dst len) = 0"
  "sint (destFrameStride (edmaParam_skel env dst len)) = int sizeof_Adc_ValueGroupType"
  "destPtr (edmaParam_skel env dst len) = dst"
  by (simp_all add: destIndexStride_def destFrameStride_def edmaParam_skel_def
      sizeof_Adc_ValueGroupType_def)

lemma length_installed_descriptors:
  "length (List.map_filter installed_descriptor (new_events s (Adc_appTest env s))) = ADC_APP_LOOPCNT"
proof -
  have "length (map (\<lambda>p. ()) (List.map_filter installed_descriptor (new_events s (Adc_appTest env s)))) =
      length (replicate ADC_APP_LOOPCNT ())"
    by (subst installed_descriptors_map) simp_all
  then show ?thesis by simp
qed

lemma map_replicate_True:
  assumes "map P xs = replicate n True"
  shows "list_all P xs"
proof -
  have "P x" if "x \<in> set xs" for x
  proof -
    from that have "P x \<in> set (map P xs)" by simp
    then have "P x \<in> set (replicate n True)" by (simp only: assms)
    then show ?thesis by simp
  qed
  then show ?thesis by (simp add: list_all_iff)
qed

text \<open>
  The claim as stated fails on the code. On the idle platform, from the initial state,
  none of the ten descriptors \<^verbatim>\<open>Adc_appTest\<close> installs satisfies the specification's
  invariant: their \<open>destIndexStride\<close> (\<^verbatim>\<open>destBIdx\<close>, line 550) is zero, not one sample slot,
  and a completion advances the write cursor by zero bytes. The comment of line 553
  says so: the static mask rearms the engine "with the same set of param config for
  every transfer"; and the polling loop reads \<^verbatim>\<open>gAdcAppDmaBuffer[0][0]\<close> only.
\<close>

theorem installed_descriptor_keeps_cursor_counterexample:
  "map (spec_descriptor_invariant idle_platform)
     (List.map_filter installed_descriptor (new_events app_start (Adc_appTest idle_platform app_start))) =
     replicate 10 False \<and>
   map destIndexStride
     (List.map_filter installed_descriptor (new_events app_start (Adc_appTest idle_platform app_start))) =
     replicate 10 0 \<and>
   map (spec_cursor_advance idle_platform)
     (List.map_filter installed_descriptor (new_events app_start (Adc_appTest idle_platform app_start))) =
     replicate 10 0"
proof -
  have a: "map (spec_descriptor_invariant idle_platform)
     (List.map_filter installed_descriptor (new_events app_start (Adc_appTest idle_platform app_start))) =
     replicate 10 False"
    by (subst installed_descriptors_map)
      (simp_all add: spec_descriptor_invariant_def skel_descriptor_cursor
        sizeof_Adc_ValueGroupType_def ADC_APP_LOOPCNT_def)
  have b: "map destIndexStride
     (List.map_filter installed_descriptor (new_events app_start (Adc_appTest idle_platform app_start))) =
     replicate 10 0"
    by (subst installed_descriptors_map)
      (simp_all add: skel_descriptor_strides ADC_APP_LOOPCNT_def)
  have c: "map (spec_cursor_advance idle_platform)
     (List.map_filter installed_descriptor (new_events app_start (Adc_appTest idle_platform app_start))) =
     replicate 10 0"
    by (subst installed_descriptors_map)
      (simp_all add: skel_descriptor_cursor ADC_APP_LOOPCNT_def)
  from a b c show ?thesis by simp
qed

text \<open>
  Claim C5, amended. Whatever the platform answers, \<^verbatim>\<open>Adc_appTest\<close> installs exactly
  \<^verbatim>\<open>ADC_APP_LOOPCNT\<close> descriptors (one per iteration, through \<^verbatim>\<open>Cdd_Dma_ParamSet\<close>), and
  every one of them has the element count, the frame counts and the four option flags
  of the invariant, the first element of \<^verbatim>\<open>gAdcAppDmaBuffer\<close> as destination, a
  destination index stride of zero and a destination frame stride of one sample slot
  (two bytes), and does not advance the write cursor: every transfer lands in the same
  slot.
\<close>

theorem installed_descriptor_is_static_single_slot:
  "length (List.map_filter installed_descriptor (new_events s (Adc_appTest env s))) = ADC_APP_LOOPCNT \<and>
   list_all (installed_descriptor_shape env)
     (List.map_filter installed_descriptor (new_events s (Adc_appTest env s)))"
proof -
  have "map (installed_descriptor_shape env)
      (List.map_filter installed_descriptor (new_events s (Adc_appTest env s))) =
      replicate ADC_APP_LOOPCNT True"
    by (subst installed_descriptors_map)
      (simp_all add: installed_descriptor_shape_def skel_descriptor_counts_and_flags
        skel_descriptor_cursor skel_descriptor_strides ADC_APP_NUM_CHANNEL_def
        sizeof_Adc_ValueGroupType_def)
  then show ?thesis
    by (simp add: length_installed_descriptors map_replicate_True)
qed

section \<open>Disarming twice (claim C9)\<close>

text \<open>
  Modelled from the spec: the hardware state behind \<^verbatim>\<open>EPWM_disableADCTrigger\<close>,
  \<^verbatim>\<open>EPWM_setTimeBaseCounterMode\<close> (Epwm_Platform.h) and \<^verbatim>\<open>Adc_DisableHardwareTrigger\<close>
  (the ADC driver), none of which is among the sources. The specification describes the
  trigger generator as a counter with a mode and an "enable/disable of the
  trigger-to-sampler signal path", and the sampler as having hardware triggering
  enabled or disabled per group. The port state has just these parts.
\<close>

record hw_port =
  soc_trigger_enabled :: "EPWM_ADCStartOfConversionType \<Rightarrow> bool"
  counter_mode :: EPWM_TimeBaseCountMode
  adc_hw_trigger_enabled :: "nat \<Rightarrow> bool"

text \<open>
  Modelled from the spec: \<^verbatim>\<open>EPWM_disableADCTrigger\<close> (Epwm_Platform.h, missing), the
  "disable of the trigger-to-sampler signal path" for one start-of-conversion trigger.
  It returns \<^verbatim>\<open>void\<close>: there is no error value.
\<close>

definition port_EPWM_disableADCTrigger :: "EPWM_ADCStartOfConversionType \<Rightarrow> hw_port \<Rightarrow> hw_port" where
  "port_EPWM_disableADCTrigger soc p =
     p\<lparr>soc_trigger_enabled := (soc_trigger_enabled p)(soc := False)\<rparr>"

text \<open>
  Modelled from the spec: \<^verbatim>\<open>EPWM_setTimeBaseCounterMode\<close> (Epwm_Platform.h, missing), which
  sets the counter's mode. It returns \<^verbatim>\<open>void\<close>.
\<close>

definition port_EPWM_setTimeBaseCounterMode :: "EPWM_TimeBaseCountMode \<Rightarrow> hw_port \<Rightarrow> hw_port" where
  "port_EPWM_setTimeBaseCounterMode m p = p\<lparr>counter_mode := m\<rparr>"

text \<open>
  Modelled from the spec: \<^verbatim>\<open>Adc_DisableHardwareTrigger\<close> (the ADC driver, missing),
  "disable sampler hardware triggering" for one group; by the specification disarming
  "never raises an error". It returns \<^verbatim>\<open>void\<close>.
\<close>

definition port_Adc_DisableHardwareTrigger :: "nat \<Rightarrow> hw_port \<Rightarrow> hw_port" where
  "port_Adc_DisableHardwareTrigger g p =
     p\<lparr>adc_hw_trigger_enabled := (adc_hw_trigger_enabled p)(g := False)\<rparr>"

text \<open>
  \<^verbatim>\<open>Adc_appDisableTrigger\<close> (lines 522 to 529) and the disarm sequence of
  \<^verbatim>\<open>Adc_appTest\<close> (lines 177 and 178), on the port state.
\<close>

definition port_Adc_appDisableTrigger :: "hw_port \<Rightarrow> hw_port" where
  "port_Adc_appDisableTrigger p =
     (let p = port_EPWM_disableADCTrigger EPWM_SOC_A p;
          p = port_EPWM_disableADCTrigger EPWM_SOC_B p;
          p = port_EPWM_setTimeBaseCounterMode EPWM_COUNTER_MODE_STOP_FREEZE p
      in p)"

definition port_disarm :: "hw_port \<Rightarrow> hw_port" where
  "port_disarm p = port_Adc_DisableHardwareTrigger ADC_APP_GROUP_ID (port_Adc_appDisableTrigger p)"

text \<open>
  Claim C9. For every port state, disarming twice gives the same state as disarming
  once, for \<^verbatim>\<open>Adc_appDisableTrigger\<close> alone and for the whole disarm sequence; after it
  both EPWM triggers are disabled, the counter is frozen and the hardware trigger of the
  group is disabled.
\<close>

theorem disarm_is_idempotent:
  "port_disarm (port_disarm p) = port_disarm p \<and>
   port_Adc_appDisableTrigger (port_Adc_appDisableTrigger p) = port_Adc_appDisableTrigger p \<and>
   \<not> soc_trigger_enabled (port_disarm p) EPWM_SOC_A \<and>
   \<not> soc_trigger_enabled (port_disarm p) EPWM_SOC_B \<and>
   counter_mode (port_disarm p) = EPWM_COUNTER_MODE_STOP_FREEZE \<and>
   \<not> adc_hw_trigger_enabled (port_disarm p) ADC_APP_GROUP_ID"
  by (simp add: port_disarm_def port_Adc_appDisableTrigger_def port_Adc_DisableHardwareTrigger_def
      port_EPWM_setTimeBaseCounterMode_def port_EPWM_disableADCTrigger_def Let_def)

section \<open>The Draining phase (claim C4)\<close>

text \<open>
  The steps of a poll tick: cache invalidate (of which address and how many bytes), read
  of the DMA buffer, read of the hardware result register, status query, delay.
\<close>

datatype drain_step =
    Invalidated address nat
  | BufferRead
  | HwRead
  | StatusRead nat
  | Delayed nat

definition drain_step_of :: "event \<Rightarrow> drain_step option" where
  "drain_step_of e =
     (case e of
        Mcal_CacheP_inv p n t \<Rightarrow> Some (Invalidated p n)
      | Load_gAdcAppDmaBuffer g i v \<Rightarrow> Some BufferRead
      | Load16 a v \<Rightarrow> Some HwRead
      | Adc_GetGroupStatus g st \<Rightarrow> Some (StatusRead g)
      | AppUtils_delay n \<Rightarrow> Some (Delayed n)
      | _ \<Rightarrow> None)"

definition tick_steps :: "platform \<Rightarrow> drain_step list" where
  "tick_steps env =
     [Invalidated (Addr_gAdcAppDmaBuffer 0 0) (sizeof_gAdcAppDmaBuffer env),
      BufferRead, HwRead, StatusRead 0, Delayed 100]"

lemma drain_step_of_skel:
  "drain_step_of e = (case skel e of None \<Rightarrow> None | Some k \<Rightarrow> drain_step_of k)"
  by (cases e) (simp_all add: drain_step_of_def skel_def)

lemma drain_steps_poll_skel: "List.map_filter drain_step_of (poll_skel env) = tick_steps env"
  by (simp add: poll_skel_def tick_steps_def drain_step_of_def)

lemma drain_steps_PrintResult:
  "List.map_filter drain_step_of (new_events s (Adc_appPrintResult env k s)) =
     concat (replicate ADC_APP_LOG_SIZE (tick_steps env))"
proof -
  have "skeleton (new_events s (Adc_appPrintResult env k s)) = Adc_appPrintResult_skel env"
    by (rule new_events_proj [where F = skeleton]) (simp_all add: skel_PrintResult)
  then have "List.map_filter drain_step_of (new_events s (Adc_appPrintResult env k s)) =
      List.map_filter drain_step_of (Adc_appPrintResult_skel env)"
    by (subst map_filter_via_skel [OF drain_step_of_skel]) simp
  also have "\<dots> = concat (replicate ADC_APP_LOG_SIZE (tick_steps env))"
    by (simp add: Adc_appPrintResult_skel_def map_filter_concat drain_steps_poll_skel
        drain_step_of_def)
  finally show ?thesis .
qed

lemma drain_steps_Test:
  "List.map_filter drain_step_of (new_events s (Adc_appTest env s)) =
     map StatusRead [0..<ADC_MAX_GROUP env]
     @ concat (replicate ADC_APP_LOOPCNT (concat (replicate ADC_APP_LOG_SIZE (tick_steps env))))"
proof -
  have pr: "List.map_filter drain_step_of (Adc_appPrintResult_skel env) =
      concat (replicate ADC_APP_LOG_SIZE (tick_steps env))"
    by (simp add: Adc_appPrintResult_skel_def map_filter_concat drain_steps_poll_skel
        drain_step_of_def)
  have it: "List.map_filter drain_step_of (Adc_appTest_iteration_skel env) =
      concat (replicate ADC_APP_LOG_SIZE (tick_steps env))"
    by (simp add: Adc_appTest_iteration_skel_def map_filter_append pr
        map_filter_map_None Adc_appEpwmEnable_skel_def drain_step_of_def)
  have st: "List.map_filter drain_step_of (Adc_appTest_setup_skel g) = [StatusRead g]" for g
    by (simp add: Adc_appTest_setup_skel_def drain_step_of_def)
  have sts: "concat (map (\<lambda>g. [StatusRead g]) xs) = map StatusRead xs" for xs
    by (induction xs) simp_all
  have "List.map_filter drain_step_of (new_events s (Adc_appTest env s)) =
      List.map_filter drain_step_of (Adc_appTest_skel env)"
    by (subst map_filter_via_skel [OF drain_step_of_skel]) (simp add: skeleton_new_events_Test)
  also have "\<dots> = map StatusRead [0..<ADC_MAX_GROUP env]
     @ concat (replicate ADC_APP_LOOPCNT (concat (replicate ADC_APP_LOG_SIZE (tick_steps env))))"
    by (simp add: Adc_appTest_skel_def map_filter_append map_filter_concat it st sts o_def)
  finally show ?thesis .
qed

text \<open>
  Claim C4. A poll tick issues exactly five events, in this order: the cache invalidate
  of all \<^verbatim>\<open>sizeof(gAdcAppDmaBuffer)\<close> bytes of the DMA buffer, immediately followed by the
  read of \<^verbatim>\<open>gAdcAppDmaBuffer[0][0]\<close>, the read of the hardware result register, the
  status query of group 0, and \<^verbatim>\<open>AppUtils_delay(100)\<close>; it stores the three values read
  into the log entry of that tick. \<^verbatim>\<open>Adc_appPrintResult\<close> runs exactly
  \<^verbatim>\<open>ADC_APP_LOG_SIZE\<close> = 10 such ticks and no other invalidate, read, status query or
  delay; \<^verbatim>\<open>Adc_appTest\<close> does so in each of its ten iterations (after the status query
  of each group at set-up). With a log of ten entries, the log after
  \<^verbatim>\<open>Adc_appPrintResult\<close> is exactly the samples of the ten ticks, in tick order.
\<close>

theorem drain_phase_polls_and_logs_each_tick:
  "new_events s (Adc_appPrintResult_poll env a i s) =
     [Mcal_CacheP_inv (Addr_gAdcAppDmaBuffer 0 0) (sizeof_gAdcAppDmaBuffer env) Mcal_CacheP_TYPE_ALL,
      Load_gAdcAppDmaBuffer 0 0 (dmaBuff (Adc_appPrintResult_poll_entry env a s)),
      Load16 a (hwResult (Adc_appPrintResult_poll_entry env a s)),
      Adc_GetGroupStatus 0 (status (Adc_appPrintResult_poll_entry env a s)),
      AppUtils_delay 100] \<and>
   gAdcAppLog (Adc_appPrintResult_poll env a i s) =
     (gAdcAppLog s)[i := Adc_appPrintResult_poll_entry env a s] \<and>
   List.map_filter drain_step_of (new_events s (Adc_appPrintResult env k s)) =
     concat (replicate ADC_APP_LOG_SIZE (tick_steps env)) \<and>
   List.map_filter drain_step_of (new_events s (Adc_appTest env s)) =
     map StatusRead [0..<ADC_MAX_GROUP env]
     @ concat (replicate ADC_APP_LOOPCNT (concat (replicate ADC_APP_LOG_SIZE (tick_steps env)))) \<and>
   (length (gAdcAppLog s) = ADC_APP_LOG_SIZE \<longrightarrow>
      gAdcAppLog (Adc_appPrintResult env k s) =
        entries_of (samples (new_events s (Adc_appPrintResult env k s))))"
proof -
  have "gAdcAppLog (Adc_appPrintResult env k s) =
      entries_of (samples (new_events s (Adc_appPrintResult env k s)))"
    if "length (gAdcAppLog s) = ADC_APP_LOG_SIZE"
    by (rule log_is_samples) (simp_all add: PrintResult_log that)
  then show ?thesis
    by (simp add: poll_events poll_log drain_steps_PrintResult drain_steps_Test)
qed

theorem drain_phase_polls_and_logs_each_tick_witness:
  "length (gAdcAppLog app_start) = ADC_APP_LOG_SIZE \<and>
   gAdcAppLog (Adc_appPrintResult idle_platform 0 app_start) =
     entries_of (samples (new_events app_start (Adc_appPrintResult idle_platform 0 app_start))) \<and>
   length (gAdcAppLog (Adc_appPrintResult idle_platform 0 app_start)) = 10"
proof -
  have len: "length (gAdcAppLog app_start) = ADC_APP_LOG_SIZE"
    by (simp add: app_start_def)
  have len': "length (gAdcAppLog (Adc_appPrintResult idle_platform 0 app_start)) = 10"
    by (simp add: app_start_def ADC_APP_LOG_SIZE_def)
  from drain_phase_polls_and_logs_each_tick [of app_start idle_platform _ _ 0] len
  have "gAdcAppLog (Adc_appPrintResult idle_platform 0 app_start) =
     entries_of (samples (new_events app_start (Adc_appPrintResult idle_platform 0 app_start)))"
    by blast
  with len len' show ?thesis by blast
qed

section \<open>Order and lifetime of log entries (claim C8)\<close>

text \<open>
  A platform on which the buffered DMA value is 0 until the ADC hardware trigger has
  been disabled for the first time, and 1 from then on.
\<close>

definition drifting_platform :: platform where
  "drifting_platform =
     idle_platform\<lparr>Load_gAdcAppDmaBuffer_val :=
       (\<lambda>h g i. if Adc_DisableHardwareTrigger 0 \<in> set h then 1 else 0)\<rparr>"

text \<open>The state in which the iteration loop of the run on this platform starts.\<close>

definition drifting_run_start :: app_state where
  "drifting_run_start = Adc_appTest_after_setup drifting_platform app_start"

lemma after_setup_log [simp]: "gAdcAppLog (Adc_appTest_after_setup env s) = gAdcAppLog s"
  by (simp add: Adc_appTest_after_setup_def for_loop_frames)

lemma drifting_run_start_quiet:
  "Adc_DisableHardwareTrigger 0 \<notin> set (skeleton (trace drifting_run_start))"
proof -
  have "trace drifting_run_start = setup_events drifting_platform app_start"
    by (simp add: drifting_run_start_def setup_events_def new_events_def app_start_def)
  then show ?thesis
    by (auto simp: skeleton_setup_events Adc_appTest_setup_skel_def)
qed

lemma drifting_run_start_length: "0 < length (gAdcAppLog drifting_run_start)"
  by (simp add: drifting_run_start_def app_start_def ADC_APP_LOG_SIZE_def)

lemma drifting_first_iteration:
  "dmaBuff (gAdcAppLog (Adc_appTest_iteration drifting_platform 0 drifting_run_start) ! 0) = 0"
proof -
  have "Adc_DisableHardwareTrigger 0 \<notin>
      set (skeleton (trace (drain_start drifting_platform 0 drifting_run_start)))"
    using drifting_run_start_quiet
    by (auto simp: skel_drain_start drain_start_skel_def Adc_appEpwmEnable_skel_def)
  then have "Adc_DisableHardwareTrigger 0 \<notin> set (trace (drain_start drifting_platform 0 drifting_run_start))"
    by (simp add: DisableHardwareTrigger_in_skeleton)
  then show ?thesis
    using drifting_run_start_length
    by (simp add: iteration_first_sample) (simp add: drifting_platform_def)
qed

lemma drifting_second_iteration:
  "dmaBuff (gAdcAppLog (Adc_appTest_iteration drifting_platform 1
      (Adc_appTest_iteration drifting_platform 0 drifting_run_start)) ! 0) = 1"
proof -
  let ?s1 = "Adc_appTest_iteration drifting_platform 0 drifting_run_start"
  have "Adc_DisableHardwareTrigger 0 \<in> set (skeleton (trace ?s1))"
    by (simp add: skel_iteration Adc_appTest_iteration_skel_def ADC_APP_GROUP_ID_def)
  then have "Adc_DisableHardwareTrigger 0 \<in> set (trace ?s1)"
    by (simp add: DisableHardwareTrigger_in_skeleton)
  moreover have "prefix (trace ?s1) (trace (drain_start drifting_platform 1 ?s1))"
    by simp
  ultimately have "Adc_DisableHardwareTrigger 0 \<in> set (trace (drain_start drifting_platform 1 ?s1))"
    using set_mono_prefix by blast
  moreover have "0 < length (gAdcAppLog ?s1)"
    using drifting_run_start_length by simp
  ultimately show ?thesis
    by (simp add: iteration_first_sample) (simp add: drifting_platform_def)
qed

text \<open>
  Every iteration calls \<^verbatim>\<open>Adc_appPrintResult\<close>, which fills the same ten entries again:
  on the platform above, entry 0 holds the buffered value 0 after the first iteration
  of the run and 1 after the second. An entry once written is therefore mutated
  later in the run.
\<close>

theorem log_entry_rewritten_by_next_iteration_counterexample:
  "dmaBuff (gAdcAppLog (Adc_appTest_iteration drifting_platform 0 drifting_run_start) ! 0) = 0 \<and>
   dmaBuff (gAdcAppLog (Adc_appTest_iteration drifting_platform 1
      (Adc_appTest_iteration drifting_platform 0 drifting_run_start)) ! 0) = 1"
  using drifting_first_iteration drifting_second_iteration by simp

text \<open>
  Claim C8, amended. Within one iteration the log is filled in strictly increasing
  index order and an entry once written is not written again in that iteration: the
  ticks from index \<open>i\<close> on leave the entries below \<open>i\<close> as they are, the ticks below \<open>i\<close>
  leave the entries from \<open>i\<close> on as they are, tick \<open>i\<close> writes entry \<open>i\<close> only, and no other
  function of the file writes the log (\<^verbatim>\<open>Adc_appInit\<close>, when it returns, the set-up loop
  and the hooks only issue events). So, with a log of ten entries, the log at the
  end of an iteration is exactly that iteration's samples in poll order. (The next
  iteration overwrites all ten entries.)
\<close>

theorem log_filled_in_index_order_within_an_iteration:
  "take i (gAdcAppLog (for_loop i n (Adc_appPrintResult_poll env a) s)) = take i (gAdcAppLog s) \<and>
   drop i (gAdcAppLog (for_loop 0 i (Adc_appPrintResult_poll env a) s)) = drop i (gAdcAppLog s) \<and>
   gAdcAppLog (Adc_appPrintResult_poll env a i s) =
     (gAdcAppLog s)[i := Adc_appPrintResult_poll_entry env a s] \<and>
   gAdcAppLog (Adc_appPrintResult_show i s) = gAdcAppLog s \<and>
   gAdcAppLog (Adc_appPrintResult_group env i s) = gAdcAppLog s \<and>
   gAdcAppLog (Adc_appPrintStatus g st s) = gAdcAppLog s \<and>
   gAdcAppLog (Adc_appEpwmEnable b s) = gAdcAppLog s \<and>
   gAdcAppLog (Adc_appDisableTrigger b s) = gAdcAppLog s \<and>
   gAdcAppLog (Adc_appDmaConfigure env d l c a s) = gAdcAppLog s \<and>
   gAdcAppLog (Adc_appDmaTransferCallback s) = gAdcAppLog s \<and>
   gAdcAppLog (Adc_appDeInit env s) = gAdcAppLog s \<and>
   gAdcAppLog (Adc_appTest_after_setup env s) = gAdcAppLog s \<and>
   list_all (\<lambda>f. only_emits s (f s)) file_hooks \<and>
   (Adc_appInit env s = Some s' \<longrightarrow> only_emits s s') \<and>
   (length (gAdcAppLog s) = ADC_APP_LOG_SIZE \<longrightarrow>
      gAdcAppLog (Adc_appTest_iteration env k s) =
        entries_of (samples (new_events s (Adc_appTest_iteration env k s))))"
proof -
  have "gAdcAppLog (Adc_appTest_iteration env k s) =
      entries_of (samples (new_events s (Adc_appTest_iteration env k s)))"
    if "length (gAdcAppLog s) = ADC_APP_LOG_SIZE"
    by (rule log_is_samples) (simp_all add: iteration_log that)
  moreover have "take i (gAdcAppLog (for_loop i n (Adc_appPrintResult_poll env a) s)) = take i (gAdcAppLog s)"
    unfolding for_loop_fold by (rule poll_fold_take) simp
  moreover have "drop i (gAdcAppLog (for_loop 0 i (Adc_appPrintResult_poll env a) s)) = drop i (gAdcAppLog s)"
    unfolding for_loop_fold by (rule poll_fold_drop) simp
  moreover have "Adc_appInit env s = Some s' \<longrightarrow> only_emits s s'"
    by (simp add: Init_only_emits)
  ultimately show ?thesis
    using file_hooks_only_emit [of s] by (simp add: poll_log)
qed

theorem log_filled_in_index_order_within_an_iteration_witness:
  "(\<exists>s1. Adc_appInit idle_platform app_start = Some s1 \<and> gAdcAppLog s1 = gAdcAppLog app_start) \<and>
   length (gAdcAppLog app_start) = ADC_APP_LOG_SIZE \<and>
   gAdcAppLog (Adc_appTest_iteration drifting_platform 0 app_start) =
     entries_of (samples (new_events app_start (Adc_appTest_iteration drifting_platform 0 app_start)))"
proof -
  have len: "length (gAdcAppLog app_start) = ADC_APP_LOG_SIZE"
    by (simp add: app_start_def)
  from Init_returns [OF demo_terminates(1)] obtain s1 where
    s1: "Adc_appInit idle_platform app_start = Some s1" by blast
  with log_filled_in_index_order_within_an_iteration
    [where s = app_start and env = idle_platform and s' = s1]
  have "only_emits app_start s1" by blast
  with s1 have i: "\<exists>s1. Adc_appInit idle_platform app_start = Some s1 \<and>
      gAdcAppLog s1 = gAdcAppLog app_start"
    by (auto simp: only_emits_def)
  from log_filled_in_index_order_within_an_iteration
    [where s = app_start and env = drifting_platform] len
  have "gAdcAppLog (Adc_appTest_iteration drifting_platform 0 app_start) =
     entries_of (samples (new_events app_start (Adc_appTest_iteration drifting_platform 0 app_start)))"
    by blast
  with i len show ?thesis by blast
qed

end
